theory Spec2Isabelle
  imports Complex_Main "HOL-Library.Word" "HOL-Library.Multiset"
begin

section \<open>Python errors and results\<close>

text \<open>
  The module \<^verbatim>\<open>edit_dataset.py\<close> defines three dataset classes,
  \<^verbatim>\<open>EpicEditDataset\<close>, \<^verbatim>\<open>EditDataset\<close> and \<^verbatim>\<open>EditDatasetEval\<close>.
  Every exception that the module or one of the library calls it makes can raise is a
  value of \<open>error\<close>; a computation that may raise returns \<open>error + 'a\<close>.
\<close>

datatype error =
    AssertionError
  | KeyError
  | IndexError
  | ValueError
  | RuntimeError
  | OverflowError
  | FileNotFoundError
  | DecodeError
  | EinopsError

definition and_then :: "error + 'a \<Rightarrow> ('a \<Rightarrow> error + 'b) \<Rightarrow> error + 'b" where
  "and_then m f = (case m of Inl e \<Rightarrow> Inl e | Inr x \<Rightarrow> f x)"

section \<open>Strings, number formatting and paths\<close>

definition digit_char :: "nat \<Rightarrow> char" where
  "digit_char d = char_of (48 + d)"

definition digit_value :: "char \<Rightarrow> nat" where
  "digit_value c = of_char c - 48"

definition is_digit :: "char \<Rightarrow> bool" where
  "is_digit c \<longleftrightarrow> (48::nat) \<le> of_char c \<and> of_char c \<le> (57::nat)"

text \<open>The decimal digits of a natural number, most significant first (\<^verbatim>\<open>str(n)\<close>).\<close>

fun str_nat :: "nat \<Rightarrow> string" where
  "str_nat n = (if n < 10 then [digit_char n] else str_nat (n div 10) @ [digit_char (n mod 10)])"

declare str_nat.simps [simp del]

definition str_int :: "int \<Rightarrow> string" where
  "str_int i = (if i < 0 then CHR ''-'' # str_nat (nat (- i)) else str_nat (nat i))"

text \<open>The number that a string of decimal digits denotes.\<close>

definition decimal_value :: "string \<Rightarrow> nat" where
  "decimal_value s = foldl (\<lambda>a c. 10 * a + digit_value c) 0 s"

definition zfill :: "nat \<Rightarrow> string \<Rightarrow> string" where
  "zfill width s = replicate (width - length s) (CHR ''0'') @ s"

text \<open>
  Python's format specification \<^verbatim>\<open>0{width}d\<close>: the zero padding is sign-aware, the sign
  comes first and counts towards the width; a number too long for the width is never cut.
\<close>

definition format_0d :: "nat \<Rightarrow> int \<Rightarrow> string" where
  "format_0d width i =
     (if i < 0 then CHR ''-'' # zfill (width - 1) (str_nat (nat (- i)))
      else zfill width (str_nat (nat i)))"

text \<open>
  \<^verbatim>\<open>os.path.join\<close> on POSIX: an absolute component discards what came before it, and a
  separator is inserted unless the path so far is empty or ends with one. The joins written
  with \<^verbatim>\<open>pathlib.Path\<close> are modelled by the same function.
\<close>

fun os_path_join :: "string \<Rightarrow> string list \<Rightarrow> string" where
  "os_path_join a [] = a"
| "os_path_join a (b # p) =
     os_path_join
       (if b \<noteq> [] \<and> hd b = CHR ''/'' then b
        else if a = [] \<or> last a = CHR ''/'' then a @ b
        else a @ ''/'' @ b) p"

section \<open>Lists: indexing and slicing as Python does them\<close>

text \<open>\<^verbatim>\<open>xs[i]\<close>: a negative index counts from the end, an index out of range raises.\<close>

definition py_index :: "'a list \<Rightarrow> int \<Rightarrow> error + 'a" where
  "py_index xs i =
     (if - int (length xs) \<le> i \<and> i < 0 then Inr (xs ! nat (i + int (length xs)))
      else if 0 \<le> i \<and> i < int (length xs) then Inr (xs ! nat i)
      else Inl IndexError)"

text \<open>
  \<^verbatim>\<open>xs[a:b]\<close>: a negative bound counts from the end, both bounds are clamped to the list,
  and the slice is empty when the bounds cross. It never raises.
\<close>

definition slice_bound :: "nat \<Rightarrow> int \<Rightarrow> nat" where
  "slice_bound n a = (if a < 0 then nat (max (int n + a) 0) else min (nat a) n)"

definition py_slice :: "'a list \<Rightarrow> int \<Rightarrow> int \<Rightarrow> 'a list" where
  "py_slice xs a b =
     (let lo = slice_bound (length xs) a; hi = slice_bound (length xs) b
      in take (hi - lo) (drop lo xs))"

section \<open>Images, tensors and the files on disk\<close>

text \<open>
  A decoded JPEG image is an array of 8-bit samples: height by width for a greyscale
  image, height by width by channels otherwise (what \<^verbatim>\<open>np.array(image)\<close> returns).
  A tensor is a channels by height by width array of floats.
\<close>

datatype image = Grey "8 word list list" | Colour "8 word list list list"

type_synonym tensor = "real list list list"

datatype pyval = Tensor tensor | Str string | Dict "(string \<times> pyval) list"

record epic_row =
  participant_id :: string
  video_id :: string
  start_frame :: int
  stop_frame :: int
  row_narration :: string

datatype disk_file =
    ImageFile image
  | SeedsFile "(string \<times> int list) list"
  | PromptFile "(string \<times> string) list"
  | InfoFile
  | CsvFile "epic_row list"

type_synonym disk = "string \<Rightarrow> disk_file option"

definition image_open :: "disk \<Rightarrow> string \<Rightarrow> error + image" where
  "image_open d p =
     (case d p of None \<Rightarrow> Inl FileNotFoundError
      | Some (ImageFile im) \<Rightarrow> Inr im
      | Some _ \<Rightarrow> Inl DecodeError)"

definition load_seeds :: "disk \<Rightarrow> string \<Rightarrow> error + (string \<times> int list) list" where
  "load_seeds d p =
     (case d p of None \<Rightarrow> Inl FileNotFoundError
      | Some (SeedsFile s) \<Rightarrow> Inr s
      | Some _ \<Rightarrow> Inl DecodeError)"

definition load_prompt :: "disk \<Rightarrow> string \<Rightarrow> error + (string \<times> string) list" where
  "load_prompt d p =
     (case d p of None \<Rightarrow> Inl FileNotFoundError
      | Some (PromptFile s) \<Rightarrow> Inr s
      | Some _ \<Rightarrow> Inl DecodeError)"

definition load_info :: "disk \<Rightarrow> string \<Rightarrow> error + unit" where
  "load_info d p =
     (case d p of None \<Rightarrow> Inl FileNotFoundError
      | Some InfoFile \<Rightarrow> Inr ()
      | Some _ \<Rightarrow> Inl DecodeError)"

definition read_csv :: "disk \<Rightarrow> string \<Rightarrow> error + epic_row list" where
  "read_csv d p =
     (case d p of None \<Rightarrow> Inl FileNotFoundError
      | Some (CsvFile rows) \<Rightarrow> Inr rows
      | Some _ \<Rightarrow> Inl DecodeError)"

text \<open>\<^verbatim>\<open>prompt[key]\<close> on the loaded JSON object.\<close>

definition dict_get :: "(string \<times> 'v) list \<Rightarrow> string \<Rightarrow> error + 'v" where
  "dict_get kvs k = (case map_of kvs k of None \<Rightarrow> Inl KeyError | Some v \<Rightarrow> Inr v)"

section \<open>Floating point, resampling and random numbers\<close>

text \<open>
  The libraries under the module are parameters of the model. A floating-point operation
  is the exact operation on the reals followed by a rounding function: \<open>fl64\<close> rounds
  Python's floats, \<open>fl32\<close> rounds the elements of a \<^verbatim>\<open>torch\<close> float tensor. The Lanczos
  resampling of \<^verbatim>\<open>Image.resize\<close> is the function \<open>lanczos\<close>, from the target size and an
  image to the resized image.
\<close>

record lib =
  fl64 :: "real \<Rightarrow> real"
  fl32 :: "real \<Rightarrow> real"
  lanczos :: "nat \<Rightarrow> image \<Rightarrow> image"

text \<open>
  What the theorems below assume of a rounding function with \<open>p\<close> bits of precision: it is
  monotone and it leaves every integer of magnitude up to \<open>2 ^ p\<close> as it is.
\<close>

definition rounding :: "nat \<Rightarrow> (real \<Rightarrow> real) \<Rightarrow> bool" where
  "rounding p fl \<longleftrightarrow>
     (\<forall>x y. x \<le> y \<longrightarrow> fl x \<le> fl y) \<and> (\<forall>k::int. \<bar>k\<bar> \<le> 2 ^ p \<longrightarrow> fl (of_int k) = of_int k)"

text \<open>The shape of a tensor and of an image.\<close>

definition tensor_height :: "'a list list list \<Rightarrow> nat" where
  "tensor_height t = (case t of [] \<Rightarrow> 0 | ch # _ \<Rightarrow> length ch)"

definition tensor_width :: "'a list list list \<Rightarrow> nat" where
  "tensor_width t = (case t of [] \<Rightarrow> 0 | ch # _ \<Rightarrow> (case ch of [] \<Rightarrow> 0 | row # _ \<Rightarrow> length row))"

definition tensor_shaped :: "nat \<Rightarrow> nat \<Rightarrow> nat \<Rightarrow> 'a list list list \<Rightarrow> bool" where
  "tensor_shaped c h w t \<longleftrightarrow>
     length t = c \<and> (\<forall>ch \<in> set t. length ch = h \<and> (\<forall>row \<in> set ch. length row = w))"

text \<open>A colour image of the given height, width and number of channels.\<close>

definition colour_shaped :: "nat \<Rightarrow> nat \<Rightarrow> nat \<Rightarrow> image \<Rightarrow> bool" where
  "colour_shaped h w c im \<longleftrightarrow>
     (case im of Grey _ \<Rightarrow> False
      | Colour px \<Rightarrow> length px = h \<and> (\<forall>row \<in> set px. length row = w \<and> (\<forall>p \<in> set row. length p = c)))"

definition image_channels :: "image \<Rightarrow> nat" where
  "image_channels im =
     (case im of Grey _ \<Rightarrow> 0
      | Colour px \<Rightarrow> (case px of [] \<Rightarrow> 0 | row # _ \<Rightarrow> (case row of [] \<Rightarrow> 0 | p # _ \<Rightarrow> length p)))"

text \<open>
  What the theorems assume of the resampling: resizing a colour image (of positive height,
  width and number of channels) to a positive size gives a colour image of that size with
  as many channels.
\<close>

definition resampling :: "(nat \<Rightarrow> image \<Rightarrow> image) \<Rightarrow> bool" where
  "resampling rs \<longleftrightarrow>
     (\<forall>r h w c im.
        0 < r \<and> 0 < h \<and> 0 < w \<and> 0 < c \<and> colour_shaped h w c im \<longrightarrow> colour_shaped r r c (rs r im))"

text \<open>
  The state of a random number generator is the sequence of raw numbers it will produce.
  \<^verbatim>\<open>torch.randint(low, high, ())\<close> takes its bounds as 64-bit signed integers and raises
  (\<^verbatim>\<open>RuntimeError\<close>, overflow when unpacking) for a Python integer outside that range; it
  raises unless \<open>low < high\<close> and returns a number in \<open>[low, high)\<close>.
  \<^verbatim>\<open>torch.rand(1)\<close> returns a float in \<open>[0, 1)\<close> with 24 random bits.
\<close>

definition int64 :: "int \<Rightarrow> bool" where
  "int64 k \<longleftrightarrow> - (2 ^ 63) \<le> k \<and> k < 2 ^ 63"

type_synonym rng = "nat \<Rightarrow> nat"

definition rng_tail :: "rng \<Rightarrow> rng" where
  "rng_tail g = (\<lambda>i. g (Suc i))"

definition torch_randint :: "int \<Rightarrow> int \<Rightarrow> rng \<Rightarrow> error + (int \<times> rng)" where
  "torch_randint low high g =
     (if \<not> int64 low \<or> \<not> int64 high then Inl RuntimeError
      else if high \<le> low then Inl RuntimeError
      else Inr (low + int (g 0) mod (high - low), rng_tail g))"

definition torch_rand :: "rng \<Rightarrow> real \<times> rng" where
  "torch_rand g = (real (g 0 mod 2 ^ 24) / 2 ^ 24, rng_tail g)"

text \<open>
  \<^verbatim>\<open>np.random.shuffle\<close> on a Python list: for \<open>i\<close> from the last index down to 1, swap the
  element at \<open>i\<close> with the one at a random index in \<open>[0, i]\<close>.
\<close>

fun shuffle_from :: "nat \<Rightarrow> 'a list \<Rightarrow> rng \<Rightarrow> 'a list \<times> rng" where
  "shuffle_from 0 xs g = (xs, g)"
| "shuffle_from (Suc i) xs g =
     (if i = 0 then (xs, g)
      else let j = g 0 mod (i + 1)
           in shuffle_from i (xs[i := xs ! j, j := xs ! i]) (rng_tail g))"

definition np_random_shuffle :: "'a list \<Rightarrow> rng \<Rightarrow> 'a list \<times> rng" where
  "np_random_shuffle xs g = shuffle_from (length xs) xs g"

section \<open>The image pipeline\<close>

text \<open>
  \<^verbatim>\<open>image.resize((res, res), Image.Resampling.LANCZOS)\<close>: the size must be positive.
\<close>

definition image_resize :: "lib \<Rightarrow> int \<Rightarrow> image \<Rightarrow> error + image" where
  "image_resize L reize_res im =
     (if reize_res \<le> 0 then Inl ValueError else Inr (lanczos L (nat reize_res) im))"

text \<open>
  \<^verbatim>\<open>2 * torch.tensor(np.array(image)).float() / 255 - 1\<close> on one sample: three float
  operations, each rounded.
\<close>

definition normalize_sample :: "(real \<Rightarrow> real) \<Rightarrow> 8 word \<Rightarrow> real" where
  "normalize_sample fl v = fl (fl (fl (2 * real (unat v)) / 255) - 1)"

text \<open>\<^verbatim>\<open>rearrange(t, "h w c -> c h w")\<close>.\<close>

definition rearrange_hwc_chw :: "'a list list list \<Rightarrow> 'a list list list" where
  "rearrange_hwc_chw t = transpose (map transpose t)"

text \<open>
  The normalized tensor of an image; \<^verbatim>\<open>rearrange\<close> refuses the two-dimensional array of
  a greyscale image.
\<close>

definition image_to_tensor :: "lib \<Rightarrow> image \<Rightarrow> error + tensor" where
  "image_to_tensor L im =
     (case im of
        Grey _ \<Rightarrow> Inl EinopsError
      | Colour px \<Rightarrow> Inr (rearrange_hwc_chw (map (map (map (normalize_sample (fl32 L)))) px)))"

text \<open>\<^verbatim>\<open>torch.cat((a, b))\<close> along the channel axis: the other dimensions must agree.\<close>

definition torch_cat :: "tensor \<Rightarrow> tensor \<Rightarrow> error + tensor" where
  "torch_cat a b =
     (if tensor_height a = tensor_height b \<and> tensor_width a = tensor_width b
      then Inr (a @ b) else Inl RuntimeError)"

text \<open>The crop window of \<^verbatim>\<open>torchvision\<close>: rows \<open>[i, i + h)\<close>, columns \<open>[j, j + w)\<close>.\<close>

definition crop_channel :: "nat \<Rightarrow> nat \<Rightarrow> nat \<Rightarrow> nat \<Rightarrow> 'a list list \<Rightarrow> 'a list list" where
  "crop_channel i j h w ch = map (\<lambda>row. take w (drop j row)) (take h (drop i ch))"

definition crop :: "nat \<Rightarrow> nat \<Rightarrow> nat \<Rightarrow> nat \<Rightarrow> tensor \<Rightarrow> tensor" where
  "crop i j h w t = map (crop_channel i j h w) t"

definition hflip :: "tensor \<Rightarrow> tensor" where
  "hflip t = map (map rev) t"

text \<open>
  \<^verbatim>\<open>RandomCrop.get_params\<close>: an image smaller than the crop raises, an image of exactly
  the crop size draws no random number, otherwise the offsets are drawn, rows first.
\<close>

definition crop_params :: "nat \<Rightarrow> nat \<Rightarrow> nat \<Rightarrow> rng \<Rightarrow> error + ((nat \<times> nat) \<times> rng)" where
  "crop_params crop_size h w g =
     (if h < crop_size \<or> w < crop_size then Inl ValueError
      else if w = crop_size \<and> h = crop_size then Inr ((0, 0), g)
      else and_then (torch_randint 0 (int h - int crop_size + 1) g) (\<lambda>(i, g1).
           and_then (torch_randint 0 (int w - int crop_size + 1) g1) (\<lambda>(j, g2).
           Inr ((nat i, nat j), g2))))"

definition RandomCrop :: "nat \<Rightarrow> tensor \<Rightarrow> rng \<Rightarrow> error + (tensor \<times> rng)" where
  "RandomCrop crop_size t g =
     and_then (crop_params crop_size (tensor_height t) (tensor_width t) g) (\<lambda>((i, j), g1).
     Inr (crop i j crop_size crop_size t, g1))"

text \<open>\<^verbatim>\<open>RandomHorizontalFlip(p)\<close>: flips when \<^verbatim>\<open>torch.rand(1) < p\<close>.\<close>

definition flip_decision :: "real \<Rightarrow> rng \<Rightarrow> bool" where
  "flip_decision p g \<longleftrightarrow> fst (torch_rand g) < p"

definition RandomHorizontalFlip :: "real \<Rightarrow> tensor \<Rightarrow> rng \<Rightarrow> tensor \<times> rng" where
  "RandomHorizontalFlip p t g = (if flip_decision p g then hflip t else t, snd (torch_rand g))"

text \<open>
  \<^verbatim>\<open>a, b = t.chunk(2)\<close>: chunks of \<open>\<lceil>n / 2\<rceil>\<close> channels; unpacking into two names raises
  unless there are two chunks.
\<close>

definition chunk2 :: "tensor \<Rightarrow> error + (tensor \<times> tensor)" where
  "chunk2 t =
     (let k = (length t + 1) div 2
      in if length t < 2 then Inl ValueError else Inr (take k t, drop k t))"

text \<open>
  The three lines that \<^verbatim>\<open>EpicEditDataset.__getitem__\<close> and \<^verbatim>\<open>EditDataset.__getitem__\<close>
  share:
  \<^verbatim>\<open>crop = torchvision.transforms.RandomCrop(self.crop_res)\<close>,
  \<^verbatim>\<open>flip = torchvision.transforms.RandomHorizontalFlip(float(self.flip_prob))\<close>,
  \<^verbatim>\<open>image_0, image_1 = flip(crop(torch.cat((image_0, image_1)))).chunk(2)\<close>.
\<close>

definition crop_flip_chunk ::
  "nat \<Rightarrow> real \<Rightarrow> tensor \<Rightarrow> tensor \<Rightarrow> rng \<Rightarrow> error + (tensor \<times> tensor \<times> rng)" where
  "crop_flip_chunk crop_size p image_0 image_1 g =
     and_then (torch_cat image_0 image_1) (\<lambda>both.
     and_then (RandomCrop crop_size both g) (\<lambda>(cropped, g1).
     and_then (chunk2 (fst (RandomHorizontalFlip p cropped g1))) (\<lambda>(out_0, out_1).
     Inr (out_0, out_1, snd (RandomHorizontalFlip p cropped g1)))))"

section \<open>The split of the manifest\<close>

text \<open>
  The proportions are finite floats. \<^verbatim>\<open>sum(splits)\<close>: the additions from left to right,
  starting from 0, each one rounded (the sum of CPython up to version 3.11).
\<close>

definition py_sum :: "(real \<Rightarrow> real) \<Rightarrow> real \<times> real \<times> real \<Rightarrow> real" where
  "py_sum fl splits =
     (case splits of (s0, s1, s2) \<Rightarrow> fl (fl (fl (0 + s0) + s1) + s2))"

text \<open>The dictionary of the constructors, from the name of a split to its pair of bounds.\<close>

definition split_table :: "(real \<Rightarrow> real) \<Rightarrow> real \<times> real \<times> real \<Rightarrow> (string \<times> real \<times> real) list" where
  "split_table fl splits =
     (case splits of (s0, s1, s2) \<Rightarrow>
        [(''train'', (0, s0)),
         (''val'', (s0, fl (s0 + s1))),
         (''test'', (fl (s0 + s1), 1))])"

text \<open>
  A Python float that an operation returns is finite or an infinity. A product of floats
  overflows to an infinity when its exact value has a magnitude of at least
  \<open>2 ^ 1024 - 2 ^ 970\<close>, half a unit in the last place above the largest finite float;
  otherwise it is the exact value, rounded.
\<close>

datatype py_float = Finite real | Infinite

definition float_overflow :: "real \<Rightarrow> bool" where
  "float_overflow x \<longleftrightarrow> 2 ^ 1024 - 2 ^ 970 \<le> \<bar>x\<bar>"

text \<open>
  \<^verbatim>\<open>split * len(xs)\<close>, a float times an integer: the integer is converted to a float, then
  the two floats are multiplied. (A list has fewer than \<open>2 ^ 63\<close> elements, so the conversion
  itself does not overflow.)
\<close>

definition float_mul_int :: "(real \<Rightarrow> real) \<Rightarrow> real \<Rightarrow> nat \<Rightarrow> py_float" where
  "float_mul_int fl a n =
     (if float_overflow (a * fl (real n)) then Infinite else Finite (fl (a * fl (real n))))"

text \<open>\<^verbatim>\<open>math.floor\<close> raises \<^verbatim>\<open>OverflowError\<close> on an infinity.\<close>

definition math_floor :: "py_float \<Rightarrow> error + int" where
  "math_floor x = (case x of Finite r \<Rightarrow> Inr \<lfloor>r\<rfloor> | Infinite \<Rightarrow> Inl OverflowError)"

text \<open>
  \<^verbatim>\<open>idx_0 = math.floor(split_0 * len(xs))\<close>, \<^verbatim>\<open>idx_1 = math.floor(split_1 * len(xs))\<close>,
  \<^verbatim>\<open>xs[idx_0:idx_1]\<close>.
\<close>

definition split_slice :: "(real \<Rightarrow> real) \<Rightarrow> real \<times> real \<Rightarrow> 'a list \<Rightarrow> error + 'a list" where
  "split_slice fl bounds xs =
     and_then (math_floor (float_mul_int fl (fst bounds) (length xs))) (\<lambda>idx_0.
     and_then (math_floor (float_mul_int fl (snd bounds) (length xs))) (\<lambda>idx_1.
     Inr (py_slice xs idx_0 idx_1)))"

section \<open>EpicEditDataset\<close>

text \<open>
  One entry of \<^verbatim>\<open>self.metadata\<close>: the dictionary with the keys \<^verbatim>\<open>part\<close>, \<^verbatim>\<open>clip\<close>,
  \<^verbatim>\<open>start\<close>, \<^verbatim>\<open>stop\<close> and \<^verbatim>\<open>narration\<close>, which \<^verbatim>\<open>__getitem__\<close> unpacks in this order.
\<close>

record epic_meta =
  part :: string
  clip :: string
  start :: int
  stop :: int
  narration :: string

definition row_to_meta :: "epic_row \<Rightarrow> epic_meta" where
  "row_to_meta row =
     \<lparr>part = participant_id row, clip = video_id row,
      start = start_frame row, stop = stop_frame row, narration = row_narration row\<rparr>"

record EpicEditDataset =
  basedir :: string
  min_resize_res :: int
  max_resize_res :: int
  crop_res :: nat
  flip_prob :: real
  info :: unit
  pre_metadata :: "epic_row list"
  metadata :: "epic_meta list"

definition LENGTH_FRAME_ID :: nat where
  "LENGTH_FRAME_ID = 10"

text \<open>\<^verbatim>\<open>f'frame_{index:0{self.LENGTH_FRAME_ID}d}.jpg'\<close>\<close>

definition index_to_img_fn :: "int \<Rightarrow> string" where
  "index_to_img_fn index = ''frame_'' @ format_0d LENGTH_FRAME_ID index @ ''.jpg''"

text \<open>
  The constructor reads \<^verbatim>\<open>info.json\<close> and the annotations, shuffles the rows with the
  global generator of \<^verbatim>\<open>numpy\<close> (whose state it advances) and keeps the slice of the split.
\<close>

definition EpicEditDataset_init ::
  "lib \<Rightarrow> disk \<Rightarrow> rng \<Rightarrow> string \<Rightarrow> string \<Rightarrow> real \<times> real \<times> real \<Rightarrow> int \<Rightarrow> int \<Rightarrow> nat \<Rightarrow> real
   \<Rightarrow> error + (EpicEditDataset \<times> rng)" where
  "EpicEditDataset_init L d np_rng path' split' splits min_resize_res' max_resize_res' crop_res' flip_prob' =
     (if split' \<notin> set [''train'', ''val'', ''test''] then Inl AssertionError
      else if py_sum (fl64 L) splits \<noteq> 1 then Inl AssertionError
      else
        and_then (load_info d (os_path_join path' [''info.json''])) (\<lambda>info'.
        and_then (read_csv d (os_path_join path' [''EPIC100_annotations.csv''])) (\<lambda>rows.
        and_then (dict_get (split_table (fl64 L) splits) split') (\<lambda>bounds.
        and_then (split_slice (fl64 L) bounds (fst (np_random_shuffle (map row_to_meta rows) np_rng)))
          (\<lambda>kept.
        Inr (\<lparr>basedir = path',
              min_resize_res = min_resize_res', max_resize_res = max_resize_res',
              crop_res = crop_res', flip_prob = flip_prob',
              info = info', pre_metadata = rows,
              metadata = kept\<rparr>,
             snd (np_random_shuffle (map row_to_meta rows) np_rng)))))))"

text \<open>
  The methods take the object and return it with their result, so that what they change of
  it shows. \<^verbatim>\<open>__getitem__\<close> also takes and returns the state of the generator of \<^verbatim>\<open>torch\<close>.
\<close>

definition EpicEditDataset_len :: "EpicEditDataset \<Rightarrow> int \<times> EpicEditDataset" where
  "EpicEditDataset_len self = (int (length (metadata self)), self)"

definition EpicEditDataset_getitem ::
  "lib \<Rightarrow> disk \<Rightarrow> EpicEditDataset \<Rightarrow> rng \<Rightarrow> int \<Rightarrow> error + (pyval \<times> EpicEditDataset \<times> rng)" where
  "EpicEditDataset_getitem L d self g index =
     and_then (py_index (metadata self) index) (\<lambda>m.
     let subdir = os_path_join (basedir self) [part m, ''agentago_frames'', clip m];
         image_0_path = os_path_join subdir [index_to_img_fn (start m)];
         image_1_path = os_path_join subdir [index_to_img_fn (stop m)]
     in
     and_then (image_open d image_0_path) (\<lambda>image_0.
     and_then (image_open d image_1_path) (\<lambda>image_1.
     and_then (torch_randint (min_resize_res self) (max_resize_res self + 1) g) (\<lambda>(reize_res, g1).
     and_then (image_resize L reize_res image_0) (\<lambda>image_0.
     and_then (image_resize L reize_res image_1) (\<lambda>image_1.
     and_then (image_to_tensor L image_0) (\<lambda>image_0.
     and_then (image_to_tensor L image_1) (\<lambda>image_1.
     and_then (crop_flip_chunk (crop_res self) (flip_prob self) image_0 image_1 g1) (\<lambda>(image_0, image_1, g2).
     Inr (Dict [(''edited'', Tensor image_1),
                (''edit'', Dict [(''c_concat'', Tensor image_0), (''c_crossattn'', Str (narration m))])],
          self, g2))))))))))"

section \<open>EditDataset\<close>

record EditDataset =
  path :: string
  min_resize_res :: int
  max_resize_res :: int
  crop_res :: nat
  flip_prob :: real
  seeds :: "(string \<times> int list) list"

definition EditDataset_init ::
  "lib \<Rightarrow> disk \<Rightarrow> string \<Rightarrow> string \<Rightarrow> real \<times> real \<times> real \<Rightarrow> int \<Rightarrow> int \<Rightarrow> nat \<Rightarrow> real
   \<Rightarrow> error + EditDataset" where
  "EditDataset_init L d path' split' splits min_resize_res' max_resize_res' crop_res' flip_prob' =
     (if split' \<notin> set [''train'', ''val'', ''test''] then Inl AssertionError
      else if py_sum (fl64 L) splits \<noteq> 1 then Inl AssertionError
      else
        and_then (load_seeds d (os_path_join path' [''seeds.json''])) (\<lambda>seeds'.
        and_then (dict_get (split_table (fl64 L) splits) split') (\<lambda>bounds.
        and_then (split_slice (fl64 L) bounds seeds') (\<lambda>kept.
        Inr \<lparr>path = path',
             min_resize_res = min_resize_res', max_resize_res = max_resize_res',
             crop_res = crop_res', flip_prob = flip_prob',
             seeds = kept\<rparr>))))"

definition EditDataset_len :: "EditDataset \<Rightarrow> int \<times> EditDataset" where
  "EditDataset_len self = (int (length (seeds self)), self)"

definition EditDataset_getitem ::
  "lib \<Rightarrow> disk \<Rightarrow> EditDataset \<Rightarrow> rng \<Rightarrow> int \<Rightarrow> error + (pyval \<times> EditDataset \<times> rng)" where
  "EditDataset_getitem L d self g i =
     and_then (py_index (seeds self) i) (\<lambda>(name, seeds_i).
     let propt_dir = os_path_join (path self) [name] in
     and_then (torch_randint 0 (int (length seeds_i)) g) (\<lambda>(k, g1).
     and_then (py_index seeds_i k) (\<lambda>seed.
     and_then (load_prompt d (os_path_join propt_dir [''prompt.json''])) (\<lambda>prompt_json.
     and_then (dict_get prompt_json ''edit'') (\<lambda>prompt.
     and_then (image_open d (os_path_join propt_dir [str_int seed @ ''_0.jpg''])) (\<lambda>image_0.
     and_then (image_open d (os_path_join propt_dir [str_int seed @ ''_1.jpg''])) (\<lambda>image_1.
     and_then (torch_randint (min_resize_res self) (max_resize_res self + 1) g1) (\<lambda>(reize_res, g2).
     and_then (image_resize L reize_res image_0) (\<lambda>image_0.
     and_then (image_resize L reize_res image_1) (\<lambda>image_1.
     and_then (image_to_tensor L image_0) (\<lambda>image_0.
     and_then (image_to_tensor L image_1) (\<lambda>image_1.
     and_then (crop_flip_chunk (crop_res self) (flip_prob self) image_0 image_1 g2) (\<lambda>(image_0, image_1, g3).
     Inr (Dict [(''edited'', Tensor image_1),
                (''edit'', Dict [(''c_concat'', Tensor image_0), (''c_crossattn'', Str prompt)])],
          self, g3))))))))))))))"

section \<open>EditDatasetEval\<close>

record EditDatasetEval =
  path :: string
  res :: int
  seeds :: "(string \<times> int list) list"

definition EditDatasetEval_init ::
  "lib \<Rightarrow> disk \<Rightarrow> string \<Rightarrow> string \<Rightarrow> real \<times> real \<times> real \<Rightarrow> int \<Rightarrow> error + EditDatasetEval" where
  "EditDatasetEval_init L d path' split' splits res' =
     (if split' \<notin> set [''train'', ''val'', ''test''] then Inl AssertionError
      else if py_sum (fl64 L) splits \<noteq> 1 then Inl AssertionError
      else
        and_then (load_seeds d (os_path_join path' [''seeds.json''])) (\<lambda>seeds'.
        and_then (dict_get (split_table (fl64 L) splits) split') (\<lambda>bounds.
        and_then (split_slice (fl64 L) bounds seeds') (\<lambda>kept.
        Inr \<lparr>path = path', res = res', seeds = kept\<rparr>))))"

definition EditDatasetEval_len :: "EditDatasetEval \<Rightarrow> int \<times> EditDatasetEval" where
  "EditDatasetEval_len self = (int (length (seeds self)), self)"

definition EditDatasetEval_getitem ::
  "lib \<Rightarrow> disk \<Rightarrow> EditDatasetEval \<Rightarrow> rng \<Rightarrow> int \<Rightarrow> error + (pyval \<times> EditDatasetEval \<times> rng)" where
  "EditDatasetEval_getitem L d self g i =
     and_then (py_index (seeds self) i) (\<lambda>(name, seeds_i).
     let propt_dir = os_path_join (path self) [name] in
     and_then (torch_randint 0 (int (length seeds_i)) g) (\<lambda>(k, g1).
     and_then (py_index seeds_i k) (\<lambda>seed.
     and_then (load_prompt d (os_path_join propt_dir [''prompt.json''])) (\<lambda>prompt.
     and_then (dict_get prompt ''edit'') (\<lambda>edit.
     and_then (dict_get prompt ''input'') (\<lambda>input_prompt.
     and_then (dict_get prompt ''output'') (\<lambda>output_prompt.
     and_then (image_open d (os_path_join propt_dir [str_int seed @ ''_0.jpg''])) (\<lambda>image_0.
     and_then (torch_randint (res self) (res self + 1) g1) (\<lambda>(reize_res, g2).
     and_then (image_resize L reize_res image_0) (\<lambda>image_0.
     and_then (image_to_tensor L image_0) (\<lambda>image_0.
     Inr (Dict [(''image_0'', Tensor image_0), (''input_prompt'', Str input_prompt),
                (''edit'', Str edit), (''output_prompt'', Str output_prompt)],
          self, g2))))))))))))"

section \<open>Example data\<close>

text \<open>
  A library instance to run the model on: exact arithmetic for both rounding functions and
  nearest-neighbour resampling.
\<close>

definition nearest_resize :: "nat \<Rightarrow> image \<Rightarrow> image" where
  "nearest_resize r im =
     (case im of
        Grey rows \<Rightarrow>
          Grey (map (\<lambda>y. map (\<lambda>x. rows ! (y * length rows div r) ! (x * length (hd rows) div r)) [0..<r]) [0..<r])
      | Colour px \<Rightarrow>
          Colour (map (\<lambda>y. map (\<lambda>x. px ! (y * length px div r) ! (x * length (hd px) div r)) [0..<r]) [0..<r]))"

definition example_lib :: lib where
  "example_lib = \<lparr>fl64 = (\<lambda>x. x), fl32 = (\<lambda>x. x), lanczos = nearest_resize\<rparr>"

text \<open>Two frames of one clip, and the dataset object of a one-row annotation file.\<close>

definition frame_a :: image where
  "frame_a = Colour [[[0, 51, 102], [255, 204, 153]], [[10, 20, 30], [40, 50, 60]]]"

definition frame_b :: image where
  "frame_b = Colour [[[1, 2, 3], [4, 5, 6]], [[7, 8, 9], [250, 251, 252]]]"

definition epic_disk :: disk where
  "epic_disk = map_of
     [(''/epic/info.json'', InfoFile),
      (''/epic/EPIC100_annotations.csv'',
         CsvFile [\<lparr>participant_id = ''P01'', video_id = ''P01_01'', start_frame = 8,
                   stop_frame = 202, row_narration = ''open door''\<rparr>]),
      (''/epic/P01/agentago_frames/P01_01/frame_0000000008.jpg'', ImageFile frame_a),
      (''/epic/P01/agentago_frames/P01_01/frame_0000000202.jpg'', ImageFile frame_b)]"

definition epic_self :: EpicEditDataset where
  "epic_self =
     \<lparr>basedir = ''/epic'', min_resize_res = 2, max_resize_res = 2, crop_res = 2, flip_prob = 1,
      info = (), pre_metadata = [],
      metadata = [\<lparr>part = ''P01'', clip = ''P01_01'', start = 8, stop = 202, narration = ''open door''\<rparr>]\<rparr>"

text \<open>The normalized tensors of the two frames.\<close>

definition tensor_a :: tensor where
  "tensor_a = [[[- 1, 1], [- (47 / 51), - (35 / 51)]], [[- (3 / 5), 3 / 5], [- (43 / 51), - (31 / 51)]], [[- (1 / 5), 1 / 5], [- (13 / 17), - (9 / 17)]]]"

definition tensor_b :: tensor where
  "tensor_b = [[[- (253 / 255), - (247 / 255)], [- (241 / 255), 49 / 51]], [[- (251 / 255), - (49 / 51)], [- (239 / 255), 247 / 255]], [[- (83 / 85), - (81 / 85)], [- (79 / 85), 83 / 85]]]"

text \<open>
  A generated corpus of four samples with one seed each; the first sample has its prompt
  file and its image pair on disk.
\<close>

definition edit_disk :: disk where
  "edit_disk = map_of
     [(''/data/seeds.json'', SeedsFile [(''a'', [7]), (''b'', [7]), (''c'', [7]), (''d'', [7])]),
      (''/data/a/prompt.json'',
         PromptFile [(''input'', ''a cat''), (''edit'', ''make it a dog''), (''output'', ''a dog'')]),
      (''/data/a/7_0.jpg'', ImageFile frame_a),
      (''/data/a/7_1.jpg'', ImageFile frame_b)]"

definition edit_self :: EditDataset where
  "edit_self =
     \<lparr>EditDataset.path = ''/data'', EditDataset.min_resize_res = 2,
      EditDataset.max_resize_res = 2, EditDataset.crop_res = 2, EditDataset.flip_prob = 1,
      EditDataset.seeds = [(''a'', [7])]\<rparr>"

definition eval_self :: EditDatasetEval where
  "eval_self = \<lparr>path = ''/data'', res = 2, seeds = [(''a'', [7])]\<rparr>"

text \<open>An annotation file of two rows.\<close>

definition epic_disk2 :: disk where
  "epic_disk2 = map_of
     [(''/epic2/info.json'', InfoFile),
      (''/epic2/EPIC100_annotations.csv'',
         CsvFile [\<lparr>participant_id = ''P01'', video_id = ''P01_01'', start_frame = 8,
                   stop_frame = 202, row_narration = ''open door''\<rparr>,
                  \<lparr>participant_id = ''P01'', video_id = ''P01_01'', start_frame = 300,
                   stop_frame = 420, row_narration = ''close door''\<rparr>])]"

text \<open>A frame with four channels, as a CMYK JPEG decodes to, and its normalized tensor.\<close>

definition frame_c :: image where
  "frame_c = Colour [[[0, 51, 102, 153], [204, 255, 0, 51]], [[102, 153, 204, 255], [0, 51, 102, 153]]]"

definition tensor_c :: tensor where
  "tensor_c = [[[- 1, 3 / 5], [- (1 / 5), - 1]], [[- (3 / 5), 1], [1 / 5, - (3 / 5)]],
               [[- (1 / 5), - 1], [3 / 5, - (1 / 5)]], [[1 / 5, - (3 / 5)], [1, 1 / 5]]]"


section \<open>Vocabulary of the properties\<close>

text \<open>
  The crop window of side \<open>n\<close> at row \<open>i\<close> and column \<open>j\<close>, followed by the horizontal flip
  when \<open>b\<close> holds: what one outcome of the random choices does to a tensor.
\<close>

definition augment :: "bool \<Rightarrow> nat \<Rightarrow> nat \<Rightarrow> nat \<Rightarrow> tensor \<Rightarrow> tensor" where
  "augment b i j n t = (if b then hflip (crop i j n n t) else crop i j n n t)"

text \<open>The elements of a tensor.\<close>

definition tensor_elems :: "'a list list list \<Rightarrow> 'a set" where
  "tensor_elems t = set (concat (concat t))"




text \<open>The samples of a decoded image.\<close>

definition image_samples :: "image \<Rightarrow> 8 word set" where
  "image_samples im =
     (case im of Grey rows \<Rightarrow> set (concat rows) | Colour px \<Rightarrow> set (concat (concat px)))"

text \<open>
  A rounding function with \<open>p\<close> bits of precision is within \<open>2 ^ - p\<close> of its argument on
  \<open>[-2, 2]\<close>, where neighbouring floats are at most \<open>2 ^ (1 - p)\<close> apart.
\<close>

definition accurate :: "nat \<Rightarrow> (real \<Rightarrow> real) \<Rightarrow> bool" where
  "accurate p fl \<longleftrightarrow> (\<forall>x. \<bar>x\<bar> \<le> 2 \<longrightarrow> \<bar>fl x - x\<bar> \<le> 1 / 2 ^ p)"





section \<open>Auxiliary facts\<close>

subsection \<open>Decimal digits\<close>

lemma digit_value_digit_char: "d < 10 \<Longrightarrow> digit_value (digit_char d) = d"
  by (simp add: digit_value_def digit_char_def)

lemma is_digit_digit_char: "d < 10 \<Longrightarrow> is_digit (digit_char d)"
  by (simp add: is_digit_def digit_char_def)

lemma str_nat_digits: "c \<in> set (str_nat n) \<Longrightarrow> is_digit c"
proof (induction n arbitrary: c rule: str_nat.induct)
  case (1 n)
  show ?case
  proof (cases "n < 10")
    case True
    with "1.prems" show ?thesis
      by (simp add: str_nat.simps [of n] is_digit_digit_char)
  next
    case False
    with "1.prems" have "c \<in> set (str_nat (n div 10)) \<or> c = digit_char (n mod 10)"
      by (auto simp: str_nat.simps [of n])
    then show ?thesis
      using "1.IH" [OF False] by (auto simp: is_digit_digit_char)
  qed
qed

lemma decimal_value_snoc: "decimal_value (s @ [c]) = 10 * decimal_value s + digit_value c"
  by (simp add: decimal_value_def)

lemma decimal_value_str_nat: "decimal_value (str_nat n) = n"
proof (induction n rule: str_nat.induct)
  case (1 n)
  show ?case
  proof (cases "n < 10")
    case True
    then show ?thesis
      by (simp add: str_nat.simps [of n] decimal_value_def digit_value_digit_char)
  next
    case False
    then show ?thesis
      using "1.IH" [OF False]
      by (simp add: str_nat.simps [of n] decimal_value_snoc digit_value_digit_char)
  qed
qed

lemma length_str_nat: "n < 10 ^ k \<Longrightarrow> 0 < k \<Longrightarrow> length (str_nat n) \<le> k"
proof (induction n arbitrary: k rule: str_nat.induct)
  case (1 n)
  show ?case
  proof (cases "n < 10")
    case True
    with "1.prems" show ?thesis by (simp add: str_nat.simps [of n])
  next
    case False
    from "1.prems" obtain j where k: "k = Suc j" by (cases k) auto
    from False "1.prems" k have "0 < j" by (cases j) auto
    moreover from "1.prems" k have "n div 10 < 10 ^ j"
      by (simp add: less_mult_imp_div_less mult.commute)
    ultimately have "length (str_nat (n div 10)) \<le> j"
      using "1.IH" [OF False] by blast
    with False k show ?thesis by (simp add: str_nat.simps [of n])
  qed
qed

lemma decimal_value_zeros: "decimal_value (replicate k (CHR ''0'') @ s) = decimal_value s"
proof -
  have "foldl (\<lambda>a c. 10 * a + digit_value c) 0 (replicate k (CHR ''0'')) = 0"
    by (induction k) (simp_all add: digit_value_def)
  then show ?thesis by (simp add: decimal_value_def)
qed

lemma is_digit_zero: "is_digit (CHR ''0'')"
  by (simp add: is_digit_def)

lemma zfill_props:
  assumes "length s \<le> w" "\<forall>c \<in> set s. is_digit c"
  shows "length (zfill w s) = w" "\<forall>c \<in> set (zfill w s). is_digit c" "decimal_value (zfill w s) = decimal_value s"
  using assms by (auto simp: zfill_def decimal_value_zeros is_digit_zero)

subsection \<open>Results and the steps of an item access\<close>

lemma and_then_Inr: "and_then m f = Inr r \<longleftrightarrow> (\<exists>x. m = Inr x \<and> f x = Inr r)"
  by (cases m) (simp_all add: and_then_def)

lemma and_then_simps: "and_then (Inl e) f = Inl e" "and_then (Inr x) f = f x"
  by (simp_all add: and_then_def)

lemma image_open_Inr: "image_open d p = Inr im \<longleftrightarrow> d p = Some (ImageFile im)"
  by (auto simp: image_open_def split: option.splits disk_file.splits)

lemma str_nat_8: "str_nat 8 = ''8''"
  by code_simp

lemma str_nat_202: "str_nat 202 = ''202''"
  by code_simp

lemma fn_8: "index_to_img_fn 8 = ''frame_0000000008.jpg''"
  by code_simp

lemma fn_202: "index_to_img_fn 202 = ''frame_0000000202.jpg''"
  by code_simp

lemma image_resize_Inr: "image_resize L rr im = Inr im' \<longleftrightarrow> 0 < rr \<and> im' = lanczos L (nat rr) im"
  by (auto simp: image_resize_def)

lemma EpicEditDataset_getitem_Inr:
  assumes "EpicEditDataset_getitem L d self g index = Inr (r, self', g')"
  obtains m im0 im1 rr g1 t0 t1 o0 o1 where
    "py_index (metadata self) index = Inr m"
    "d (os_path_join (os_path_join (basedir self) [part m, ''agentago_frames'', clip m])
          [index_to_img_fn (start m)]) = Some (ImageFile im0)"
    "d (os_path_join (os_path_join (basedir self) [part m, ''agentago_frames'', clip m])
          [index_to_img_fn (stop m)]) = Some (ImageFile im1)"
    "torch_randint (EpicEditDataset.min_resize_res self) (EpicEditDataset.max_resize_res self + 1) g
       = Inr (rr, g1)"
    "0 < rr"
    "image_to_tensor L (lanczos L (nat rr) im0) = Inr t0"
    "image_to_tensor L (lanczos L (nat rr) im1) = Inr t1"
    "crop_flip_chunk (EpicEditDataset.crop_res self) (EpicEditDataset.flip_prob self) t0 t1 g1
       = Inr (o0, o1, g')"
    "r = Dict [(''edited'', Tensor o1),
               (''edit'', Dict [(''c_concat'', Tensor o0), (''c_crossattn'', Str (narration m))])]"
    "self' = self"
  using assms unfolding EpicEditDataset_getitem_def
  by (auto simp: and_then_Inr Let_def image_open_Inr image_resize_Inr)

subsection \<open>The example run of EpicEditDataset\<close>

lemma nearest_resize_2:
  "nearest_resize 2 (Colour [[p, q], [r, s]]) = Colour [[p, q], [r, s]]"
  by (simp add: nearest_resize_def upt_rec)

lemma example_resize_2:
  "image_resize example_lib 2 frame_a = Inr frame_a" "image_resize example_lib 2 frame_b = Inr frame_b"
  by (simp_all add: image_resize_def example_lib_def frame_a_def frame_b_def nearest_resize_2)

lemma example_tensors:
  "image_to_tensor example_lib frame_a = Inr tensor_a"
  "image_to_tensor example_lib frame_b = Inr tensor_b"
  by (simp_all add: image_to_tensor_def example_lib_def frame_a_def frame_b_def tensor_a_def tensor_b_def
      rearrange_hwc_chw_def normalize_sample_def)

lemma example_heights:
  "tensor_height tensor_a = 2" "tensor_width tensor_a = 2"
  "tensor_height tensor_b = 2" "tensor_width tensor_b = 2"
  "length tensor_a = 3" "length tensor_b = 3"
  by (simp_all add: tensor_height_def tensor_width_def tensor_a_def tensor_b_def)

lemma crop_full: "tensor_shaped c n n t \<Longrightarrow> crop 0 0 n n t = t"
  by (auto simp: crop_def crop_channel_def tensor_shaped_def map_idI)

lemma example_shaped: "tensor_shaped 3 2 2 tensor_a" "tensor_shaped 3 2 2 tensor_b"
  by (simp_all add: tensor_shaped_def tensor_a_def tensor_b_def)

lemma example_crop_flip:
  "crop_flip_chunk 2 1 tensor_a tensor_b (\<lambda>i. 5) = Inr (hflip tensor_a, hflip tensor_b, (\<lambda>i. 5))"
proof -
  have cat: "torch_cat tensor_a tensor_b = Inr (tensor_a @ tensor_b)"
    by (simp add: torch_cat_def example_heights)
  have hw: "tensor_height (tensor_a @ tensor_b) = 2" "tensor_width (tensor_a @ tensor_b) = 2"
    by (simp_all add: tensor_height_def tensor_width_def tensor_a_def)
  have sh: "tensor_shaped 6 2 2 (tensor_a @ tensor_b)"
    using example_shaped by (auto simp: tensor_shaped_def)
  have crop: "RandomCrop 2 (tensor_a @ tensor_b) (\<lambda>i. 5) = Inr (tensor_a @ tensor_b, (\<lambda>i. 5))"
    by (simp add: RandomCrop_def crop_params_def hw and_then_simps crop_full [OF sh])
  have flip: "RandomHorizontalFlip 1 (tensor_a @ tensor_b) (\<lambda>i. 5) = (hflip tensor_a @ hflip tensor_b, (\<lambda>i. 5))"
    by (simp add: RandomHorizontalFlip_def flip_decision_def torch_rand_def rng_tail_def hflip_def)
  have chunk: "chunk2 (hflip tensor_a @ hflip tensor_b) = Inr (hflip tensor_a, hflip tensor_b)"
    by (simp add: chunk2_def hflip_def example_heights)
  show ?thesis
    by (simp add: crop_flip_chunk_def cat crop flip chunk and_then_simps)
qed

lemma example_paths:
  "os_path_join ''/epic'' [''P01'', ''agentago_frames'', ''P01_01''] = ''/epic/P01/agentago_frames/P01_01''"
  "os_path_join ''/epic/P01/agentago_frames/P01_01'' [''frame_0000000008.jpg''] = ''/epic/P01/agentago_frames/P01_01/frame_0000000008.jpg''"
  "os_path_join ''/epic/P01/agentago_frames/P01_01'' [''frame_0000000202.jpg''] = ''/epic/P01/agentago_frames/P01_01/frame_0000000202.jpg''"
  by code_simp+

lemma example_files:
  "image_open epic_disk ''/epic/P01/agentago_frames/P01_01/frame_0000000008.jpg'' = Inr frame_a"
  "image_open epic_disk ''/epic/P01/agentago_frames/P01_01/frame_0000000202.jpg'' = Inr frame_b"
  by (simp_all add: image_open_def epic_disk_def)

lemma epic_getitem_example:
  "EpicEditDataset_getitem example_lib epic_disk epic_self (\<lambda>i. 5) 0 =
     Inr (Dict [(''edited'', Tensor (hflip tensor_b)),
                (''edit'', Dict [(''c_concat'', Tensor (hflip tensor_a)), (''c_crossattn'', Str ''open door'')])],
          epic_self, (\<lambda>i. 5))"
proof -
  have idx: "py_index (metadata epic_self) 0 =
      Inr \<lparr>part = ''P01'', clip = ''P01_01'', start = 8, stop = 202, narration = ''open door''\<rparr>"
    by (simp add: py_index_def epic_self_def)
  have cfg: "basedir epic_self = ''/epic''" "EpicEditDataset.min_resize_res epic_self = 2"
    "EpicEditDataset.max_resize_res epic_self = 2" "EpicEditDataset.crop_res epic_self = 2"
    "EpicEditDataset.flip_prob epic_self = 1"
    by (simp_all add: epic_self_def)
  have rnd: "torch_randint 2 3 (\<lambda>i. 5) = Inr (2, (\<lambda>i. 5))"
    by (simp add: torch_randint_def int64_def rng_tail_def)
  show ?thesis
    by (simp add: EpicEditDataset_getitem_def idx cfg and_then_simps example_paths fn_8 fn_202
        example_files rnd example_resize_2 example_tensors example_crop_flip)
qed

subsection \<open>The steps and the example runs of EditDataset and EditDatasetEval\<close>

lemma load_prompt_Inr: "load_prompt d p = Inr pj \<longleftrightarrow> d p = Some (PromptFile pj)"
  by (auto simp: load_prompt_def split: option.splits disk_file.splits)

lemma load_seeds_Inr: "load_seeds d p = Inr s \<longleftrightarrow> d p = Some (SeedsFile s)"
  by (auto simp: load_seeds_def split: option.splits disk_file.splits)

lemma EditDataset_getitem_Inr:
  assumes "EditDataset_getitem L d self g i = Inr (r, self', g')"
  obtains name seeds_i k g1 seed pj prompt im0 im1 rr g2 t0 t1 o0 o1 where
    "py_index (EditDataset.seeds self) i = Inr (name, seeds_i)"
    "torch_randint 0 (int (length seeds_i)) g = Inr (k, g1)"
    "py_index seeds_i k = Inr seed"
    "d (os_path_join (os_path_join (EditDataset.path self) [name]) [''prompt.json'']) = Some (PromptFile pj)"
    "dict_get pj ''edit'' = Inr prompt"
    "d (os_path_join (os_path_join (EditDataset.path self) [name]) [str_int seed @ ''_0.jpg''])
       = Some (ImageFile im0)"
    "d (os_path_join (os_path_join (EditDataset.path self) [name]) [str_int seed @ ''_1.jpg''])
       = Some (ImageFile im1)"
    "torch_randint (EditDataset.min_resize_res self) (EditDataset.max_resize_res self + 1) g1
       = Inr (rr, g2)"
    "0 < rr"
    "image_to_tensor L (lanczos L (nat rr) im0) = Inr t0"
    "image_to_tensor L (lanczos L (nat rr) im1) = Inr t1"
    "crop_flip_chunk (EditDataset.crop_res self) (EditDataset.flip_prob self) t0 t1 g2
       = Inr (o0, o1, g')"
    "r = Dict [(''edited'', Tensor o1),
               (''edit'', Dict [(''c_concat'', Tensor o0), (''c_crossattn'', Str prompt)])]"
    "self' = self"
  using assms unfolding EditDataset_getitem_def
  by (auto simp: and_then_Inr Let_def image_open_Inr image_resize_Inr load_prompt_Inr)

lemma EditDatasetEval_getitem_Inr:
  assumes "EditDatasetEval_getitem L d self g i = Inr (r, self', g')"
  obtains name seeds_i k g1 seed pj edit_p input_p output_p im0 rr t0 where
    "py_index (seeds self) i = Inr (name, seeds_i)"
    "torch_randint 0 (int (length seeds_i)) g = Inr (k, g1)"
    "py_index seeds_i k = Inr seed"
    "d (os_path_join (os_path_join (path self) [name]) [''prompt.json'']) = Some (PromptFile pj)"
    "dict_get pj ''edit'' = Inr edit_p"
    "dict_get pj ''input'' = Inr input_p"
    "dict_get pj ''output'' = Inr output_p"
    "d (os_path_join (os_path_join (path self) [name]) [str_int seed @ ''_0.jpg''])
       = Some (ImageFile im0)"
    "torch_randint (res self) (res self + 1) g1 = Inr (rr, g')"
    "0 < rr"
    "image_to_tensor L (lanczos L (nat rr) im0) = Inr t0"
    "r = Dict [(''image_0'', Tensor t0), (''input_prompt'', Str input_p),
               (''edit'', Str edit_p), (''output_prompt'', Str output_p)]"
    "self' = self"
  using assms unfolding EditDatasetEval_getitem_def
  by (auto simp: and_then_Inr Let_def image_open_Inr image_resize_Inr load_prompt_Inr)

lemma edit_example_paths:
  "os_path_join ''/data'' [''a''] = ''/data/a''"
  "os_path_join ''/data/a'' [''prompt.json''] = ''/data/a/prompt.json''"
  "str_int 7 = ''7''"
  "os_path_join ''/data/a'' [''7_0.jpg''] = ''/data/a/7_0.jpg''"
  "os_path_join ''/data/a'' [''7_1.jpg''] = ''/data/a/7_1.jpg''"
  "os_path_join ''/data'' [''seeds.json''] = ''/data/seeds.json''"
  by code_simp+

lemma edit_example_files:
  "image_open edit_disk ''/data/a/7_0.jpg'' = Inr frame_a"
  "image_open edit_disk ''/data/a/7_1.jpg'' = Inr frame_b"
  "load_prompt edit_disk ''/data/a/prompt.json'' =
     Inr [(''input'', ''a cat''), (''edit'', ''make it a dog''), (''output'', ''a dog'')]"
  "load_seeds edit_disk ''/data/seeds.json'' = Inr [(''a'', [7]), (''b'', [7]), (''c'', [7]), (''d'', [7])]"
  by (simp_all add: image_open_def load_prompt_def load_seeds_def edit_disk_def)

lemma edit_example_prompt:
  "dict_get [(''input'', ''a cat''), (''edit'', ''make it a dog''), (''output'', ''a dog'')] ''edit'' = Inr ''make it a dog''"
  "dict_get [(''input'', ''a cat''), (''edit'', ''make it a dog''), (''output'', ''a dog'')] ''input'' = Inr ''a cat''"
  "dict_get [(''input'', ''a cat''), (''edit'', ''make it a dog''), (''output'', ''a dog'')] ''output'' = Inr ''a dog''"
  by (simp_all add: dict_get_def)

lemma edit_getitem_example:
  "EditDataset_getitem example_lib edit_disk edit_self (\<lambda>i. 5) 0 =
     Inr (Dict [(''edited'', Tensor (hflip tensor_b)),
                (''edit'', Dict [(''c_concat'', Tensor (hflip tensor_a)), (''c_crossattn'', Str ''make it a dog'')])],
          edit_self, (\<lambda>i. 5))"
proof -
  have idx: "py_index (EditDataset.seeds edit_self) 0 = Inr (''a'', [7])"
    by (simp add: py_index_def edit_self_def)
  have cfg: "EditDataset.path edit_self = ''/data''" "EditDataset.min_resize_res edit_self = 2"
    "EditDataset.max_resize_res edit_self = 2" "EditDataset.crop_res edit_self = 2"
    "EditDataset.flip_prob edit_self = 1"
    by (simp_all add: edit_self_def)
  have pick: "torch_randint 0 1 (\<lambda>i. 5) = Inr (0, (\<lambda>i. 5))"
    by (simp add: torch_randint_def int64_def rng_tail_def)
  have seed: "py_index [7::int] 0 = Inr 7"
    by (simp add: py_index_def)
  have rnd: "torch_randint 2 3 (\<lambda>i. 5) = Inr (2, (\<lambda>i. 5))"
    by (simp add: torch_randint_def int64_def rng_tail_def)
  show ?thesis
    by (simp add: EditDataset_getitem_def idx cfg pick seed and_then_simps edit_example_paths
        edit_example_files edit_example_prompt rnd example_resize_2 example_tensors example_crop_flip)
qed

lemma eval_getitem_example:
  "EditDatasetEval_getitem example_lib edit_disk eval_self (\<lambda>i. 5) 0 =
     Inr (Dict [(''image_0'', Tensor tensor_a), (''input_prompt'', Str ''a cat''),
                (''edit'', Str ''make it a dog''), (''output_prompt'', Str ''a dog'')],
          eval_self, (\<lambda>i. 5))"
proof -
  have idx: "py_index (seeds eval_self) 0 = Inr (''a'', [7])"
    by (simp add: py_index_def eval_self_def)
  have cfg: "path eval_self = ''/data''" "res eval_self = 2"
    by (simp_all add: eval_self_def)
  have pick: "torch_randint 0 1 (\<lambda>i. 5) = Inr (0, (\<lambda>i. 5))"
    by (simp add: torch_randint_def int64_def rng_tail_def)
  have seed: "py_index [7::int] 0 = Inr 7"
    by (simp add: py_index_def)
  have rnd: "torch_randint 2 3 (\<lambda>i. 5) = Inr (2, (\<lambda>i. 5))"
    by (simp add: torch_randint_def int64_def rng_tail_def)
  show ?thesis
    by (simp add: EditDatasetEval_getitem_def idx cfg pick seed and_then_simps edit_example_paths
        edit_example_files edit_example_prompt rnd example_resize_2 example_tensors)
qed

lemma augment_append: "augment b i j n (s @ t) = augment b i j n s @ augment b i j n t"
  by (simp add: augment_def crop_def hflip_def)

lemma length_augment: "length (augment b i j n t) = length t"
  by (simp add: augment_def crop_def hflip_def)

lemma crop_flip_chunk_Inr:
  assumes "crop_flip_chunk n p t0 t1 g = Inr (o0, o1, g')"
  obtains i j g1 where
    "crop_params n (tensor_height (t0 @ t1)) (tensor_width (t0 @ t1)) g = Inr ((i, j), g1)"
    "g' = snd (torch_rand g1)"
    "o0 @ o1 = augment (flip_decision p g1) i j n (t0 @ t1)"
    "length o0 = (length t0 + length t1 + 1) div 2"
    "length t0 = length t1 \<Longrightarrow>
       o0 = augment (flip_decision p g1) i j n t0 \<and> o1 = augment (flip_decision p g1) i j n t1"
proof -
  from assms obtain cropped g1 where
    crop: "RandomCrop n (t0 @ t1) g = Inr (cropped, g1)" and
    chunk: "chunk2 (fst (RandomHorizontalFlip p cropped g1)) = Inr (o0, o1)" and
    g': "g' = snd (RandomHorizontalFlip p cropped g1)"
    by (auto simp: crop_flip_chunk_def and_then_Inr torch_cat_def split: if_splits)
  from crop obtain i j where
    params: "crop_params n (tensor_height (t0 @ t1)) (tensor_width (t0 @ t1)) g = Inr ((i, j), g1)" and
    cropped: "cropped = crop i j n n (t0 @ t1)"
    by (auto simp: RandomCrop_def and_then_Inr)
  let ?b = "flip_decision p g1"
  have flipped: "fst (RandomHorizontalFlip p cropped g1) = augment ?b i j n (t0 @ t1)"
    by (simp add: RandomHorizontalFlip_def augment_def cropped)
  let ?k = "(length t0 + length t1 + 1) div 2"
  from chunk have o0: "o0 = take ?k (augment ?b i j n (t0 @ t1))"
    and o1: "o1 = drop ?k (augment ?b i j n (t0 @ t1))"
    by (auto simp: chunk2_def flipped length_augment Let_def split: if_splits)
  have 1: "g' = snd (torch_rand g1)"
    using g' by (simp add: RandomHorizontalFlip_def)
  have 2: "o0 @ o1 = augment ?b i j n (t0 @ t1)"
    by (simp add: o0 o1)
  from chunk have "2 \<le> length t0 + length t1"
    by (auto simp: chunk2_def flipped length_augment Let_def split: if_splits)
  then have 3: "length o0 = ?k"
    by (simp add: o0 length_augment)
  have 4: "o0 = augment ?b i j n t0 \<and> o1 = augment ?b i j n t1" if "length t0 = length t1"
  proof -
    from that have "?k = length (augment ?b i j n t0)"
      by (simp add: length_augment)
    then show ?thesis
      by (simp add: o0 o1 augment_append)
  qed
  from params 1 2 3 4 show ?thesis
    by (rule that)
qed

lemma rng_tail_apply: "rng_tail g i = g (Suc i)"
  by (simp add: rng_tail_def)

lemma crop_flip_chunk_offset_example:
  "crop_flip_chunk 1 0 tensor_a tensor_b Suc =
     Inr ([[[- (47 / 51)]], [[- (43 / 51)]], [[- (13 / 17)]]],
          [[[- (241 / 255)]], [[- (239 / 255)]], [[- (79 / 85)]]],
          rng_tail (rng_tail (rng_tail Suc)))"
proof -
  have cat: "torch_cat tensor_a tensor_b = Inr (tensor_a @ tensor_b)"
    by (simp add: torch_cat_def example_heights)
  have hw: "tensor_height (tensor_a @ tensor_b) = 2" "tensor_width (tensor_a @ tensor_b) = 2"
    by (simp_all add: tensor_height_def tensor_width_def tensor_a_def)
  have params: "crop_params 1 2 2 Suc = Inr ((1, 0), rng_tail (rng_tail Suc))"
    by (simp add: crop_params_def torch_randint_def int64_def rng_tail_apply and_then_simps)
  have window: "crop 1 0 1 1 (tensor_a @ tensor_b) =
      [[[- (47 / 51)]], [[- (43 / 51)]], [[- (13 / 17)]],
       [[- (241 / 255)]], [[- (239 / 255)]], [[- (79 / 85)]]]"
    by (simp add: crop_def crop_channel_def tensor_a_def tensor_b_def)
  have crop: "RandomCrop 1 (tensor_a @ tensor_b) Suc =
      Inr ([[[- (47 / 51)]], [[- (43 / 51)]], [[- (13 / 17)]],
            [[- (241 / 255)]], [[- (239 / 255)]], [[- (79 / 85)]]], rng_tail (rng_tail Suc))"
    by (simp only: RandomCrop_def hw params and_then_simps prod.case window)
  have flip: "RandomHorizontalFlip 0 t (rng_tail (rng_tail Suc)) = (t, rng_tail (rng_tail (rng_tail Suc)))" for t
    by (simp add: RandomHorizontalFlip_def flip_decision_def torch_rand_def rng_tail_apply)
  have chunk: "chunk2 [[[- (47 / 51)]], [[- (43 / 51)]], [[- (13 / 17)]],
                       [[- (241 / 255)]], [[- (239 / 255)]], [[- (79 / 85)]]] =
      Inr ([[[- (47 / 51)]], [[- (43 / 51)]], [[- (13 / 17)]]],
           [[[- (241 / 255)]], [[- (239 / 255)]], [[- (79 / 85)]]])"
    by (simp add: chunk2_def)
  show ?thesis
    by (simp only: crop_flip_chunk_def cat crop flip and_then_simps prod.case fst_conv snd_conv chunk)
qed

lemma crop_params_full: "crop_params n n n g = Inr ((0, 0), g)"
  by (simp add: crop_params_def)

lemma flip_decision_example: "flip_decision 1 (\<lambda>i. 5)"
  by (simp add: flip_decision_def torch_rand_def)

lemma example_cat_shape:
  "tensor_height (tensor_a @ tensor_b) = 2" "tensor_width (tensor_a @ tensor_b) = 2"
  by (simp_all add: tensor_height_def tensor_width_def tensor_a_def)

lemma epic_example_steps:
  "py_index (metadata epic_self) 0 =
      Inr \<lparr>part = ''P01'', clip = ''P01_01'', start = 8, stop = 202, narration = ''open door''\<rparr>"
  "basedir epic_self = ''/epic''" "EpicEditDataset.min_resize_res epic_self = 2"
  "EpicEditDataset.max_resize_res epic_self = 2" "EpicEditDataset.crop_res epic_self = 2"
  "EpicEditDataset.flip_prob epic_self = 1"
  "torch_randint 2 3 (\<lambda>i. 5) = Inr (2, (\<lambda>i. 5))"
  "epic_disk ''/epic/P01/agentago_frames/P01_01/frame_0000000008.jpg'' = Some (ImageFile frame_a)"
  "epic_disk ''/epic/P01/agentago_frames/P01_01/frame_0000000202.jpg'' = Some (ImageFile frame_b)"
  "lanczos example_lib 2 frame_a = frame_a" "lanczos example_lib 2 frame_b = frame_b"
  by (simp_all add: py_index_def epic_self_def torch_randint_def int64_def rng_tail_def epic_disk_def
      example_lib_def frame_a_def frame_b_def nearest_resize_2)

subsection \<open>Elements and shapes of tensors\<close>

lemma in_transpose:
  assumes "row \<in> set (transpose xss)" "x \<in> set row"
  shows "\<exists>ys \<in> set xss. x \<in> set ys"
proof -
  from assms(1) obtain i where i: "i < length (transpose xss)" and row: "row = transpose xss ! i"
    by (auto simp: in_set_conv_nth)
  from i row have "row = map (\<lambda>ys. ys ! i) (filter (\<lambda>ys. i < length ys) xss)"
    by (simp add: nth_transpose)
  with assms(2) obtain ys where "ys \<in> set xss" "i < length ys" "x = ys ! i"
    by auto
  then show ?thesis
    by (auto intro: nth_mem)
qed

lemma tensor_elems_rearrange: "tensor_elems (rearrange_hwc_chw t) \<subseteq> tensor_elems t"
proof
  fix x assume "x \<in> tensor_elems (rearrange_hwc_chw t)"
  then obtain ch row where ch: "ch \<in> set (transpose (map transpose t))"
    and row: "row \<in> set ch" and x: "x \<in> set row"
    by (auto simp: tensor_elems_def rearrange_hwc_chw_def)
  from in_transpose [OF ch row] obtain m where m: "m \<in> set t" and r: "row \<in> set (transpose m)"
    by auto
  from in_transpose [OF r x] obtain ys where "ys \<in> set m" "x \<in> set ys"
    by auto
  with m show "x \<in> tensor_elems t"
    by (auto simp: tensor_elems_def)
qed

lemma tensor_elems_append: "tensor_elems (s @ t) = tensor_elems s \<union> tensor_elems t"
  by (simp add: tensor_elems_def)

lemma tensor_elems_crop: "tensor_elems (crop i j h w t) \<subseteq> tensor_elems t"
proof
  fix x assume "x \<in> tensor_elems (crop i j h w t)"
  then obtain ch row where ch: "ch \<in> set t" and row: "row \<in> set (take h (drop i ch))"
    and x: "x \<in> set (take w (drop j row))"
    by (auto simp: tensor_elems_def crop_def crop_channel_def)
  from row have "row \<in> set ch"
    by (meson in_set_dropD in_set_takeD)
  moreover from x have "x \<in> set row"
    by (meson in_set_dropD in_set_takeD)
  ultimately show "x \<in> tensor_elems t"
    using ch by (auto simp: tensor_elems_def)
qed

lemma tensor_elems_hflip: "tensor_elems (hflip t) = tensor_elems t"
  by (auto simp: tensor_elems_def hflip_def)

lemma tensor_elems_augment: "tensor_elems (augment b i j n t) \<subseteq> tensor_elems t"
  using tensor_elems_crop [of i j n n t] by (simp add: augment_def tensor_elems_hflip)

lemma rounding_bounds:
  assumes "rounding p fl" "of_int a \<le> x" "x \<le> of_int b" "\<bar>a\<bar> \<le> 2 ^ p" "\<bar>b\<bar> \<le> 2 ^ p"
  shows "of_int a \<le> fl x \<and> fl x \<le> of_int b"
proof -
  from assms(1) have mono: "\<And>x y. x \<le> y \<Longrightarrow> fl x \<le> fl y"
    and exact: "\<And>k::int. \<bar>k\<bar> \<le> 2 ^ p \<Longrightarrow> fl (of_int k) = of_int k"
    unfolding rounding_def by blast+
  from mono assms(2,3) have "fl (of_int a) \<le> fl x" "fl x \<le> fl (of_int b)"
    by blast+
  then show ?thesis
    using exact [OF assms(4)] exact [OF assms(5)] by simp
qed

lemma rounding_exact: "rounding p (\<lambda>x. x)"
  by (simp add: rounding_def)

lemma rounded_sample_bounds:
  assumes "rounding 24 fl" "n \<le> 255"
  shows "- 1 \<le> fl (fl (fl (2 * real n) / 255) - 1) \<and> fl (fl (fl (2 * real n) / 255) - 1) \<le> 1"
proof -
  from assms(1) have exact: "\<And>k::int. \<bar>k\<bar> \<le> 2 ^ 24 \<Longrightarrow> fl (of_int k) = of_int k"
    unfolding rounding_def by blast
  have "\<bar>2 * int n\<bar> \<le> 2 ^ 24"
    using assms(2) by simp
  then have "fl (of_int (2 * int n)) = of_int (2 * int n)"
    by (rule exact)
  then have twice: "fl (2 * real n) = 2 * real n"
    by simp
  have "of_int 0 \<le> 2 * real n / 255" "2 * real n / 255 \<le> of_int 2"
    using assms(2) by simp_all
  with assms(1) have "of_int 0 \<le> fl (2 * real n / 255) \<and> fl (2 * real n / 255) \<le> of_int 2"
    by (rule rounding_bounds) simp_all
  then have "of_int (- 1) \<le> fl (2 * real n / 255) - 1" "fl (2 * real n / 255) - 1 \<le> of_int 1"
    by simp_all
  with assms(1) have "of_int (- 1) \<le> fl (fl (2 * real n / 255) - 1)
      \<and> fl (fl (2 * real n / 255) - 1) \<le> of_int 1"
    by (rule rounding_bounds) simp_all
  then show ?thesis
    by (simp add: twice)
qed

lemma normalize_sample_bounds:
  assumes "rounding 24 fl"
  shows "- 1 \<le> normalize_sample fl v \<and> normalize_sample fl v \<le> 1"
proof -
  have "unat v < 2 ^ LENGTH(8)"
    by (rule unsigned_less)
  then have "unat v \<le> 255"
    by simp
  with assms show ?thesis
    unfolding normalize_sample_def by (rule rounded_sample_bounds)
qed

lemma crop_flip_chunk_elems:
  assumes "crop_flip_chunk n p t0 t1 g = Inr (o0, o1, g')"
  shows "tensor_elems o0 \<union> tensor_elems o1 \<subseteq> tensor_elems t0 \<union> tensor_elems t1"
proof -
  from assms obtain i j g1 where "o0 @ o1 = augment (flip_decision p g1) i j n (t0 @ t1)"
    by (rule crop_flip_chunk_Inr)
  then have "tensor_elems o0 \<union> tensor_elems o1 = tensor_elems (augment (flip_decision p g1) i j n (t0 @ t1))"
    by (simp flip: tensor_elems_append)
  also have "\<dots> \<subseteq> tensor_elems (t0 @ t1)"
    by (rule tensor_elems_augment)
  finally show ?thesis
    by (simp add: tensor_elems_append)
qed

subsection \<open>Shapes\<close>

lemma transpose_rectangular:
  assumes "m \<noteq> []" "\<forall>r \<in> set m. length r = n"
  shows "length (transpose m) = n \<and> (\<forall>col \<in> set (transpose m). length col = length m)"
proof -
  from assms have rect: "\<And>k. k < length m \<Longrightarrow> length (m ! k) = n" and "m = [] \<Longrightarrow> n = 0"
    by simp_all
  from this(2) this(1) have "transpose m = map (\<lambda>c. map (\<lambda>k. m ! k ! c) [0..<length m]) [0..<n]"
    by (rule transpose_rectangle)
  then show ?thesis
    by auto
qed

lemma rearrange_shaped:
  assumes "length px = h" "\<forall>row \<in> set px. length row = w \<and> (\<forall>p \<in> set row. length p = c)"
    and "0 < h" "0 < w"
  shows "tensor_shaped c h w (rearrange_hwc_chw px)"
proof -
  let ?M = "map transpose px"
  have rows: "length (transpose row) = c \<and> (\<forall>col \<in> set (transpose row). length col = w)"
    if "row \<in> set px" for row
  proof -
    from that assms(2) have len: "length row = w" and pix: "\<forall>p \<in> set row. length p = c"
      by blast+
    from len assms(4) have "row \<noteq> []"
      by auto
    from this pix
    have "length (transpose row) = c \<and> (\<forall>col \<in> set (transpose row). length col = length row)"
      by (rule transpose_rectangular)
    with len show ?thesis
      by simp
  qed
  from assms(1,3) have "?M \<noteq> []"
    by auto
  moreover from rows have "\<forall>m \<in> set ?M. length m = c"
    by simp
  ultimately have outer: "length (transpose ?M) = c \<and> (\<forall>ch \<in> set (transpose ?M). length ch = length ?M)"
    by (rule transpose_rectangular)
  have inner: "length r = w" if "ch \<in> set (transpose ?M)" "r \<in> set ch" for ch r
  proof -
    from in_transpose [OF that] obtain m where "m \<in> set ?M" "r \<in> set m"
      by blast
    then obtain row where "row \<in> set px" "r \<in> set (transpose row)"
      by auto
    with rows show ?thesis
      by blast
  qed
  show ?thesis
    unfolding tensor_shaped_def rearrange_hwc_chw_def
  proof (intro conjI ballI)
    show "length (transpose ?M) = c"
      using outer by simp
  next
    fix ch assume "ch \<in> set (transpose ?M)"
    with outer assms(1) show "length ch = h"
      by simp
  next
    fix ch r assume "ch \<in> set (transpose ?M)" "r \<in> set ch"
    then show "length r = w"
      by (rule inner)
  qed
qed

lemma image_to_tensor_shaped:
  assumes "image_to_tensor L im = Inr t" "colour_shaped h w c im" "0 < h" "0 < w"
  shows "tensor_shaped c h w t"
proof -
  from assms(1,2) obtain px where im: "im = Colour px"
    and t: "t = rearrange_hwc_chw (map (map (map (normalize_sample (fl32 L)))) px)"
    by (cases im) (auto simp: image_to_tensor_def colour_shaped_def)
  from assms(2) im have "length (map (map (map (normalize_sample (fl32 L)))) px) = h"
    "\<forall>row \<in> set (map (map (map (normalize_sample (fl32 L)))) px).
       length row = w \<and> (\<forall>p \<in> set row. length p = c)"
    by (auto simp: colour_shaped_def)
  then show ?thesis
    unfolding t using assms(3,4) by (rule rearrange_shaped)
qed



lemma resampling_nearest: "resampling nearest_resize"
  unfolding resampling_def
proof (intro allI impI)
  fix r h w c :: nat and im :: image
  assume a: "0 < r \<and> 0 < h \<and> 0 < w \<and> 0 < c \<and> colour_shaped h w c im"
  then obtain px where im: "im = Colour px" and h: "length px = h"
    and rows: "\<forall>row \<in> set px. length row = w \<and> (\<forall>p \<in> set row. length p = c)"
    by (cases im) (auto simp: colour_shaped_def)
  from a h have "px \<noteq> []" by auto
  then have hd: "length (hd px) = w" using rows by (cases px) auto
  have pix: "length (px ! (y * length px div r) ! (x * length (hd px) div r)) = c"
    if "y < r" "x < r" for x y
  proof -
    from that a h have y: "y * length px div r < length px"
      by (simp add: less_mult_imp_div_less mult.commute)
    then have row: "px ! (y * length px div r) \<in> set px"
      by simp
    from that a hd have "x * length (hd px) div r < w"
      by (simp add: less_mult_imp_div_less mult.commute)
    with row rows have "px ! (y * length px div r) ! (x * length (hd px) div r) \<in> set (px ! (y * length px div r))"
      by simp
    with row rows show ?thesis by blast
  qed
  show "colour_shaped r r c (nearest_resize r im)"
    by (auto simp: im nearest_resize_def colour_shaped_def pix)
qed

subsection \<open>Which files EditDatasetEval reads\<close>

lemma os_path_join_ends: "\<exists>w. os_path_join a [b] = w @ b"
proof (cases "b \<noteq> [] \<and> hd b = CHR ''/''")
  case True
  then have "os_path_join a [b] = [] @ b" by simp
  then show ?thesis by blast
next
  case False
  then show ?thesis by (cases "a = [] \<or> last a = CHR ''/''") auto
qed

lemma prompt_is_no_after_image: "w @ ''prompt.json'' \<noteq> u @ ''_1.jpg''"
proof
  assume "w @ ''prompt.json'' = u @ ''_1.jpg''"
  then have "(w @ ''promp'') @ ''t.json'' = u @ ''_1.jpg''"
    by simp
  then have "''t.json'' = ''_1.jpg''"
    by (subst (asm) append_eq_append_conv) simp_all
  then show False by simp
qed

lemma before_image_is_no_after_image: "w @ s @ ''_0.jpg'' \<noteq> u @ ''_1.jpg''"
proof
  assume "w @ s @ ''_0.jpg'' = u @ ''_1.jpg''"
  then have "(w @ s) @ ''_0.jpg'' = u @ ''_1.jpg''"
    by simp
  then have "''_0.jpg'' = ''_1.jpg''"
    by (subst (asm) append_eq_append_conv) simp_all
  then show False by simp
qed

lemma load_prompt_after_image:
  "load_prompt (d(u @ ''_1.jpg'' := x)) (os_path_join a [''prompt.json'']) =
   load_prompt d (os_path_join a [''prompt.json''])"
proof -
  obtain w where "os_path_join a [''prompt.json''] = w @ ''prompt.json''"
    using os_path_join_ends by blast
  then show ?thesis
    using prompt_is_no_after_image [of w u] by (simp add: load_prompt_def)
qed

lemma image_open_after_image:
  "image_open (d(u @ ''_1.jpg'' := x)) (os_path_join a [s @ ''_0.jpg'']) =
   image_open d (os_path_join a [s @ ''_0.jpg''])"
proof -
  obtain w where "os_path_join a [s @ ''_0.jpg''] = w @ s @ ''_0.jpg''"
    using os_path_join_ends by blast
  then show ?thesis
    using before_image_is_no_after_image [of w s u] by (simp add: image_open_def)
qed

lemma torch_randint_single:
  "torch_randint n (n + 1) g = Inr (k, g') \<longleftrightarrow> int64 n \<and> int64 (n + 1) \<and> k = n \<and> g' = rng_tail g"
  by (auto simp: torch_randint_def)

lemma frame_a_shaped: "colour_shaped 2 2 3 frame_a"
  by (simp add: colour_shaped_def frame_a_def)

lemma example_resampling: "resampling (lanczos example_lib)"
  by (simp add: example_lib_def resampling_nearest)

subsection \<open>The assertions of the constructors\<close>

lemma and_then_no_assertion:
  assumes "m \<noteq> Inl AssertionError" "\<And>x. f x \<noteq> Inl AssertionError"
  shows "and_then m f \<noteq> Inl AssertionError"
  using assms by (cases m) (simp_all add: and_then_def)

lemma loads_no_assertion:
  "load_info d p \<noteq> Inl AssertionError" "read_csv d p \<noteq> Inl AssertionError"
  "load_seeds d p \<noteq> Inl AssertionError" "dict_get kvs k \<noteq> Inl AssertionError"
  by (simp_all add: load_info_def read_csv_def load_seeds_def dict_get_def
      split: option.splits disk_file.splits)

lemma split_slice_no_assertion: "split_slice fl bounds xs \<noteq> Inl AssertionError"
  by (simp add: split_slice_def math_floor_def and_then_def split: py_float.splits)

lemma example_sums:
  "py_sum (fl64 example_lib) (1 / 2, 1 / 4, 1 / 4) = 1"
  "py_sum (fl64 example_lib) (1 / 2, 1 / 4, 1 / 2) \<noteq> 1"
  by (simp_all add: py_sum_def example_lib_def)

subsection \<open>Slices of a split\<close>

lemma rounding_zero: "rounding p fl \<Longrightarrow> fl 0 = 0"
proof -
  assume "rounding p fl"
  then have "\<bar>0::int\<bar> \<le> 2 ^ p \<longrightarrow> fl (of_int 0) = of_int 0"
    unfolding rounding_def by blast
  then show ?thesis by simp
qed

lemma rounding_nat: "rounding p fl \<Longrightarrow> n \<le> 2 ^ p \<Longrightarrow> fl (real n) = real n"
proof -
  assume r: "rounding p fl" and n: "n \<le> 2 ^ p"
  from n have "int n \<le> 2 ^ p"
    by (metis of_nat_le_iff of_nat_numeral of_nat_power)
  then have "\<bar>int n\<bar> \<le> 2 ^ p" by simp
  with r have "fl (of_int (int n)) = of_int (int n)"
    unfolding rounding_def by blast
  then show ?thesis by simp
qed

lemma rounding_mono: "rounding p fl \<Longrightarrow> x \<le> y \<Longrightarrow> fl x \<le> fl y"
  unfolding rounding_def by blast

lemma slice_bound_nonneg: "0 \<le> a \<Longrightarrow> slice_bound n a = min (nat a) n"
  by (simp add: slice_bound_def)

lemma py_slice_nonneg:
  "0 \<le> a \<Longrightarrow> 0 \<le> b \<Longrightarrow>
   py_slice xs a b = take (min (nat b) (length xs) - min (nat a) (length xs)) (drop (min (nat a) (length xs)) xs)"
  by (simp add: py_slice_def slice_bound_nonneg Let_def)

lemma no_overflow_small: "\<bar>x\<bar> \<le> 2 ^ 106 \<Longrightarrow> \<not> float_overflow x"
proof -
  assume x: "\<bar>x\<bar> \<le> 2 ^ 106"
  have "(2::real) ^ 1024 = 2 ^ 970 * 2 ^ 54"
    by (simp add: power_add [symmetric])
  then have "(2::real) ^ 1024 - 2 ^ 970 = 2 ^ 970 * (2 ^ 54 - 1)"
    by (simp add: algebra_simps)
  moreover have "(2::real) ^ 970 * 1 \<le> 2 ^ 970 * (2 ^ 54 - 1)"
    by (rule mult_left_mono) simp_all
  moreover have "(2::real) ^ 106 < 2 ^ 970"
    by (rule power_strict_increasing) simp_all
  ultimately have "(2::real) ^ 106 < 2 ^ 1024 - 2 ^ 970"
    by simp
  with x show ?thesis
    by (simp add: float_overflow_def)
qed

lemma floor_of_product:
  assumes "rounding 53 fl" "n \<le> 2 ^ 53" "\<bar>a\<bar> \<le> 2 ^ 53"
  shows "math_floor (float_mul_int fl a n) = Inr \<lfloor>fl (a * real n)\<rfloor>"
proof -
  have n: "fl (real n) = real n"
    using assms(1,2) by (rule rounding_nat)
  from assms(2) have "real n \<le> 2 ^ 53"
    by (metis of_nat_le_iff of_nat_numeral of_nat_power)
  with assms(3) have "\<bar>a\<bar> * real n \<le> 2 ^ 53 * 2 ^ 53"
    by (intro mult_mono) simp_all
  then have "\<bar>a * real n\<bar> \<le> 2 ^ 106"
    by (simp add: abs_mult power_add [symmetric])
  then have "\<not> float_overflow (a * real n)"
    by (rule no_overflow_small)
  then show ?thesis
    by (simp add: math_floor_def float_mul_int_def n)
qed

lemma split_slice_floors:
  assumes "math_floor (float_mul_int fl a (length xs)) = Inr i"
    and "math_floor (float_mul_int fl b (length xs)) = Inr j"
  shows "split_slice fl (a, b) xs = Inr (py_slice xs i j)"
  using assms by (simp add: split_slice_def and_then_simps)

lemma split_slices:
  assumes r: "rounding 53 fl" and s0: "fl s0 = s0" "0 \<le> s0" and s1: "0 \<le> s1"
    and n: "length xs \<le> 2 ^ 53" and bound: "fl (s0 + s1) \<le> 2 ^ 53"
  defines "i0 \<equiv> min (nat \<lfloor>fl (s0 * real (length xs))\<rfloor>) (length xs)"
    and "i1 \<equiv> min (nat \<lfloor>fl (fl (s0 + s1) * real (length xs))\<rfloor>) (length xs)"
  shows "i0 \<le> i1 \<and> i1 \<le> length xs
    \<and> split_slice fl (0, s0) xs = Inr (take i0 xs)
    \<and> split_slice fl (s0, fl (s0 + s1)) xs = Inr (take (i1 - i0) (drop i0 xs))
    \<and> split_slice fl (fl (s0 + s1), 1) xs = Inr (drop i1 xs)"
proof -
  let ?n = "real (length xs)"
  let ?a = "\<lfloor>fl (s0 * ?n)\<rfloor>" and ?b = "\<lfloor>fl (fl (s0 + s1) * ?n)\<rfloor>"
  have z: "fl 0 = 0" using r by (rule rounding_zero)
  have "0 \<le> s0 * ?n"
    using s0 by simp
  then have "fl 0 \<le> fl (s0 * ?n)"
    using r by (rule rounding_mono [rotated])
  then have a: "0 \<le> ?a"
    by (simp add: z)
  have s01: "s0 \<le> fl (s0 + s1)"
    using rounding_mono [OF r, of s0 "s0 + s1"] s0 s1 by simp
  then have "s0 * ?n \<le> fl (s0 + s1) * ?n"
    by (simp add: mult_right_mono)
  then have "fl (s0 * ?n) \<le> fl (fl (s0 + s1) * ?n)"
    using r by (rule rounding_mono [rotated])
  then have ab: "?a \<le> ?b"
    by (simp add: floor_mono)
  from a ab have b: "0 \<le> ?b" by (rule order_trans)
  from s0 s01 bound have small: "\<bar>s0\<bar> \<le> 2 ^ 53" "\<bar>fl (s0 + s1)\<bar> \<le> 2 ^ 53"
    by simp_all
  have f0: "math_floor (float_mul_int fl 0 (length xs)) = Inr 0"
    using floor_of_product [OF r n, of 0] by (simp add: z)
  have fa: "math_floor (float_mul_int fl s0 (length xs)) = Inr ?a"
    using small(1) by (rule floor_of_product [OF r n])
  have fb: "math_floor (float_mul_int fl (fl (s0 + s1)) (length xs)) = Inr ?b"
    using small(2) by (rule floor_of_product [OF r n])
  have f1: "math_floor (float_mul_int fl 1 (length xs)) = Inr (int (length xs))"
    using floor_of_product [OF r n, of 1] rounding_nat [OF r n] by simp
  from ab have le: "i0 \<le> i1"
    unfolding i0_def i1_def using a by (simp add: nat_mono min.coboundedI1)
  have le': "i1 \<le> length xs"
    by (simp add: i1_def)
  have train: "split_slice fl (0, s0) xs = Inr (take i0 xs)"
    unfolding split_slice_floors [OF f0 fa] using a by (simp add: py_slice_nonneg i0_def)
  have val: "split_slice fl (s0, fl (s0 + s1)) xs = Inr (take (i1 - i0) (drop i0 xs))"
    unfolding split_slice_floors [OF fa fb] using a b by (simp add: py_slice_nonneg i0_def i1_def)
  have test: "split_slice fl (fl (s0 + s1), 1) xs = Inr (drop i1 xs)"
    unfolding split_slice_floors [OF fb f1] using b by (simp add: py_slice_nonneg i1_def)
  from le le' train val test show ?thesis
    by simp
qed

lemma partition_concat:
  assumes "i0 \<le> i1" "i1 \<le> length xs"
  shows "take i0 xs @ take (i1 - i0) (drop i0 xs) @ drop i1 xs = xs"
proof -
  from assms(1) have "take i0 xs @ take (i1 - i0) (drop i0 xs) = take i1 xs"
    using take_add [of i0 "i1 - i0" xs] by simp
  then show ?thesis
    by (simp flip: append_assoc)
qed

subsection \<open>The shuffle is a permutation\<close>

lemma shuffle_from_mset: "k \<le> length xs \<Longrightarrow> mset (fst (shuffle_from k xs g)) = mset xs"
proof (induction k xs g rule: shuffle_from.induct)
  case (1 xs g)
  show ?case by simp
next
  case (2 i xs g)
  show ?case
  proof (cases "i = 0")
    case True
    then show ?thesis by simp
  next
    case False
    let ?j = "g 0 mod (i + 1)"
    let ?ys = "xs[i := xs ! ?j, ?j := xs ! i]"
    from "2.prems" have i: "i < length xs" by simp
    have "g 0 mod Suc i < Suc i"
      by (rule mod_less_divisor) simp
    with i have j: "?j < length xs"
      unfolding Suc_eq_plus1 by linarith
    have "mset ?ys = mset xs"
      using i j by (simp add: mset_swap)
    moreover have "mset (fst (shuffle_from i ?ys (rng_tail g))) = mset ?ys"
      using "2.IH" [OF False refl] i by simp
    ultimately show ?thesis
      using False by (simp add: Let_def)
  qed
qed

lemma np_random_shuffle_mset: "mset (fst (np_random_shuffle xs g)) = mset xs"
  by (simp add: np_random_shuffle_def shuffle_from_mset)

lemma np_random_shuffle_length: "length (fst (np_random_shuffle xs g)) = length xs"
  using np_random_shuffle_mset [of xs g] by (metis size_mset)

subsection \<open>Example constructions\<close>

lemma example_sum_negative: "py_sum (fl64 example_lib) (- (1 / 2), 1 / 2, 1) = 1"
  by (simp add: py_sum_def example_lib_def)

lemma example_sum_halves: "py_sum (fl64 example_lib) (1 / 2, 1 / 2, 0) = 1"
  by (simp add: py_sum_def example_lib_def)

lemma example_fl64: "fl64 example_lib x = x"
  by (simp add: example_lib_def)

lemma example_floor:
  assumes "\<bar>a * real n\<bar> \<le> 2 ^ 106"
  shows "math_floor (float_mul_int (fl64 example_lib) a n) = Inr \<lfloor>a * real n\<rfloor>"
  using no_overflow_small [OF assms] by (simp add: math_floor_def float_mul_int_def example_lib_def)

lemma example_split_slice:
  assumes "\<bar>a * real (length xs)\<bar> \<le> 2 ^ 106" "\<bar>b * real (length xs)\<bar> \<le> 2 ^ 106"
  shows "split_slice (fl64 example_lib) (a, b) xs
     = Inr (py_slice xs \<lfloor>a * real (length xs)\<rfloor> \<lfloor>b * real (length xs)\<rfloor>)"
  using example_floor [OF assms(1)] example_floor [OF assms(2)] by (rule split_slice_floors)

lemma example_slices_negative:
  "split_slice (fl64 example_lib) (0, - (1 / 2)) [a, b, c, e] = Inr [a, b]"
  "split_slice (fl64 example_lib) (- (1 / 2), fl64 example_lib (- (1 / 2) + 1 / 2)) [a, b, c, e] = Inr []"
  "split_slice (fl64 example_lib) (fl64 example_lib (- (1 / 2) + 1 / 2), 1) [a, b, c, e] = Inr [a, b, c, e]"
  by (simp_all add: example_split_slice example_fl64 py_slice_def slice_bound_def)

lemma example_slices_quarters:
  "split_slice (fl64 example_lib) (0, 1 / 2) [a, b, c, e] = Inr [a, b]"
  "split_slice (fl64 example_lib) (1 / 2, fl64 example_lib (1 / 2 + 1 / 4)) [a, b, c, e] = Inr [c]"
  "split_slice (fl64 example_lib) (fl64 example_lib (1 / 2 + 1 / 4), 1) [a, b, c, e] = Inr [e]"
  by (simp_all add: example_split_slice example_fl64 py_slice_def slice_bound_def)

lemma example_slices_halves:
  "split_slice (fl64 example_lib) (0, 1 / 2) [a, b] = Inr [a]"
  "split_slice (fl64 example_lib) (1 / 2, fl64 example_lib (1 / 2 + 1 / 2)) [a, b] = Inr [b]"
  "split_slice (fl64 example_lib) (fl64 example_lib (1 / 2 + 1 / 2), 1) [a, b] = Inr []"
  by (simp_all add: example_split_slice example_fl64 py_slice_def slice_bound_def)

lemma split_table_lookup:
  "dict_get (split_table fl (s0, s1, s2)) ''train'' = Inr (0, s0)"
  "dict_get (split_table fl (s0, s1, s2)) ''val'' = Inr (s0, fl (s0 + s1))"
  "dict_get (split_table fl (s0, s1, s2)) ''test'' = Inr (fl (s0 + s1), 1)"
  by (simp_all add: dict_get_def split_table_def)

lemma example_shuffles:
  "np_random_shuffle [a, b] id = ([b, a], rng_tail id)"
  "np_random_shuffle [a, b] (rng_tail id) = ([a, b], rng_tail (rng_tail id))"
  "np_random_shuffle [a, b] (rng_tail (rng_tail id)) = ([b, a], rng_tail (rng_tail (rng_tail id)))"
  by (simp_all add: np_random_shuffle_def numeral_2_eq_2 rng_tail_apply)

lemma epic2_files:
  "load_info epic_disk2 (os_path_join ''/epic2'' [''info.json'']) = Inr ()"
  "read_csv epic_disk2 (os_path_join ''/epic2'' [''EPIC100_annotations.csv'']) =
     Inr [\<lparr>participant_id = ''P01'', video_id = ''P01_01'', start_frame = 8,
            stop_frame = 202, row_narration = ''open door''\<rparr>,
          \<lparr>participant_id = ''P01'', video_id = ''P01_01'', start_frame = 300,
            stop_frame = 420, row_narration = ''close door''\<rparr>]"
  by (simp_all add: load_info_def read_csv_def epic_disk2_def)

lemma valid_splits: "''train'' \<in> set [''train'', ''val'', ''test'']"
  "''val'' \<in> set [''train'', ''val'', ''test'']" "''test'' \<in> set [''train'', ''val'', ''test'']"
  by simp_all

lemma EditDataset_init_run:
  assumes "sp \<in> set [''train'', ''val'', ''test'']" "py_sum (fl64 L) splits = 1"
    and "load_seeds d (os_path_join p [''seeds.json'']) = Inr xs"
    and "dict_get (split_table (fl64 L) splits) sp = Inr bounds"
    and "split_slice (fl64 L) bounds xs = Inr kept"
  shows "EditDataset_init L d p sp splits lo hi cr fp =
     Inr \<lparr>EditDataset.path = p, EditDataset.min_resize_res = lo, EditDataset.max_resize_res = hi,
          EditDataset.crop_res = cr, EditDataset.flip_prob = fp,
          EditDataset.seeds = kept\<rparr>"
  using assms unfolding EditDataset_init_def by (simp add: and_then_simps)

lemma EditDatasetEval_init_run:
  assumes "sp \<in> set [''train'', ''val'', ''test'']" "py_sum (fl64 L) splits = 1"
    and "load_seeds d (os_path_join p [''seeds.json'']) = Inr xs"
    and "dict_get (split_table (fl64 L) splits) sp = Inr bounds"
    and "split_slice (fl64 L) bounds xs = Inr kept"
  shows "EditDatasetEval_init L d p sp splits r =
     Inr \<lparr>path = p, res = r, seeds = kept\<rparr>"
  using assms unfolding EditDatasetEval_init_def by (simp add: and_then_simps)

lemma EpicEditDataset_init_run:
  assumes "sp \<in> set [''train'', ''val'', ''test'']" "py_sum (fl64 L) splits = 1"
    and "load_info d (os_path_join p [''info.json'']) = Inr ()"
    and "read_csv d (os_path_join p [''EPIC100_annotations.csv'']) = Inr rows"
    and "dict_get (split_table (fl64 L) splits) sp = Inr bounds"
    and "split_slice (fl64 L) bounds (fst (np_random_shuffle (map row_to_meta rows) ng)) = Inr kept"
  shows "EpicEditDataset_init L d ng p sp splits lo hi cr fp =
     Inr (\<lparr>basedir = p, min_resize_res = lo, max_resize_res = hi, crop_res = cr, flip_prob = fp,
           info = (), pre_metadata = rows, metadata = kept\<rparr>,
          snd (np_random_shuffle (map row_to_meta rows) ng))"
  using assms unfolding EpicEditDataset_init_def by (simp add: and_then_simps)

subsection \<open>The slices that a returning constructor keeps\<close>

lemma split_slice_Inr:
  assumes "split_slice fl (a, b) xs = Inr kept"
  shows "kept = py_slice xs \<lfloor>fl (a * fl (real (length xs)))\<rfloor> \<lfloor>fl (b * fl (real (length xs)))\<rfloor>"
  using assms
  by (auto simp: split_slice_def and_then_Inr math_floor_def float_mul_int_def split: if_splits)

lemma split_slices_returned:
  assumes r: "rounding 53 fl" and s0: "fl s0 = s0" "0 \<le> s0" and s1: "0 \<le> s1"
    and n: "length xs \<le> 2 ^ 53"
  defines "i0 \<equiv> min (nat \<lfloor>fl (s0 * real (length xs))\<rfloor>) (length xs)"
    and "i1 \<equiv> min (nat \<lfloor>fl (fl (s0 + s1) * real (length xs))\<rfloor>) (length xs)"
  shows "i0 \<le> i1" "i1 \<le> length xs"
    "split_slice fl (0, s0) xs = Inr k0 \<Longrightarrow> k0 = take i0 xs"
    "split_slice fl (s0, fl (s0 + s1)) xs = Inr k1 \<Longrightarrow> k1 = take (i1 - i0) (drop i0 xs)"
    "split_slice fl (fl (s0 + s1), 1) xs = Inr k2 \<Longrightarrow> k2 = drop i1 xs"
proof -
  let ?n = "real (length xs)"
  let ?a = "\<lfloor>fl (s0 * ?n)\<rfloor>" and ?b = "\<lfloor>fl (fl (s0 + s1) * ?n)\<rfloor>"
  have z: "fl 0 = 0" using r by (rule rounding_zero)
  have fn: "fl ?n = ?n" using r n by (rule rounding_nat)
  have "0 \<le> s0 * ?n"
    using s0 by simp
  then have "fl 0 \<le> fl (s0 * ?n)"
    using r by (rule rounding_mono [rotated])
  then have a: "0 \<le> ?a"
    by (simp add: z)
  have "s0 \<le> fl (s0 + s1)"
    using rounding_mono [OF r, of s0 "s0 + s1"] s0 s1 by simp
  then have "s0 * ?n \<le> fl (s0 + s1) * ?n"
    by (simp add: mult_right_mono)
  then have "fl (s0 * ?n) \<le> fl (fl (s0 + s1) * ?n)"
    using r by (rule rounding_mono [rotated])
  then have ab: "?a \<le> ?b"
    by (simp add: floor_mono)
  from a ab have b: "0 \<le> ?b" by (rule order_trans)
  from ab show le: "i0 \<le> i1"
    unfolding i0_def i1_def using a by (simp add: nat_mono min.coboundedI1)
  show "i1 \<le> length xs"
    by (simp add: i1_def)
  {
    assume "split_slice fl (0, s0) xs = Inr k0"
    from split_slice_Inr [OF this] show "k0 = take i0 xs"
      using a by (simp add: fn z py_slice_nonneg i0_def)
  }
  {
    assume "split_slice fl (s0, fl (s0 + s1)) xs = Inr k1"
    from split_slice_Inr [OF this] show "k1 = take (i1 - i0) (drop i0 xs)"
      using a b by (simp add: fn py_slice_nonneg i0_def i1_def)
  }
  {
    assume "split_slice fl (fl (s0 + s1), 1) xs = Inr k2"
    from split_slice_Inr [OF this] show "k2 = drop i1 xs"
      using b by (simp add: fn py_slice_nonneg i1_def)
  }
qed

lemma EditDataset_init_Inr:
  assumes "EditDataset_init L d p sp splits lo hi cr fp = Inr self"
    and "load_seeds d (os_path_join p [''seeds.json'']) = Inr xs"
    and "dict_get (split_table (fl64 L) splits) sp = Inr bounds"
  shows "split_slice (fl64 L) bounds xs = Inr (EditDataset.seeds self)"
  using assms unfolding EditDataset_init_def by (auto simp: and_then_Inr split: if_splits)

lemma EditDatasetEval_init_Inr:
  assumes "EditDatasetEval_init L d p sp splits r = Inr self"
    and "load_seeds d (os_path_join p [''seeds.json'']) = Inr xs"
    and "dict_get (split_table (fl64 L) splits) sp = Inr bounds"
  shows "split_slice (fl64 L) bounds xs = Inr (seeds self)"
  using assms unfolding EditDatasetEval_init_def by (auto simp: and_then_Inr split: if_splits)

lemma EpicEditDataset_init_Inr:
  assumes "EpicEditDataset_init L d ng p sp splits lo hi cr fp = Inr (self, ng')"
    and "read_csv d (os_path_join p [''EPIC100_annotations.csv'']) = Inr rows"
    and "dict_get (split_table (fl64 L) splits) sp = Inr bounds"
  shows "split_slice (fl64 L) bounds (fst (np_random_shuffle (map row_to_meta rows) ng))
     = Inr (metadata self)"
  using assms unfolding EpicEditDataset_init_def by (auto simp: and_then_Inr split: if_splits)

subsection \<open>A before-image of three channels with an after-image of four\<close>

lemma example_tensor_c:
  "image_resize example_lib 2 frame_c = Inr frame_c"
  "image_to_tensor example_lib frame_c = Inr tensor_c"
  by (simp_all add: image_resize_def image_to_tensor_def example_lib_def frame_c_def tensor_c_def
      nearest_resize_2 rearrange_hwc_chw_def normalize_sample_def)

lemma mixed_crop_flip:
  "crop_flip_chunk 2 1 tensor_a tensor_c (\<lambda>i. 5)
     = Inr (hflip tensor_a @ take 1 (hflip tensor_c), drop 1 (hflip tensor_c), (\<lambda>i. 5))"
proof -
  have "tensor_height tensor_c = 2" "tensor_width tensor_c = 2"
    by (simp_all add: tensor_height_def tensor_width_def tensor_c_def)
  then have cat: "torch_cat tensor_a tensor_c = Inr (tensor_a @ tensor_c)"
    by (simp add: torch_cat_def example_heights)
  have hw: "tensor_height (tensor_a @ tensor_c) = 2" "tensor_width (tensor_a @ tensor_c) = 2"
    by (simp_all add: tensor_height_def tensor_width_def tensor_a_def)
  have "tensor_shaped 4 2 2 tensor_c"
    by (simp add: tensor_shaped_def tensor_c_def)
  with example_shaped(1) have sh: "tensor_shaped 7 2 2 (tensor_a @ tensor_c)"
    by (auto simp: tensor_shaped_def)
  have crop: "RandomCrop 2 (tensor_a @ tensor_c) (\<lambda>i. 5) = Inr (tensor_a @ tensor_c, (\<lambda>i. 5))"
    by (simp add: RandomCrop_def crop_params_def hw and_then_simps crop_full [OF sh])
  have flip: "RandomHorizontalFlip 1 (tensor_a @ tensor_c) (\<lambda>i. 5) = (hflip tensor_a @ hflip tensor_c, (\<lambda>i. 5))"
    by (simp add: RandomHorizontalFlip_def flip_decision_def torch_rand_def rng_tail_def hflip_def)
  have len: "length (hflip tensor_a) = 3" "length (hflip tensor_c) = 4"
    by (simp_all add: hflip_def example_heights tensor_c_def)
  have chunk: "chunk2 (hflip tensor_a @ hflip tensor_c)
      = Inr (hflip tensor_a @ take 1 (hflip tensor_c), drop 1 (hflip tensor_c))"
    by (simp add: chunk2_def len)
  show ?thesis
    by (simp add: crop_flip_chunk_def cat crop flip chunk and_then_simps)
qed

lemma mixed_channels_runs:
  "EditDataset_getitem example_lib (edit_disk(''/data/a/7_1.jpg'' \<mapsto> ImageFile frame_c)) edit_self (\<lambda>i. 5) 0 =
     Inr (Dict [(''edited'', Tensor (drop 1 (hflip tensor_c))),
                (''edit'', Dict [(''c_concat'', Tensor (hflip tensor_a @ take 1 (hflip tensor_c))),
                                 (''c_crossattn'', Str ''make it a dog'')])],
          edit_self, (\<lambda>i. 5))"
  "EpicEditDataset_getitem example_lib
       (epic_disk(''/epic/P01/agentago_frames/P01_01/frame_0000000202.jpg'' \<mapsto> ImageFile frame_c))
       epic_self (\<lambda>i. 5) 0 =
     Inr (Dict [(''edited'', Tensor (drop 1 (hflip tensor_c))),
                (''edit'', Dict [(''c_concat'', Tensor (hflip tensor_a @ take 1 (hflip tensor_c))),
                                 (''c_crossattn'', Str ''open door'')])],
          epic_self, (\<lambda>i. 5))"
proof -
  have pick: "torch_randint 0 1 (\<lambda>i. 5) = Inr (0, (\<lambda>i. 5))"
    by (simp add: torch_randint_def int64_def rng_tail_def)
  have seed: "py_index [7::int] 0 = Inr 7"
    by (simp add: py_index_def)
  have rnd: "torch_randint 2 3 (\<lambda>i. 5) = Inr (2, (\<lambda>i. 5))"
    by (simp add: torch_randint_def int64_def rng_tail_def)
  have files: "image_open (edit_disk(''/data/a/7_1.jpg'' \<mapsto> ImageFile frame_c)) ''/data/a/7_0.jpg'' = Inr frame_a"
    "image_open (edit_disk(''/data/a/7_1.jpg'' \<mapsto> ImageFile frame_c)) ''/data/a/7_1.jpg'' = Inr frame_c"
    "load_prompt (edit_disk(''/data/a/7_1.jpg'' \<mapsto> ImageFile frame_c)) ''/data/a/prompt.json'' =
       Inr [(''input'', ''a cat''), (''edit'', ''make it a dog''), (''output'', ''a dog'')]"
    by (simp_all add: image_open_def load_prompt_def edit_disk_def)
  show "EditDataset_getitem example_lib (edit_disk(''/data/a/7_1.jpg'' \<mapsto> ImageFile frame_c)) edit_self (\<lambda>i. 5) 0 =
     Inr (Dict [(''edited'', Tensor (drop 1 (hflip tensor_c))),
                (''edit'', Dict [(''c_concat'', Tensor (hflip tensor_a @ take 1 (hflip tensor_c))),
                                 (''c_crossattn'', Str ''make it a dog'')])],
          edit_self, (\<lambda>i. 5))"
    by (simp add: EditDataset_getitem_def edit_self_def py_index_def pick seed and_then_simps
        edit_example_paths files edit_example_prompt rnd example_resize_2 example_tensors
        example_tensor_c mixed_crop_flip)
  have frames: "image_open (epic_disk(''/epic/P01/agentago_frames/P01_01/frame_0000000202.jpg'' \<mapsto> ImageFile frame_c))
       ''/epic/P01/agentago_frames/P01_01/frame_0000000008.jpg'' = Inr frame_a"
    "image_open (epic_disk(''/epic/P01/agentago_frames/P01_01/frame_0000000202.jpg'' \<mapsto> ImageFile frame_c))
       ''/epic/P01/agentago_frames/P01_01/frame_0000000202.jpg'' = Inr frame_c"
    by (simp_all add: image_open_def epic_disk_def)
  show "EpicEditDataset_getitem example_lib
       (epic_disk(''/epic/P01/agentago_frames/P01_01/frame_0000000202.jpg'' \<mapsto> ImageFile frame_c))
       epic_self (\<lambda>i. 5) 0 =
     Inr (Dict [(''edited'', Tensor (drop 1 (hflip tensor_c))),
                (''edit'', Dict [(''c_concat'', Tensor (hflip tensor_a @ take 1 (hflip tensor_c))),
                                 (''c_crossattn'', Str ''open door'')])],
          epic_self, (\<lambda>i. 5))"
    by (simp add: EpicEditDataset_getitem_def epic_self_def py_index_def and_then_simps example_paths
        fn_8 fn_202 frames rnd example_resize_2 example_tensors example_tensor_c mixed_crop_flip)
qed

subsection \<open>The normalization of a sample\<close>

lemma rounding_int:
  assumes "rounding p fl" "\<bar>k\<bar> \<le> 2 ^ p"
  shows "fl (of_int k) = of_int k"
  using assms unfolding rounding_def by blast

lemma sample_le_255: "unat (v :: 8 word) \<le> 255"
proof -
  have "unat v < 2 ^ LENGTH(8)"
    by (rule unsigned_less)
  then show ?thesis
    by simp
qed

lemma twice_exact:
  assumes "rounding 24 fl" "n \<le> 255"
  shows "fl (2 * real n) = 2 * real n"
proof -
  from assms(2) have "\<bar>2 * int n\<bar> \<le> 2 ^ 24"
    by simp
  with assms(1) have "fl (of_int (2 * int n)) = of_int (2 * int n)"
    by (rule rounding_int)
  then show ?thesis
    by simp
qed

lemma normalize_sample_ends:
  assumes "rounding 24 fl"
  shows "normalize_sample fl 0 = - 1" "normalize_sample fl 255 = 1"
proof -
  have e: "fl (of_int k) = of_int k" if "\<bar>k\<bar> \<le> 2 ^ 24" for k :: int
    using assms that by (rule rounding_int)
  from e [of 0] e [of "- 1"] have z: "fl 0 = 0" "fl (- 1) = - 1"
    by simp_all
  from e [of 510] e [of 2] e [of 1] have t: "fl 510 = 510" "fl 2 = 2" "fl 1 = 1"
    by simp_all
  show "normalize_sample fl 0 = - 1"
    by (simp add: normalize_sample_def z)
  show "normalize_sample fl 255 = 1"
    by (simp add: normalize_sample_def t)
qed

lemma rounded_sample_mono:
  assumes "rounding 24 fl" "m \<le> n" "n \<le> 255"
  shows "fl (fl (fl (2 * real m) / 255) - 1) \<le> fl (fl (fl (2 * real n) / 255) - 1)"
proof -
  from assms(2,3) have m: "m \<le> 255"
    by simp
  from assms(2) have "2 * real m / 255 \<le> 2 * real n / 255"
    by simp
  then have "fl (2 * real m / 255) \<le> fl (2 * real n / 255)"
    using assms(1) by (rule rounding_mono [rotated])
  then have "fl (2 * real m / 255) - 1 \<le> fl (2 * real n / 255) - 1"
    by simp
  then have "fl (fl (2 * real m / 255) - 1) \<le> fl (fl (2 * real n / 255) - 1)"
    using assms(1) by (rule rounding_mono [rotated])
  then show ?thesis
    by (simp only: twice_exact [OF assms(1) m] twice_exact [OF assms(1,3)])
qed

lemma normalize_sample_mono:
  assumes "rounding 24 fl" "u \<le> v"
  shows "normalize_sample fl u \<le> normalize_sample fl v"
proof -
  from assms(2) have "unat u \<le> unat v"
    by (simp only: word_le_nat_alt)
  with assms(1) show ?thesis
    unfolding normalize_sample_def using sample_le_255 [of v] by (rule rounded_sample_mono)
qed

lemma rounded_sample_error:
  assumes "rounding 24 fl" "accurate 24 fl" "n \<le> 255"
  shows "\<bar>fl (fl (fl (2 * real n) / 255) - 1) - (2 * real n / 255 - 1)\<bar> \<le> 1 / 2 ^ 23"
proof -
  let ?q = "2 * real n / 255"
  from assms(3) have q: "0 \<le> ?q" "?q \<le> 2"
    by simp_all
  from assms(2) have acc: "\<bar>fl x - x\<bar> \<le> 1 / 2 ^ 24" if "\<bar>x\<bar> \<le> 2" for x
    using that unfolding accurate_def by blast
  from q have e1: "\<bar>fl ?q - ?q\<bar> \<le> 1 / 2 ^ 24"
    by (intro acc) simp
  from q have "of_int 0 \<le> ?q" "?q \<le> of_int 2"
    by simp_all
  with assms(1) have "of_int 0 \<le> fl ?q \<and> fl ?q \<le> of_int 2"
    by (rule rounding_bounds) simp_all
  then have "0 \<le> fl ?q" "fl ?q \<le> 2"
    by simp_all
  then have "\<bar>fl ?q - 1\<bar> \<le> 2"
    by linarith
  then have e2: "\<bar>fl (fl ?q - 1) - (fl ?q - 1)\<bar> \<le> 1 / 2 ^ 24"
    by (rule acc)
  have "(1::real) / 2 ^ 24 + 1 / 2 ^ 24 = 1 / 2 ^ 23"
    by simp
  with e1 e2 have "\<bar>fl (fl ?q - 1) - (?q - 1)\<bar> \<le> 1 / 2 ^ 23"
    by linarith
  then show ?thesis
    by (simp only: twice_exact [OF assms(1,3)])
qed

lemma normalize_sample_error:
  assumes "rounding 24 fl" "accurate 24 fl"
  shows "\<bar>normalize_sample fl v - (2 * real (unat v) / 255 - 1)\<bar> \<le> 1 / 2 ^ 23"
  unfolding normalize_sample_def using assms sample_le_255 [of v] by (rule rounded_sample_error)

lemma accurate_exact: "accurate p (\<lambda>x. x)"
  by (simp add: accurate_def)

subsection \<open>The elements of a tensor are normalized samples of the image\<close>

lemma tensor_samples_image:
  assumes "image_to_tensor L im = Inr t" "x \<in> tensor_elems t"
  shows "\<exists>u \<in> image_samples im. x = normalize_sample (fl32 L) u"
proof -
  from assms(1) obtain px where im: "im = Colour px"
    and t: "t = rearrange_hwc_chw (map (map (map (normalize_sample (fl32 L)))) px)"
    by (cases im) (auto simp: image_to_tensor_def)
  have "tensor_elems t \<subseteq> tensor_elems (map (map (map (normalize_sample (fl32 L)))) px)"
    unfolding t by (rule tensor_elems_rearrange)
  with assms(2) have "x \<in> tensor_elems (map (map (map (normalize_sample (fl32 L)))) px)"
    by (rule subsetD [rotated])
  then show ?thesis
    unfolding tensor_elems_def im image_samples_def by auto
qed

lemma pair_samples:
  assumes "image_to_tensor L im0 = Inr a0" "image_to_tensor L im1 = Inr a1"
    and "crop_flip_chunk n p a0 a1 g = Inr (b0, b1, g')"
    and "x \<in> tensor_elems b0 \<union> tensor_elems b1"
  shows "\<exists>u \<in> image_samples im0 \<union> image_samples im1. x = normalize_sample (fl32 L) u"
proof -
  from assms(3,4) have "x \<in> tensor_elems a0 \<union> tensor_elems a1"
    using crop_flip_chunk_elems by blast
  with assms(1,2) show ?thesis
    using tensor_samples_image by blast
qed

lemma example_samples:
  "image_samples (lanczos example_lib 2 frame_a) = {0, 51, 102, 255, 204, 153, 10, 20, 30, 40, 50, 60}"
  by (simp add: example_lib_def frame_a_def nearest_resize_2 image_samples_def)

subsection \<open>Runs that cannot fail\<close>



















subsection \<open>The exceptions that can be raised\<close>











subsection \<open>Example files and failing runs\<close>













section \<open>Frame file names\<close>

text \<open>
  Claim C9. For a frame index from 0 up to ten decimal digits, \<open>index_to_img_fn\<close> returns
  \<^verbatim>\<open>frame_\<close>, then zeros followed by the decimal digits of the index, ten characters in
  all, then \<^verbatim>\<open>.jpg\<close>; and an item access of \<^verbatim>\<open>EpicEditDataset\<close> that returns has opened the
  files that this function names for the start frame and for the stop frame of the sample.
\<close>

theorem index_to_img_fn_zero_padded:
  "(0 \<le> index \<and> index < 10 ^ 10 \<longrightarrow>
      index_to_img_fn index =
        ''frame_'' @ replicate (10 - length (str_nat (nat index))) (CHR ''0'') @ str_nat (nat index) @ ''.jpg''
      \<and> length (replicate (10 - length (str_nat (nat index))) (CHR ''0'') @ str_nat (nat index)) = 10
      \<and> (\<forall>c \<in> set (str_nat (nat index)). is_digit c)
      \<and> int (decimal_value (str_nat (nat index))) = index)
   \<and> (EpicEditDataset_getitem L d self g i = Inr (r, self', g') \<longrightarrow>
        (\<exists>m im0 im1.
           py_index (metadata self) i = Inr m
           \<and> d (os_path_join (os_path_join (basedir self) [part m, ''agentago_frames'', clip m])
                  [index_to_img_fn (start m)]) = Some (ImageFile im0)
           \<and> d (os_path_join (os_path_join (basedir self) [part m, ''agentago_frames'', clip m])
                  [index_to_img_fn (stop m)]) = Some (ImageFile im1)))"
proof (intro conjI impI)
  assume range: "0 \<le> index \<and> index < 10 ^ 10"
  then have "nat index < 10 ^ 10"
    by (simp add: nat_less_iff)
  then have len: "length (str_nat (nat index)) \<le> 10"
    by (rule length_str_nat) simp
  from range show "index_to_img_fn index =
      ''frame_'' @ replicate (10 - length (str_nat (nat index))) (CHR ''0'') @ str_nat (nat index) @ ''.jpg''"
    by (simp add: index_to_img_fn_def format_0d_def zfill_def LENGTH_FRAME_ID_def)
  from len show "length (replicate (10 - length (str_nat (nat index))) (CHR ''0'') @ str_nat (nat index)) = 10"
    by simp
  show "\<forall>c \<in> set (str_nat (nat index)). is_digit c"
    by (simp add: str_nat_digits)
  from range show "int (decimal_value (str_nat (nat index))) = index"
    by (simp add: decimal_value_str_nat)
next
  assume "EpicEditDataset_getitem L d self g i = Inr (r, self', g')"
  then show "\<exists>m im0 im1.
           py_index (metadata self) i = Inr m
           \<and> d (os_path_join (os_path_join (basedir self) [part m, ''agentago_frames'', clip m])
                  [index_to_img_fn (start m)]) = Some (ImageFile im0)
           \<and> d (os_path_join (os_path_join (basedir self) [part m, ''agentago_frames'', clip m])
                  [index_to_img_fn (stop m)]) = Some (ImageFile im1)"
    by (elim EpicEditDataset_getitem_Inr) blast
qed

text \<open>The frame 8 of the example clip.\<close>

theorem index_to_img_fn_zero_padded_witness:
  "(0::int) \<le> 8 \<and> (8::int) < 10 ^ 10
   \<and> index_to_img_fn 8 = ''frame_0000000008.jpg''
   \<and> int (decimal_value (str_nat (nat 8))) = 8
   \<and> EpicEditDataset_getitem example_lib epic_disk epic_self (\<lambda>i. 5) 0 =
       Inr (Dict [(''edited'', Tensor (hflip tensor_b)),
                  (''edit'', Dict [(''c_concat'', Tensor (hflip tensor_a)), (''c_crossattn'', Str ''open door'')])],
            epic_self, (\<lambda>i. 5))
   \<and> (\<exists>im0 im1.
         epic_disk ''/epic/P01/agentago_frames/P01_01/frame_0000000008.jpg'' = Some (ImageFile im0)
       \<and> epic_disk ''/epic/P01/agentago_frames/P01_01/frame_0000000202.jpg'' = Some (ImageFile im1))"
proof -
  note inst = index_to_img_fn_zero_padded [of 8 example_lib epic_disk epic_self "\<lambda>i. 5" 0
      "Dict [(''edited'', Tensor (hflip tensor_b)),
             (''edit'', Dict [(''c_concat'', Tensor (hflip tensor_a)), (''c_crossattn'', Str ''open door'')])]"
      epic_self "\<lambda>i. 5"]
  have idx: "py_index (metadata epic_self) 0 =
      Inr \<lparr>part = ''P01'', clip = ''P01_01'', start = 8, stop = 202, narration = ''open door''\<rparr>"
    by (simp add: py_index_def epic_self_def)
  have base: "basedir epic_self = ''/epic''"
    by (simp add: epic_self_def)
  from inst have "int (decimal_value (str_nat (nat 8))) = 8"
    by simp
  moreover from inst epic_getitem_example
  have "\<exists>im0 im1.
         epic_disk ''/epic/P01/agentago_frames/P01_01/frame_0000000008.jpg'' = Some (ImageFile im0)
       \<and> epic_disk ''/epic/P01/agentago_frames/P01_01/frame_0000000202.jpg'' = Some (ImageFile im1)"
    by (simp add: idx base example_paths fn_8 fn_202)
  ultimately show ?thesis
    using epic_getitem_example by (simp add: fn_8)
qed

section \<open>The joint crop and flip\<close>

text \<open>
  Claim C2. The three lines that crop and flip are run once on the concatenation of the two
  tensors: whatever the random choices, the result is the window at one offset \<open>(ci, cj)\<close>,
  flipped or not by one decision, of the concatenation, and when the two tensors have as
  many channels each, the two outputs are that same window and that same flip of the
  before-image and of the after-image. Each item access of \<^verbatim>\<open>EpicEditDataset\<close> and of
  \<^verbatim>\<open>EditDataset\<close> that returns has run these lines on the normalized tensors of its two
  resized images and returns their two outputs.
\<close>

theorem joint_crop_and_flip:
  "(crop_flip_chunk n p t0 t1 g = Inr (o0, o1, g') \<longrightarrow>
      (\<exists>ci cj g1.
         crop_params n (tensor_height (t0 @ t1)) (tensor_width (t0 @ t1)) g = Inr ((ci, cj), g1)
       \<and> o0 @ o1 = augment (flip_decision p g1) ci cj n (t0 @ t1)
       \<and> (length t0 = length t1 \<longrightarrow>
            o0 = augment (flip_decision p g1) ci cj n t0
          \<and> o1 = augment (flip_decision p g1) ci cj n t1)))
   \<and> (EpicEditDataset_getitem L d es ge ie = Inr (re, es', ge') \<longrightarrow>
      (\<exists>m im0 im1 rr g1 a0 a1 b0 b1.
         py_index (metadata es) ie = Inr m
       \<and> d (os_path_join (os_path_join (basedir es) [part m, ''agentago_frames'', clip m])
              [index_to_img_fn (start m)]) = Some (ImageFile im0)
       \<and> d (os_path_join (os_path_join (basedir es) [part m, ''agentago_frames'', clip m])
              [index_to_img_fn (stop m)]) = Some (ImageFile im1)
       \<and> torch_randint (EpicEditDataset.min_resize_res es) (EpicEditDataset.max_resize_res es + 1) ge
            = Inr (rr, g1)
       \<and> image_to_tensor L (lanczos L (nat rr) im0) = Inr a0
       \<and> image_to_tensor L (lanczos L (nat rr) im1) = Inr a1
       \<and> crop_flip_chunk (EpicEditDataset.crop_res es) (EpicEditDataset.flip_prob es) a0 a1 g1
            = Inr (b0, b1, ge')
       \<and> re = Dict [(''edited'', Tensor b1),
                     (''edit'', Dict [(''c_concat'', Tensor b0), (''c_crossattn'', Str (narration m))])]))
   \<and> (EditDataset_getitem L d ds gd jd = Inr (rd, ds', gd') \<longrightarrow>
      (\<exists>name seeds_i k g1 seed im0 im1 rr g2 a0 a1 b0 b1 prompt.
         py_index (EditDataset.seeds ds) jd = Inr (name, seeds_i)
       \<and> torch_randint 0 (int (length seeds_i)) gd = Inr (k, g1)
       \<and> py_index seeds_i k = Inr seed
       \<and> d (os_path_join (os_path_join (EditDataset.path ds) [name]) [str_int seed @ ''_0.jpg''])
            = Some (ImageFile im0)
       \<and> d (os_path_join (os_path_join (EditDataset.path ds) [name]) [str_int seed @ ''_1.jpg''])
            = Some (ImageFile im1)
       \<and> torch_randint (EditDataset.min_resize_res ds) (EditDataset.max_resize_res ds + 1) g1
            = Inr (rr, g2)
       \<and> image_to_tensor L (lanczos L (nat rr) im0) = Inr a0
       \<and> image_to_tensor L (lanczos L (nat rr) im1) = Inr a1
       \<and> crop_flip_chunk (EditDataset.crop_res ds) (EditDataset.flip_prob ds) a0 a1 g2
            = Inr (b0, b1, gd')
       \<and> rd = Dict [(''edited'', Tensor b1),
                     (''edit'', Dict [(''c_concat'', Tensor b0), (''c_crossattn'', Str prompt)])]))"
proof (intro conjI impI)
  assume "crop_flip_chunk n p t0 t1 g = Inr (o0, o1, g')"
  then show "\<exists>ci cj g1.
         crop_params n (tensor_height (t0 @ t1)) (tensor_width (t0 @ t1)) g = Inr ((ci, cj), g1)
       \<and> o0 @ o1 = augment (flip_decision p g1) ci cj n (t0 @ t1)
       \<and> (length t0 = length t1 \<longrightarrow>
            o0 = augment (flip_decision p g1) ci cj n t0
          \<and> o1 = augment (flip_decision p g1) ci cj n t1)"
    by (elim crop_flip_chunk_Inr) blast
next
  assume "EpicEditDataset_getitem L d es ge ie = Inr (re, es', ge')"
  then show "\<exists>m im0 im1 rr g1 a0 a1 b0 b1.
         py_index (metadata es) ie = Inr m
       \<and> d (os_path_join (os_path_join (basedir es) [part m, ''agentago_frames'', clip m])
              [index_to_img_fn (start m)]) = Some (ImageFile im0)
       \<and> d (os_path_join (os_path_join (basedir es) [part m, ''agentago_frames'', clip m])
              [index_to_img_fn (stop m)]) = Some (ImageFile im1)
       \<and> torch_randint (EpicEditDataset.min_resize_res es) (EpicEditDataset.max_resize_res es + 1) ge
            = Inr (rr, g1)
       \<and> image_to_tensor L (lanczos L (nat rr) im0) = Inr a0
       \<and> image_to_tensor L (lanczos L (nat rr) im1) = Inr a1
       \<and> crop_flip_chunk (EpicEditDataset.crop_res es) (EpicEditDataset.flip_prob es) a0 a1 g1
            = Inr (b0, b1, ge')
       \<and> re = Dict [(''edited'', Tensor b1),
                     (''edit'', Dict [(''c_concat'', Tensor b0), (''c_crossattn'', Str (narration m))])]"
    by (elim EpicEditDataset_getitem_Inr) blast
next
  assume "EditDataset_getitem L d ds gd jd = Inr (rd, ds', gd')"
  then show "\<exists>name seeds_i k g1 seed im0 im1 rr g2 a0 a1 b0 b1 prompt.
         py_index (EditDataset.seeds ds) jd = Inr (name, seeds_i)
       \<and> torch_randint 0 (int (length seeds_i)) gd = Inr (k, g1)
       \<and> py_index seeds_i k = Inr seed
       \<and> d (os_path_join (os_path_join (EditDataset.path ds) [name]) [str_int seed @ ''_0.jpg''])
            = Some (ImageFile im0)
       \<and> d (os_path_join (os_path_join (EditDataset.path ds) [name]) [str_int seed @ ''_1.jpg''])
            = Some (ImageFile im1)
       \<and> torch_randint (EditDataset.min_resize_res ds) (EditDataset.max_resize_res ds + 1) g1
            = Inr (rr, g2)
       \<and> image_to_tensor L (lanczos L (nat rr) im0) = Inr a0
       \<and> image_to_tensor L (lanczos L (nat rr) im1) = Inr a1
       \<and> crop_flip_chunk (EditDataset.crop_res ds) (EditDataset.flip_prob ds) a0 a1 g2
            = Inr (b0, b1, gd')
       \<and> rd = Dict [(''edited'', Tensor b1),
                     (''edit'', Dict [(''c_concat'', Tensor b0), (''c_crossattn'', Str prompt)])]"
    by (elim EditDataset_getitem_Inr) blast
qed

theorem joint_crop_and_flip_witness:
  "crop_flip_chunk 1 0 tensor_a tensor_b Suc =
     Inr ([[[- (47 / 51)]], [[- (43 / 51)]], [[- (13 / 17)]]],
          [[[- (241 / 255)]], [[- (239 / 255)]], [[- (79 / 85)]]],
          rng_tail (rng_tail (rng_tail Suc)))
   \<and> length tensor_a = length tensor_b
   \<and> crop_params 1 (tensor_height (tensor_a @ tensor_b)) (tensor_width (tensor_a @ tensor_b)) Suc
        = Inr ((1, 0), rng_tail (rng_tail Suc))
   \<and> [[[- (47 / 51)]], [[- (43 / 51)]], [[- (13 / 17)]]] =
        augment (flip_decision 0 (rng_tail (rng_tail Suc))) 1 0 1 tensor_a
   \<and> [[[- (241 / 255)]], [[- (239 / 255)]], [[- (79 / 85)]]] =
        augment (flip_decision 0 (rng_tail (rng_tail Suc))) 1 0 1 tensor_b
   \<and> EpicEditDataset_getitem example_lib epic_disk epic_self (\<lambda>i. 5) 0 =
       Inr (Dict [(''edited'', Tensor (hflip tensor_b)),
                  (''edit'', Dict [(''c_concat'', Tensor (hflip tensor_a)), (''c_crossattn'', Str ''open door'')])],
            epic_self, (\<lambda>i. 5))
   \<and> EditDataset_getitem example_lib edit_disk edit_self (\<lambda>i. 5) 0 =
       Inr (Dict [(''edited'', Tensor (hflip tensor_b)),
                  (''edit'', Dict [(''c_concat'', Tensor (hflip tensor_a)), (''c_crossattn'', Str ''make it a dog'')])],
            edit_self, (\<lambda>i. 5))"
proof -
  have hw: "tensor_height (tensor_a @ tensor_b) = 2" "tensor_width (tensor_a @ tensor_b) = 2"
    by (simp_all add: tensor_height_def tensor_width_def tensor_a_def)
  have params: "crop_params 1 2 2 Suc = Inr ((1, 0), rng_tail (rng_tail Suc))"
    by (simp add: crop_params_def torch_randint_def int64_def rng_tail_apply and_then_simps)
  have len: "length tensor_a = length tensor_b"
    by (simp add: example_heights)
  note inst = joint_crop_and_flip [of 1 0 tensor_a tensor_b Suc
      "[[[- (47 / 51)]], [[- (43 / 51)]], [[- (13 / 17)]]]"
      "[[[- (241 / 255)]], [[- (239 / 255)]], [[- (79 / 85)]]]"
      "rng_tail (rng_tail (rng_tail Suc))", THEN conjunct1, THEN mp,
      OF crop_flip_chunk_offset_example]
  from inst len
  have "[[[- (47 / 51)]], [[- (43 / 51)]], [[- (13 / 17)]]] =
        augment (flip_decision 0 (rng_tail (rng_tail Suc))) 1 0 1 tensor_a
      \<and> [[[- (241 / 255)]], [[- (239 / 255)]], [[- (79 / 85)]]] =
        augment (flip_decision 0 (rng_tail (rng_tail Suc))) 1 0 1 tensor_b"
    unfolding hw params by auto
  then show ?thesis
    using crop_flip_chunk_offset_example len params epic_getitem_example edit_getitem_example
    unfolding hw by simp
qed

section \<open>The training samples\<close>

text \<open>
  Claim C8. An item access of \<^verbatim>\<open>EpicEditDataset\<close> or of \<^verbatim>\<open>EditDataset\<close> that returns gives a
  dictionary with the key \<^verbatim>\<open>edited\<close> and the key \<^verbatim>\<open>edit\<close>, the latter a dictionary with the
  keys \<^verbatim>\<open>c_concat\<close> and \<^verbatim>\<open>c_crossattn\<close>. The text under \<^verbatim>\<open>c_crossattn\<close> is the narration of the
  indexed row, respectively the entry \<^verbatim>\<open>edit\<close> of the prompt file of the indexed sample. The
  tensors under \<^verbatim>\<open>c_concat\<close> and \<^verbatim>\<open>edited\<close> are the two chunks, the first one of half the
  channels rounded up, of the cropped and possibly flipped concatenation of the tensor of the
  before-image (the start frame, the file \<^verbatim>\<open>_0.jpg\<close>) and the tensor of the after-image (the
  stop frame, \<^verbatim>\<open>_1.jpg\<close>). When the two images have as many channels each, the tensor under
  \<^verbatim>\<open>c_concat\<close> is that of the before-image and the tensor under \<^verbatim>\<open>edited\<close> is that of the
  after-image.

  Without that condition they are not: for a before-image of three channels and an
  after-image of four, which the last theorem of this section runs through both classes,
  the tensor under \<^verbatim>\<open>c_concat\<close> has four channels, the fourth a channel of the after-image,
  and the tensor under \<^verbatim>\<open>edited\<close> has the three other channels of the after-image.
\<close>

theorem getitem_returns_edited_and_edit:
  "(EpicEditDataset_getitem L d es ge ie = Inr (re, es', ge') \<longrightarrow>
      (\<exists>m im0 im1 rr g1 a0 a1 b0 b1 ci cj g2.
         py_index (metadata es) ie = Inr m
       \<and> d (os_path_join (os_path_join (basedir es) [part m, ''agentago_frames'', clip m])
              [index_to_img_fn (start m)]) = Some (ImageFile im0)
       \<and> d (os_path_join (os_path_join (basedir es) [part m, ''agentago_frames'', clip m])
              [index_to_img_fn (stop m)]) = Some (ImageFile im1)
       \<and> torch_randint (EpicEditDataset.min_resize_res es) (EpicEditDataset.max_resize_res es + 1) ge
            = Inr (rr, g1)
       \<and> image_to_tensor L (lanczos L (nat rr) im0) = Inr a0
       \<and> image_to_tensor L (lanczos L (nat rr) im1) = Inr a1
       \<and> crop_params (EpicEditDataset.crop_res es) (tensor_height (a0 @ a1)) (tensor_width (a0 @ a1)) g1
            = Inr ((ci, cj), g2)
       \<and> re = Dict [(''edited'', Tensor b1),
                     (''edit'', Dict [(''c_concat'', Tensor b0), (''c_crossattn'', Str (narration m))])]
       \<and> b0 @ b1 = augment (flip_decision (EpicEditDataset.flip_prob es) g2) ci cj (EpicEditDataset.crop_res es) (a0 @ a1)
       \<and> length b0 = (length a0 + length a1 + 1) div 2
       \<and> (length a0 = length a1 \<longrightarrow>
            b0 = augment (flip_decision (EpicEditDataset.flip_prob es) g2) ci cj (EpicEditDataset.crop_res es) a0
          \<and> b1 = augment (flip_decision (EpicEditDataset.flip_prob es) g2) ci cj (EpicEditDataset.crop_res es) a1)))
   \<and> (EditDataset_getitem L d ds gd jd = Inr (rd, ds', gd') \<longrightarrow>
      (\<exists>name seeds_i k g1 seed pj prompt im0 im1 rr g2 a0 a1 b0 b1 ci cj g3.
         py_index (EditDataset.seeds ds) jd = Inr (name, seeds_i)
       \<and> torch_randint 0 (int (length seeds_i)) gd = Inr (k, g1)
       \<and> py_index seeds_i k = Inr seed
       \<and> d (os_path_join (os_path_join (EditDataset.path ds) [name]) [''prompt.json''])
            = Some (PromptFile pj)
       \<and> dict_get pj ''edit'' = Inr prompt
       \<and> d (os_path_join (os_path_join (EditDataset.path ds) [name]) [str_int seed @ ''_0.jpg''])
            = Some (ImageFile im0)
       \<and> d (os_path_join (os_path_join (EditDataset.path ds) [name]) [str_int seed @ ''_1.jpg''])
            = Some (ImageFile im1)
       \<and> torch_randint (EditDataset.min_resize_res ds) (EditDataset.max_resize_res ds + 1) g1
            = Inr (rr, g2)
       \<and> image_to_tensor L (lanczos L (nat rr) im0) = Inr a0
       \<and> image_to_tensor L (lanczos L (nat rr) im1) = Inr a1
       \<and> crop_params (EditDataset.crop_res ds) (tensor_height (a0 @ a1)) (tensor_width (a0 @ a1)) g2
            = Inr ((ci, cj), g3)
       \<and> rd = Dict [(''edited'', Tensor b1),
                     (''edit'', Dict [(''c_concat'', Tensor b0), (''c_crossattn'', Str prompt)])]
       \<and> b0 @ b1 = augment (flip_decision (EditDataset.flip_prob ds) g3) ci cj (EditDataset.crop_res ds) (a0 @ a1)
       \<and> length b0 = (length a0 + length a1 + 1) div 2
       \<and> (length a0 = length a1 \<longrightarrow>
            b0 = augment (flip_decision (EditDataset.flip_prob ds) g3) ci cj (EditDataset.crop_res ds) a0
          \<and> b1 = augment (flip_decision (EditDataset.flip_prob ds) g3) ci cj (EditDataset.crop_res ds) a1)))"
proof (intro conjI impI)
  assume "EpicEditDataset_getitem L d es ge ie = Inr (re, es', ge')"
  then obtain m im0 im1 rr g1 a0 a1 b0 b1 where steps:
    "py_index (metadata es) ie = Inr m"
    "d (os_path_join (os_path_join (basedir es) [part m, ''agentago_frames'', clip m])
          [index_to_img_fn (start m)]) = Some (ImageFile im0)"
    "d (os_path_join (os_path_join (basedir es) [part m, ''agentago_frames'', clip m])
          [index_to_img_fn (stop m)]) = Some (ImageFile im1)"
    "torch_randint (EpicEditDataset.min_resize_res es) (EpicEditDataset.max_resize_res es + 1) ge
       = Inr (rr, g1)"
    "image_to_tensor L (lanczos L (nat rr) im0) = Inr a0"
    "image_to_tensor L (lanczos L (nat rr) im1) = Inr a1"
    and chunk: "crop_flip_chunk (EpicEditDataset.crop_res es) (EpicEditDataset.flip_prob es) a0 a1 g1
       = Inr (b0, b1, ge')"
    and re: "re = Dict [(''edited'', Tensor b1),
               (''edit'', Dict [(''c_concat'', Tensor b0), (''c_crossattn'', Str (narration m))])]"
    by (rule EpicEditDataset_getitem_Inr)
  from chunk obtain ci cj g2 where
    "crop_params (EpicEditDataset.crop_res es) (tensor_height (a0 @ a1)) (tensor_width (a0 @ a1)) g1
       = Inr ((ci, cj), g2)"
    "b0 @ b1 = augment (flip_decision (EpicEditDataset.flip_prob es) g2) ci cj (EpicEditDataset.crop_res es) (a0 @ a1)"
    "length b0 = (length a0 + length a1 + 1) div 2"
    "length a0 = length a1 \<longrightarrow>
       b0 = augment (flip_decision (EpicEditDataset.flip_prob es) g2) ci cj (EpicEditDataset.crop_res es) a0
     \<and> b1 = augment (flip_decision (EpicEditDataset.flip_prob es) g2) ci cj (EpicEditDataset.crop_res es) a1"
    by (elim crop_flip_chunk_Inr) blast
  with steps re show "\<exists>m im0 im1 rr g1 a0 a1 b0 b1 ci cj g2.
         py_index (metadata es) ie = Inr m
       \<and> d (os_path_join (os_path_join (basedir es) [part m, ''agentago_frames'', clip m])
              [index_to_img_fn (start m)]) = Some (ImageFile im0)
       \<and> d (os_path_join (os_path_join (basedir es) [part m, ''agentago_frames'', clip m])
              [index_to_img_fn (stop m)]) = Some (ImageFile im1)
       \<and> torch_randint (EpicEditDataset.min_resize_res es) (EpicEditDataset.max_resize_res es + 1) ge
            = Inr (rr, g1)
       \<and> image_to_tensor L (lanczos L (nat rr) im0) = Inr a0
       \<and> image_to_tensor L (lanczos L (nat rr) im1) = Inr a1
       \<and> crop_params (EpicEditDataset.crop_res es) (tensor_height (a0 @ a1)) (tensor_width (a0 @ a1)) g1
            = Inr ((ci, cj), g2)
       \<and> re = Dict [(''edited'', Tensor b1),
                     (''edit'', Dict [(''c_concat'', Tensor b0), (''c_crossattn'', Str (narration m))])]
       \<and> b0 @ b1 = augment (flip_decision (EpicEditDataset.flip_prob es) g2) ci cj (EpicEditDataset.crop_res es) (a0 @ a1)
       \<and> length b0 = (length a0 + length a1 + 1) div 2
       \<and> (length a0 = length a1 \<longrightarrow>
            b0 = augment (flip_decision (EpicEditDataset.flip_prob es) g2) ci cj (EpicEditDataset.crop_res es) a0
          \<and> b1 = augment (flip_decision (EpicEditDataset.flip_prob es) g2) ci cj (EpicEditDataset.crop_res es) a1)"
    by blast
next
  assume "EditDataset_getitem L d ds gd jd = Inr (rd, ds', gd')"
  then obtain name seeds_i k g1 seed pj prompt im0 im1 rr g2 a0 a1 b0 b1 where steps:
    "py_index (EditDataset.seeds ds) jd = Inr (name, seeds_i)"
    "torch_randint 0 (int (length seeds_i)) gd = Inr (k, g1)"
    "py_index seeds_i k = Inr seed"
    "d (os_path_join (os_path_join (EditDataset.path ds) [name]) [''prompt.json'']) = Some (PromptFile pj)"
    "dict_get pj ''edit'' = Inr prompt"
    "d (os_path_join (os_path_join (EditDataset.path ds) [name]) [str_int seed @ ''_0.jpg''])
       = Some (ImageFile im0)"
    "d (os_path_join (os_path_join (EditDataset.path ds) [name]) [str_int seed @ ''_1.jpg''])
       = Some (ImageFile im1)"
    "torch_randint (EditDataset.min_resize_res ds) (EditDataset.max_resize_res ds + 1) g1
       = Inr (rr, g2)"
    "image_to_tensor L (lanczos L (nat rr) im0) = Inr a0"
    "image_to_tensor L (lanczos L (nat rr) im1) = Inr a1"
    and chunk: "crop_flip_chunk (EditDataset.crop_res ds) (EditDataset.flip_prob ds) a0 a1 g2
       = Inr (b0, b1, gd')"
    and rd: "rd = Dict [(''edited'', Tensor b1),
               (''edit'', Dict [(''c_concat'', Tensor b0), (''c_crossattn'', Str prompt)])]"
    by (rule EditDataset_getitem_Inr)
  from chunk obtain ci cj g3 where
    "crop_params (EditDataset.crop_res ds) (tensor_height (a0 @ a1)) (tensor_width (a0 @ a1)) g2
       = Inr ((ci, cj), g3)"
    "b0 @ b1 = augment (flip_decision (EditDataset.flip_prob ds) g3) ci cj (EditDataset.crop_res ds) (a0 @ a1)"
    "length b0 = (length a0 + length a1 + 1) div 2"
    "length a0 = length a1 \<longrightarrow>
       b0 = augment (flip_decision (EditDataset.flip_prob ds) g3) ci cj (EditDataset.crop_res ds) a0
     \<and> b1 = augment (flip_decision (EditDataset.flip_prob ds) g3) ci cj (EditDataset.crop_res ds) a1"
    by (elim crop_flip_chunk_Inr) blast
  with steps rd show "\<exists>name seeds_i k g1 seed pj prompt im0 im1 rr g2 a0 a1 b0 b1 ci cj g3.
         py_index (EditDataset.seeds ds) jd = Inr (name, seeds_i)
       \<and> torch_randint 0 (int (length seeds_i)) gd = Inr (k, g1)
       \<and> py_index seeds_i k = Inr seed
       \<and> d (os_path_join (os_path_join (EditDataset.path ds) [name]) [''prompt.json''])
            = Some (PromptFile pj)
       \<and> dict_get pj ''edit'' = Inr prompt
       \<and> d (os_path_join (os_path_join (EditDataset.path ds) [name]) [str_int seed @ ''_0.jpg''])
            = Some (ImageFile im0)
       \<and> d (os_path_join (os_path_join (EditDataset.path ds) [name]) [str_int seed @ ''_1.jpg''])
            = Some (ImageFile im1)
       \<and> torch_randint (EditDataset.min_resize_res ds) (EditDataset.max_resize_res ds + 1) g1
            = Inr (rr, g2)
       \<and> image_to_tensor L (lanczos L (nat rr) im0) = Inr a0
       \<and> image_to_tensor L (lanczos L (nat rr) im1) = Inr a1
       \<and> crop_params (EditDataset.crop_res ds) (tensor_height (a0 @ a1)) (tensor_width (a0 @ a1)) g2
            = Inr ((ci, cj), g3)
       \<and> rd = Dict [(''edited'', Tensor b1),
                     (''edit'', Dict [(''c_concat'', Tensor b0), (''c_crossattn'', Str prompt)])]
       \<and> b0 @ b1 = augment (flip_decision (EditDataset.flip_prob ds) g3) ci cj (EditDataset.crop_res ds) (a0 @ a1)
       \<and> length b0 = (length a0 + length a1 + 1) div 2
       \<and> (length a0 = length a1 \<longrightarrow>
            b0 = augment (flip_decision (EditDataset.flip_prob ds) g3) ci cj (EditDataset.crop_res ds) a0
          \<and> b1 = augment (flip_decision (EditDataset.flip_prob ds) g3) ci cj (EditDataset.crop_res ds) a1)"
    by blast
qed

theorem getitem_returns_edited_and_edit_witness:
  "EpicEditDataset_getitem example_lib epic_disk epic_self (\<lambda>i. 5) 0 =
       Inr (Dict [(''edited'', Tensor (hflip tensor_b)),
                  (''edit'', Dict [(''c_concat'', Tensor (hflip tensor_a)), (''c_crossattn'', Str ''open door'')])],
            epic_self, (\<lambda>i. 5))
   \<and> EditDataset_getitem example_lib edit_disk edit_self (\<lambda>i. 5) 0 =
       Inr (Dict [(''edited'', Tensor (hflip tensor_b)),
                  (''edit'', Dict [(''c_concat'', Tensor (hflip tensor_a)), (''c_crossattn'', Str ''make it a dog'')])],
            edit_self, (\<lambda>i. 5))
   \<and> length tensor_a = length tensor_b
   \<and> image_to_tensor example_lib frame_a = Inr tensor_a
   \<and> image_to_tensor example_lib frame_b = Inr tensor_b
   \<and> hflip tensor_a = augment True 0 0 2 tensor_a
   \<and> hflip tensor_b = augment True 0 0 2 tensor_b"
proof -
  note epic = getitem_returns_edited_and_edit [THEN conjunct1, THEN mp, OF epic_getitem_example]
  have len: "length tensor_a = length tensor_b"
    by (simp add: example_heights)
  from epic len have "hflip tensor_a = augment True 0 0 2 tensor_a \<and> hflip tensor_b = augment True 0 0 2 tensor_b"
    by (clarsimp simp: epic_example_steps example_paths fn_8 fn_202 example_tensors example_cat_shape
        crop_params_full flip_decision_example)
  with len show ?thesis
    using epic_getitem_example edit_getitem_example example_tensors by simp
qed

theorem c_concat_holds_after_image_channel_counterexample:
  "image_to_tensor example_lib frame_a = Inr tensor_a
   \<and> image_to_tensor example_lib frame_c = Inr tensor_c
   \<and> length tensor_a = 3 \<and> length tensor_c = 4
   \<and> EditDataset_getitem example_lib (edit_disk(''/data/a/7_1.jpg'' \<mapsto> ImageFile frame_c)) edit_self (\<lambda>i. 5) 0 =
       Inr (Dict [(''edited'', Tensor (drop 1 (hflip tensor_c))),
                  (''edit'', Dict [(''c_concat'', Tensor (hflip tensor_a @ take 1 (hflip tensor_c))),
                                   (''c_crossattn'', Str ''make it a dog'')])],
            edit_self, (\<lambda>i. 5))
   \<and> EpicEditDataset_getitem example_lib
         (epic_disk(''/epic/P01/agentago_frames/P01_01/frame_0000000202.jpg'' \<mapsto> ImageFile frame_c))
         epic_self (\<lambda>i. 5) 0 =
       Inr (Dict [(''edited'', Tensor (drop 1 (hflip tensor_c))),
                  (''edit'', Dict [(''c_concat'', Tensor (hflip tensor_a @ take 1 (hflip tensor_c))),
                                   (''c_crossattn'', Str ''open door'')])],
            epic_self, (\<lambda>i. 5))
   \<and> hflip tensor_a @ take 1 (hflip tensor_c) =
       [[[1, - 1], [- (35 / 51), - (47 / 51)]], [[3 / 5, - (3 / 5)], [- (31 / 51), - (43 / 51)]],
        [[1 / 5, - (1 / 5)], [- (9 / 17), - (13 / 17)]], [[3 / 5, - 1], [- 1, - (1 / 5)]]]
   \<and> take 1 (hflip tensor_c) = [[[3 / 5, - 1], [- 1, - (1 / 5)]]]
   \<and> length (hflip tensor_a @ take 1 (hflip tensor_c)) = 4
   \<and> length (drop 1 (hflip tensor_c)) = 3
   \<and> hflip tensor_a @ take 1 (hflip tensor_c) \<noteq> hflip tensor_a
   \<and> drop 1 (hflip tensor_c) \<noteq> hflip tensor_c"
proof -
  have "hflip tensor_a @ take 1 (hflip tensor_c) =
       [[[1, - 1], [- (35 / 51), - (47 / 51)]], [[3 / 5, - (3 / 5)], [- (31 / 51), - (43 / 51)]],
        [[1 / 5, - (1 / 5)], [- (9 / 17), - (13 / 17)]], [[3 / 5, - 1], [- 1, - (1 / 5)]]]"
    "take 1 (hflip tensor_c) = [[[3 / 5, - 1], [- 1, - (1 / 5)]]]"
    "length (hflip tensor_a @ take 1 (hflip tensor_c)) = 4"
    "length (drop 1 (hflip tensor_c)) = 3"
    "hflip tensor_a @ take 1 (hflip tensor_c) \<noteq> hflip tensor_a"
    "drop 1 (hflip tensor_c) \<noteq> hflip tensor_c"
    "length tensor_c = 4"
    by (simp_all add: hflip_def tensor_a_def tensor_c_def)
  with example_tensors(1) example_tensor_c(2) example_heights(5) mixed_channels_runs
  show ?thesis
    by (intro conjI)
qed

section \<open>Normalization\<close>

text \<open>
  Claim C3. A sample \<open>v\<close> in 0..255 is mapped to \<open>2 * v / 255 - 1\<close> in exact arithmetic; in
  floating point each of the three operations is rounded. With any rounding that is monotone
  and exact on the integers up to \<open>2 ^ 24\<close>, the sample 0 is mapped to \<open>-1\<close> and the sample 255
  to 1, a larger sample is mapped to a number at least as large, and every result lies in
  \<open>[-1, 1]\<close>; with a rounding that is also within \<open>2 ^ - 24\<close> of its argument on \<open>[-2, 2]\<close>, the
  result is within \<open>2 ^ - 23\<close> of \<open>2 * v / 255 - 1\<close>. Every element of every tensor that an item
  access of any of the three classes returns is the normalized value of a sample of one of
  the resized images that the access has opened, so it lies in \<open>[-1, 1]\<close>.
\<close>

theorem returned_tensors_normalized:
  "normalize_sample (\<lambda>x. x) v = 2 * real (unat v) / 255 - 1
   \<and> (rounding 24 fl \<longrightarrow>
        normalize_sample fl 0 = - 1 \<and> normalize_sample fl 255 = 1
      \<and> (u \<le> v \<longrightarrow> normalize_sample fl u \<le> normalize_sample fl v)
      \<and> - 1 \<le> normalize_sample fl v \<and> normalize_sample fl v \<le> 1
      \<and> (accurate 24 fl \<longrightarrow> \<bar>normalize_sample fl v - (2 * real (unat v) / 255 - 1)\<bar> \<le> 1 / 2 ^ 23))
   \<and> (EpicEditDataset_getitem L d es ge ie = Inr (re, es', ge') \<longrightarrow>
        (\<exists>m im0 im1 rr g1 b0 b1.
           py_index (metadata es) ie = Inr m
         \<and> d (os_path_join (os_path_join (basedir es) [part m, ''agentago_frames'', clip m])
                [index_to_img_fn (start m)]) = Some (ImageFile im0)
         \<and> d (os_path_join (os_path_join (basedir es) [part m, ''agentago_frames'', clip m])
                [index_to_img_fn (stop m)]) = Some (ImageFile im1)
         \<and> torch_randint (EpicEditDataset.min_resize_res es) (EpicEditDataset.max_resize_res es + 1) ge
              = Inr (rr, g1)
         \<and> re = Dict [(''edited'', Tensor b1),
                      (''edit'', Dict [(''c_concat'', Tensor b0), (''c_crossattn'', Str (narration m))])]
         \<and> (\<forall>x \<in> tensor_elems b0 \<union> tensor_elems b1.
               (\<exists>u \<in> image_samples (lanczos L (nat rr) im0) \<union> image_samples (lanczos L (nat rr) im1).
                  x = normalize_sample (fl32 L) u)
             \<and> (rounding 24 (fl32 L) \<longrightarrow> - 1 \<le> x \<and> x \<le> 1))))
   \<and> (EditDataset_getitem L d ds gd jd = Inr (rd, ds', gd') \<longrightarrow>
        (\<exists>name seeds_i k g1 seed im0 im1 rr g2 b0 b1 txt.
           py_index (EditDataset.seeds ds) jd = Inr (name, seeds_i)
         \<and> torch_randint 0 (int (length seeds_i)) gd = Inr (k, g1)
         \<and> py_index seeds_i k = Inr seed
         \<and> d (os_path_join (os_path_join (EditDataset.path ds) [name]) [str_int seed @ ''_0.jpg''])
              = Some (ImageFile im0)
         \<and> d (os_path_join (os_path_join (EditDataset.path ds) [name]) [str_int seed @ ''_1.jpg''])
              = Some (ImageFile im1)
         \<and> torch_randint (EditDataset.min_resize_res ds) (EditDataset.max_resize_res ds + 1) g1
              = Inr (rr, g2)
         \<and> rd = Dict [(''edited'', Tensor b1),
                      (''edit'', Dict [(''c_concat'', Tensor b0), (''c_crossattn'', Str txt)])]
         \<and> (\<forall>x \<in> tensor_elems b0 \<union> tensor_elems b1.
               (\<exists>u \<in> image_samples (lanczos L (nat rr) im0) \<union> image_samples (lanczos L (nat rr) im1).
                  x = normalize_sample (fl32 L) u)
             \<and> (rounding 24 (fl32 L) \<longrightarrow> - 1 \<le> x \<and> x \<le> 1))))
   \<and> (EditDatasetEval_getitem L d vs gv jv = Inr (rv, vs', gv') \<longrightarrow>
        (\<exists>name seeds_i k g1 seed im0 t0 txt_in txt_edit txt_out.
           py_index (seeds vs) jv = Inr (name, seeds_i)
         \<and> torch_randint 0 (int (length seeds_i)) gv = Inr (k, g1)
         \<and> py_index seeds_i k = Inr seed
         \<and> d (os_path_join (os_path_join (path vs) [name]) [str_int seed @ ''_0.jpg''])
              = Some (ImageFile im0)
         \<and> rv = Dict [(''image_0'', Tensor t0), (''input_prompt'', Str txt_in),
                      (''edit'', Str txt_edit), (''output_prompt'', Str txt_out)]
         \<and> (\<forall>x \<in> tensor_elems t0.
               (\<exists>u \<in> image_samples (lanczos L (nat (res vs)) im0). x = normalize_sample (fl32 L) u)
             \<and> (rounding 24 (fl32 L) \<longrightarrow> - 1 \<le> x \<and> x \<le> 1))))"
proof (intro conjI impI)
  show "normalize_sample (\<lambda>x. x) v = 2 * real (unat v) / 255 - 1"
    by (simp add: normalize_sample_def)
next
  assume r: "rounding 24 fl"
  then show "normalize_sample fl 0 = - 1" "normalize_sample fl 255 = 1"
    by (rule normalize_sample_ends)+
  from r show "- 1 \<le> normalize_sample fl v" "normalize_sample fl v \<le> 1"
    using normalize_sample_bounds [of fl v] by simp_all
  {
    assume "u \<le> v"
    with r show "normalize_sample fl u \<le> normalize_sample fl v"
      by (rule normalize_sample_mono)
  }
  {
    assume "accurate 24 fl"
    with r show "\<bar>normalize_sample fl v - (2 * real (unat v) / 255 - 1)\<bar> \<le> 1 / 2 ^ 23"
      by (rule normalize_sample_error)
  }
next
  assume run: "EpicEditDataset_getitem L d es ge ie = Inr (re, es', ge')"
  from run show "\<exists>m im0 im1 rr g1 b0 b1.
           py_index (metadata es) ie = Inr m
         \<and> d (os_path_join (os_path_join (basedir es) [part m, ''agentago_frames'', clip m])
                [index_to_img_fn (start m)]) = Some (ImageFile im0)
         \<and> d (os_path_join (os_path_join (basedir es) [part m, ''agentago_frames'', clip m])
                [index_to_img_fn (stop m)]) = Some (ImageFile im1)
         \<and> torch_randint (EpicEditDataset.min_resize_res es) (EpicEditDataset.max_resize_res es + 1) ge
              = Inr (rr, g1)
         \<and> re = Dict [(''edited'', Tensor b1),
                      (''edit'', Dict [(''c_concat'', Tensor b0), (''c_crossattn'', Str (narration m))])]
         \<and> (\<forall>x \<in> tensor_elems b0 \<union> tensor_elems b1.
               (\<exists>u \<in> image_samples (lanczos L (nat rr) im0) \<union> image_samples (lanczos L (nat rr) im1).
                  x = normalize_sample (fl32 L) u)
             \<and> (rounding 24 (fl32 L) \<longrightarrow> - 1 \<le> x \<and> x \<le> 1))"
  proof (rule EpicEditDataset_getitem_Inr)
    fix m :: epic_meta and im0 im1 rr g1 a0 a1 b0 b1
    assume steps: "py_index (metadata es) ie = Inr m"
      "d (os_path_join (os_path_join (basedir es) [part m, ''agentago_frames'', clip m])
          [index_to_img_fn (start m)]) = Some (ImageFile im0)"
      "d (os_path_join (os_path_join (basedir es) [part m, ''agentago_frames'', clip m])
          [index_to_img_fn (stop m)]) = Some (ImageFile im1)"
      "torch_randint (EpicEditDataset.min_resize_res es) (EpicEditDataset.max_resize_res es + 1) ge
         = Inr (rr, g1)"
      and t: "image_to_tensor L (lanczos L (nat rr) im0) = Inr a0"
       "image_to_tensor L (lanczos L (nat rr) im1) = Inr a1"
      and c: "crop_flip_chunk (EpicEditDataset.crop_res es) (EpicEditDataset.flip_prob es) a0 a1 g1
         = Inr (b0, b1, ge')"
      and r: "re = Dict [(''edited'', Tensor b1),
               (''edit'', Dict [(''c_concat'', Tensor b0), (''c_crossattn'', Str (narration m))])]"
    have "\<forall>x \<in> tensor_elems b0 \<union> tensor_elems b1.
        (\<exists>u \<in> image_samples (lanczos L (nat rr) im0) \<union> image_samples (lanczos L (nat rr) im1).
           x = normalize_sample (fl32 L) u)
        \<and> (rounding 24 (fl32 L) \<longrightarrow> - 1 \<le> x \<and> x \<le> 1)"
      using pair_samples [OF t c] normalize_sample_bounds [of "fl32 L"] by blast
    with steps r show ?thesis
      by blast
  qed
next
  assume run: "EditDataset_getitem L d ds gd jd = Inr (rd, ds', gd')"
  from run show "\<exists>name seeds_i k g1 seed im0 im1 rr g2 b0 b1 txt.
           py_index (EditDataset.seeds ds) jd = Inr (name, seeds_i)
         \<and> torch_randint 0 (int (length seeds_i)) gd = Inr (k, g1)
         \<and> py_index seeds_i k = Inr seed
         \<and> d (os_path_join (os_path_join (EditDataset.path ds) [name]) [str_int seed @ ''_0.jpg''])
              = Some (ImageFile im0)
         \<and> d (os_path_join (os_path_join (EditDataset.path ds) [name]) [str_int seed @ ''_1.jpg''])
              = Some (ImageFile im1)
         \<and> torch_randint (EditDataset.min_resize_res ds) (EditDataset.max_resize_res ds + 1) g1
              = Inr (rr, g2)
         \<and> rd = Dict [(''edited'', Tensor b1),
                      (''edit'', Dict [(''c_concat'', Tensor b0), (''c_crossattn'', Str txt)])]
         \<and> (\<forall>x \<in> tensor_elems b0 \<union> tensor_elems b1.
               (\<exists>u \<in> image_samples (lanczos L (nat rr) im0) \<union> image_samples (lanczos L (nat rr) im1).
                  x = normalize_sample (fl32 L) u)
             \<and> (rounding 24 (fl32 L) \<longrightarrow> - 1 \<le> x \<and> x \<le> 1))"
  proof (rule EditDataset_getitem_Inr)
    fix name seeds_i k g1 seed pj prompt im0 im1 rr g2 a0 a1 b0 b1
    assume steps: "py_index (EditDataset.seeds ds) jd = Inr (name, seeds_i)"
      "torch_randint 0 (int (length seeds_i)) gd = Inr (k, g1)"
      "py_index seeds_i k = Inr seed"
      "d (os_path_join (os_path_join (EditDataset.path ds) [name]) [str_int seed @ ''_0.jpg''])
         = Some (ImageFile im0)"
      "d (os_path_join (os_path_join (EditDataset.path ds) [name]) [str_int seed @ ''_1.jpg''])
         = Some (ImageFile im1)"
      "torch_randint (EditDataset.min_resize_res ds) (EditDataset.max_resize_res ds + 1) g1
         = Inr (rr, g2)"
      and t: "image_to_tensor L (lanczos L (nat rr) im0) = Inr a0"
       "image_to_tensor L (lanczos L (nat rr) im1) = Inr a1"
      and c: "crop_flip_chunk (EditDataset.crop_res ds) (EditDataset.flip_prob ds) a0 a1 g2
         = Inr (b0, b1, gd')"
      and r: "rd = Dict [(''edited'', Tensor b1),
               (''edit'', Dict [(''c_concat'', Tensor b0), (''c_crossattn'', Str prompt)])]"
    have "\<forall>x \<in> tensor_elems b0 \<union> tensor_elems b1.
        (\<exists>u \<in> image_samples (lanczos L (nat rr) im0) \<union> image_samples (lanczos L (nat rr) im1).
           x = normalize_sample (fl32 L) u)
        \<and> (rounding 24 (fl32 L) \<longrightarrow> - 1 \<le> x \<and> x \<le> 1)"
      using pair_samples [OF t c] normalize_sample_bounds [of "fl32 L"] by blast
    with steps r show ?thesis
      by blast
  qed
next
  assume run: "EditDatasetEval_getitem L d vs gv jv = Inr (rv, vs', gv')"
  from run show "\<exists>name seeds_i k g1 seed im0 t0 txt_in txt_edit txt_out.
           py_index (seeds vs) jv = Inr (name, seeds_i)
         \<and> torch_randint 0 (int (length seeds_i)) gv = Inr (k, g1)
         \<and> py_index seeds_i k = Inr seed
         \<and> d (os_path_join (os_path_join (path vs) [name]) [str_int seed @ ''_0.jpg''])
              = Some (ImageFile im0)
         \<and> rv = Dict [(''image_0'', Tensor t0), (''input_prompt'', Str txt_in),
                      (''edit'', Str txt_edit), (''output_prompt'', Str txt_out)]
         \<and> (\<forall>x \<in> tensor_elems t0.
               (\<exists>u \<in> image_samples (lanczos L (nat (res vs)) im0). x = normalize_sample (fl32 L) u)
             \<and> (rounding 24 (fl32 L) \<longrightarrow> - 1 \<le> x \<and> x \<le> 1))"
  proof (rule EditDatasetEval_getitem_Inr)
    fix name seeds_i k g1 seed pj edit_p input_p output_p im0 rr t0
    assume steps: "py_index (seeds vs) jv = Inr (name, seeds_i)"
      "torch_randint 0 (int (length seeds_i)) gv = Inr (k, g1)"
      "py_index seeds_i k = Inr seed"
      "d (os_path_join (os_path_join (path vs) [name]) [str_int seed @ ''_0.jpg''])
         = Some (ImageFile im0)"
      and rr: "torch_randint (res vs) (res vs + 1) g1 = Inr (rr, gv')"
      and t: "image_to_tensor L (lanczos L (nat rr) im0) = Inr t0"
      and r: "rv = Dict [(''image_0'', Tensor t0), (''input_prompt'', Str input_p),
               (''edit'', Str edit_p), (''output_prompt'', Str output_p)]"
    from rr have "rr = res vs"
      by (simp add: torch_randint_single)
    with t have t': "image_to_tensor L (lanczos L (nat (res vs)) im0) = Inr t0"
      by simp
    have "\<forall>x \<in> tensor_elems t0.
        (\<exists>u \<in> image_samples (lanczos L (nat (res vs)) im0). x = normalize_sample (fl32 L) u)
        \<and> (rounding 24 (fl32 L) \<longrightarrow> - 1 \<le> x \<and> x \<le> 1)"
      using tensor_samples_image [OF t'] normalize_sample_bounds [of "fl32 L"] by blast
    with steps r show ?thesis
      by blast
  qed
qed

theorem returned_tensors_normalized_witness:
  "rounding 24 (fl32 example_lib) \<and> accurate 24 (fl32 example_lib)
   \<and> normalize_sample (fl32 example_lib) 0 = - 1
   \<and> normalize_sample (fl32 example_lib) 255 = 1
   \<and> (51 :: 8 word) \<le> 204
   \<and> normalize_sample (fl32 example_lib) 51 \<le> normalize_sample (fl32 example_lib) 204
   \<and> \<bar>normalize_sample (fl32 example_lib) 204 - (2 * real (unat (204 :: 8 word)) / 255 - 1)\<bar> \<le> 1 / 2 ^ 23
   \<and> EpicEditDataset_getitem example_lib epic_disk epic_self (\<lambda>i. 5) 0 =
       Inr (Dict [(''edited'', Tensor (hflip tensor_b)),
                  (''edit'', Dict [(''c_concat'', Tensor (hflip tensor_a)), (''c_crossattn'', Str ''open door'')])],
            epic_self, (\<lambda>i. 5))
   \<and> EditDataset_getitem example_lib edit_disk edit_self (\<lambda>i. 5) 0 =
       Inr (Dict [(''edited'', Tensor (hflip tensor_b)),
                  (''edit'', Dict [(''c_concat'', Tensor (hflip tensor_a)), (''c_crossattn'', Str ''make it a dog'')])],
            edit_self, (\<lambda>i. 5))
   \<and> EditDatasetEval_getitem example_lib edit_disk eval_self (\<lambda>i. 5) 0 =
       Inr (Dict [(''image_0'', Tensor tensor_a), (''input_prompt'', Str ''a cat''),
                  (''edit'', Str ''make it a dog''), (''output_prompt'', Str ''a dog'')],
            eval_self, (\<lambda>i. 5))
   \<and> tensor_elems tensor_a \<subseteq> {- 1 .. 1}
   \<and> tensor_elems (hflip tensor_a) \<union> tensor_elems (hflip tensor_b) \<subseteq> {- 1 .. 1}
   \<and> tensor_elems (hflip tensor_a) \<union> tensor_elems (hflip tensor_b) \<subseteq> {- 1 .. 1}"
proof -
  have exact: "rounding 24 (fl32 example_lib)" "accurate 24 (fl32 example_lib)"
    by (simp_all add: example_lib_def rounding_exact accurate_exact)
  have le: "(51 :: 8 word) \<le> 204"
    by simp
  note inst = returned_tensors_normalized [where L = example_lib and fl = "fl32 example_lib"
      and u = 51 and v = 204]
  note sample = inst [THEN conjunct2, THEN conjunct1, THEN mp, OF exact(1)]
  from sample have ends: "normalize_sample (fl32 example_lib) 0 = - 1"
    "normalize_sample (fl32 example_lib) 255 = 1"
    by blast+
  from sample le have mono: "normalize_sample (fl32 example_lib) 51 \<le> normalize_sample (fl32 example_lib) 204"
    by blast
  from sample exact(2)
  have err: "\<bar>normalize_sample (fl32 example_lib) 204 - (2 * real (unat (204 :: 8 word)) / 255 - 1)\<bar> \<le> 1 / 2 ^ 23"
    by blast
  from inst [THEN conjunct2, THEN conjunct2, THEN conjunct1, THEN mp, OF epic_getitem_example] exact(1)
  have epic: "tensor_elems (hflip tensor_a) \<union> tensor_elems (hflip tensor_b) \<subseteq> {- 1 .. 1}"
    by auto
  from inst [THEN conjunct2, THEN conjunct2, THEN conjunct2, THEN conjunct1, THEN mp,
      OF edit_getitem_example] exact(1)
  have edit: "tensor_elems (hflip tensor_a) \<union> tensor_elems (hflip tensor_b) \<subseteq> {- 1 .. 1}"
    by auto
  from inst [THEN conjunct2, THEN conjunct2, THEN conjunct2, THEN conjunct2, THEN mp,
      OF eval_getitem_example] exact(1)
  have single: "tensor_elems tensor_a \<subseteq> {- 1 .. 1}"
    by auto
  from exact ends le mono err epic_getitem_example edit_getitem_example eval_getitem_example
    single epic edit
  show ?thesis
    by (intro conjI)
qed

section \<open>The evaluation samples\<close>

text \<open>
  Claim C7. An item access of \<^verbatim>\<open>EditDatasetEval\<close> that returns gives a dictionary with exactly
  the keys \<^verbatim>\<open>image_0\<close>, \<^verbatim>\<open>input_prompt\<close>, \<^verbatim>\<open>edit\<close> and \<^verbatim>\<open>output_prompt\<close>: the normalized tensor
  of the source image \<^verbatim>\<open>_0.jpg\<close> of the drawn seed, resized to \<^verbatim>\<open>res\<close>, and the entries \<^verbatim>\<open>input\<close>,
  \<^verbatim>\<open>edit\<close> and \<^verbatim>\<open>output\<close> of the prompt file. It never reads the edited image: whatever is
  put at, or removed from, a path that ends in \<^verbatim>\<open>_1.jpg\<close>, the item access gives the same
  result or raises the same error.
\<close>

theorem eval_returns_source_and_prompts:
  "(EditDatasetEval_getitem L d vs gv jv = Inr (rv, vs', gv') \<longrightarrow>
      (\<exists>name seeds_i k g1 seed pj txt_edit txt_in txt_out im0 t0.
         py_index (seeds vs) jv = Inr (name, seeds_i)
       \<and> torch_randint 0 (int (length seeds_i)) gv = Inr (k, g1)
       \<and> py_index seeds_i k = Inr seed
       \<and> d (os_path_join (os_path_join (path vs) [name]) [''prompt.json'']) = Some (PromptFile pj)
       \<and> dict_get pj ''edit'' = Inr txt_edit
       \<and> dict_get pj ''input'' = Inr txt_in
       \<and> dict_get pj ''output'' = Inr txt_out
       \<and> d (os_path_join (os_path_join (path vs) [name]) [str_int seed @ ''_0.jpg''])
            = Some (ImageFile im0)
       \<and> image_to_tensor L (lanczos L (nat (res vs)) im0) = Inr t0
       \<and> rv = Dict [(''image_0'', Tensor t0), (''input_prompt'', Str txt_in),
                     (''edit'', Str txt_edit), (''output_prompt'', Str txt_out)]))
   \<and> EditDatasetEval_getitem L (d(u @ ''_1.jpg'' := x)) vs gv jv = EditDatasetEval_getitem L d vs gv jv"
proof (intro conjI impI)
  assume run: "EditDatasetEval_getitem L d vs gv jv = Inr (rv, vs', gv')"
  from run show "\<exists>name seeds_i k g1 seed pj txt_edit txt_in txt_out im0 t0.
         py_index (seeds vs) jv = Inr (name, seeds_i)
       \<and> torch_randint 0 (int (length seeds_i)) gv = Inr (k, g1)
       \<and> py_index seeds_i k = Inr seed
       \<and> d (os_path_join (os_path_join (path vs) [name]) [''prompt.json'']) = Some (PromptFile pj)
       \<and> dict_get pj ''edit'' = Inr txt_edit
       \<and> dict_get pj ''input'' = Inr txt_in
       \<and> dict_get pj ''output'' = Inr txt_out
       \<and> d (os_path_join (os_path_join (path vs) [name]) [str_int seed @ ''_0.jpg''])
            = Some (ImageFile im0)
       \<and> image_to_tensor L (lanczos L (nat (res vs)) im0) = Inr t0
       \<and> rv = Dict [(''image_0'', Tensor t0), (''input_prompt'', Str txt_in),
                     (''edit'', Str txt_edit), (''output_prompt'', Str txt_out)]"
  proof (rule EditDatasetEval_getitem_Inr)
    fix name seeds_i k g1 seed pj edit_p input_p output_p im0 rr t0
    assume steps: "py_index (seeds vs) jv = Inr (name, seeds_i)"
      "torch_randint 0 (int (length seeds_i)) gv = Inr (k, g1)"
      "py_index seeds_i k = Inr seed"
      "d (os_path_join (os_path_join (path vs) [name]) [''prompt.json'']) = Some (PromptFile pj)"
      "dict_get pj ''edit'' = Inr edit_p"
      "dict_get pj ''input'' = Inr input_p"
      "dict_get pj ''output'' = Inr output_p"
      "d (os_path_join (os_path_join (path vs) [name]) [str_int seed @ ''_0.jpg''])
         = Some (ImageFile im0)"
      and rr: "torch_randint (res vs) (res vs + 1) g1 = Inr (rr, gv')"
      and t: "image_to_tensor L (lanczos L (nat rr) im0) = Inr t0"
      and r: "rv = Dict [(''image_0'', Tensor t0), (''input_prompt'', Str input_p),
               (''edit'', Str edit_p), (''output_prompt'', Str output_p)]"
    from rr have "rr = res vs"
      by (simp add: torch_randint_single)
    with t have "image_to_tensor L (lanczos L (nat (res vs)) im0) = Inr t0"
      by simp
    with steps r show ?thesis
      by blast
  qed
next
  show "EditDatasetEval_getitem L (d(u @ ''_1.jpg'' := x)) vs gv jv = EditDatasetEval_getitem L d vs gv jv"
    unfolding EditDatasetEval_getitem_def
    by (simp only: load_prompt_after_image image_open_after_image)
qed

theorem eval_returns_source_and_prompts_witness:
  "EditDatasetEval_getitem example_lib edit_disk eval_self (\<lambda>i. 5) 0 =
       Inr (Dict [(''image_0'', Tensor tensor_a), (''input_prompt'', Str ''a cat''),
                  (''edit'', Str ''make it a dog''), (''output_prompt'', Str ''a dog'')],
            eval_self, (\<lambda>i. 5))
   \<and> image_to_tensor example_lib (lanczos example_lib (nat (res eval_self)) frame_a) = Inr tensor_a
   \<and> EditDatasetEval_getitem example_lib (edit_disk(''/data/a/7_1.jpg'' := None)) eval_self (\<lambda>i. 5) 0 =
       Inr (Dict [(''image_0'', Tensor tensor_a), (''input_prompt'', Str ''a cat''),
                  (''edit'', Str ''make it a dog''), (''output_prompt'', Str ''a dog'')],
            eval_self, (\<lambda>i. 5))"
proof -
  note inst = eval_returns_source_and_prompts [of example_lib edit_disk eval_self "\<lambda>i. 5" 0 _ _ _
      "''/data/a/7''" None]
  have "''/data/a/7'' @ ''_1.jpg'' = ''/data/a/7_1.jpg''"
    by simp
  with inst [THEN conjunct2]
  have "EditDatasetEval_getitem example_lib (edit_disk(''/data/a/7_1.jpg'' := None)) eval_self (\<lambda>i. 5) 0 =
      EditDatasetEval_getitem example_lib edit_disk eval_self (\<lambda>i. 5) 0"
    by simp
  moreover have "image_to_tensor example_lib (lanczos example_lib (nat (res eval_self)) frame_a) = Inr tensor_a"
    using example_resize_2 example_tensors
    by (simp add: eval_self_def image_resize_def)
  ultimately show ?thesis
    using eval_getitem_example by simp
qed

section \<open>The resolution of the evaluation samples\<close>

text \<open>
  Claim C10. Whenever \<^verbatim>\<open>torch.randint(res, res + 1, ())\<close> returns, it returns \<^verbatim>\<open>res\<close>, whatever
  the state of the generator, and it returns for every \<^verbatim>\<open>res\<close> from \<open>- 2 ^ 63\<close> up to
  \<open>2 ^ 63 - 2\<close>, the values for which both bounds are 64-bit integers. So an item access of
  \<^verbatim>\<open>EditDatasetEval\<close> that returns has a positive \<^verbatim>\<open>res\<close> below \<open>2 ^ 63 - 1\<close> and returns the
  normalized tensor of the source image resized to \<^verbatim>\<open>res\<close> by \<^verbatim>\<open>res\<close>: with a resampling that
  gives an image of the size it is asked for, the tensor has height \<^verbatim>\<open>res\<close> and width \<^verbatim>\<open>res\<close>.
\<close>

theorem eval_resize_is_deterministic:
  "(torch_randint (res vs) (res vs + 1) g = Inr (k, g') \<longrightarrow> k = res vs \<and> g' = rng_tail g)
   \<and> (- (2 ^ 63) \<le> res vs \<and> res vs < 2 ^ 63 - 1 \<longrightarrow>
        torch_randint (res vs) (res vs + 1) g = Inr (res vs, rng_tail g))
   \<and> (EditDatasetEval_getitem L d vs gv jv = Inr (rv, vs', gv') \<longrightarrow>
        0 < res vs \<and> res vs < 2 ^ 63 - 1
      \<and> (\<exists>p im0 t0 txt_in txt_edit txt_out.
            d p = Some (ImageFile im0)
          \<and> image_to_tensor L (lanczos L (nat (res vs)) im0) = Inr t0
          \<and> rv = Dict [(''image_0'', Tensor t0), (''input_prompt'', Str txt_in),
                        (''edit'', Str txt_edit), (''output_prompt'', Str txt_out)]
          \<and> (\<forall>h w c. resampling (lanczos L) \<and> 0 < h \<and> 0 < w \<and> 0 < c \<and> colour_shaped h w c im0 \<longrightarrow>
                tensor_shaped c (nat (res vs)) (nat (res vs)) t0)))"
proof (intro conjI impI)
  assume "torch_randint (res vs) (res vs + 1) g = Inr (k, g')"
  then show "k = res vs" "g' = rng_tail g"
    by (simp_all add: torch_randint_single)
next
  assume "- (2 ^ 63) \<le> res vs \<and> res vs < 2 ^ 63 - 1"
  then show "torch_randint (res vs) (res vs + 1) g = Inr (res vs, rng_tail g)"
    by (simp add: torch_randint_single int64_def)
next
  assume run: "EditDatasetEval_getitem L d vs gv jv = Inr (rv, vs', gv')"
  from run show "0 < res vs"
  proof (rule EditDatasetEval_getitem_Inr)
    fix g1 rr
    assume "torch_randint (res vs) (res vs + 1) g1 = Inr (rr, gv')" "0 < rr"
    then show ?thesis
      by (simp add: torch_randint_single)
  qed
  from run show "res vs < 2 ^ 63 - 1"
  proof (rule EditDatasetEval_getitem_Inr)
    fix g1 rr
    assume "torch_randint (res vs) (res vs + 1) g1 = Inr (rr, gv')"
    then show ?thesis
      by (simp add: torch_randint_single int64_def)
  qed
  from run show "\<exists>p im0 t0 txt_in txt_edit txt_out.
            d p = Some (ImageFile im0)
          \<and> image_to_tensor L (lanczos L (nat (res vs)) im0) = Inr t0
          \<and> rv = Dict [(''image_0'', Tensor t0), (''input_prompt'', Str txt_in),
                        (''edit'', Str txt_edit), (''output_prompt'', Str txt_out)]
          \<and> (\<forall>h w c. resampling (lanczos L) \<and> 0 < h \<and> 0 < w \<and> 0 < c \<and> colour_shaped h w c im0 \<longrightarrow>
                tensor_shaped c (nat (res vs)) (nat (res vs)) t0)"
  proof (rule EditDatasetEval_getitem_Inr)
    fix name seed edit_p input_p output_p im0 g1 rr t0
    assume opened: "d (os_path_join (os_path_join (path vs) [name]) [str_int seed @ ''_0.jpg''])
         = Some (ImageFile im0)"
      and rr: "torch_randint (res vs) (res vs + 1) g1 = Inr (rr, gv')" "0 < rr"
      and t: "image_to_tensor L (lanczos L (nat rr) im0) = Inr t0"
      and r: "rv = Dict [(''image_0'', Tensor t0), (''input_prompt'', Str input_p),
               (''edit'', Str edit_p), (''output_prompt'', Str output_p)]"
    from rr have eq: "rr = res vs" and pos: "0 < nat (res vs)"
      by (simp_all add: torch_randint_single)
    from t eq have t': "image_to_tensor L (lanczos L (nat (res vs)) im0) = Inr t0"
      by simp
    have "tensor_shaped c (nat (res vs)) (nat (res vs)) t0"
      if "resampling (lanczos L) \<and> 0 < h \<and> 0 < w \<and> 0 < c \<and> colour_shaped h w c im0" for h w c
    proof -
      from that pos have "colour_shaped (nat (res vs)) (nat (res vs)) c (lanczos L (nat (res vs)) im0)"
        unfolding resampling_def by blast
      with t' pos show ?thesis
        by (intro image_to_tensor_shaped)
    qed
    with opened t' r show ?thesis
      by blast
  qed
qed

theorem eval_resize_is_deterministic_witness:
  "- (2 ^ 63) \<le> res eval_self \<and> res eval_self < 2 ^ 63 - 1
   \<and> torch_randint (res eval_self) (res eval_self + 1) Suc = Inr (2, rng_tail Suc)
   \<and> 2 = res eval_self
   \<and> EditDatasetEval_getitem example_lib edit_disk eval_self (\<lambda>i. 5) 0 =
       Inr (Dict [(''image_0'', Tensor tensor_a), (''input_prompt'', Str ''a cat''),
                  (''edit'', Str ''make it a dog''), (''output_prompt'', Str ''a dog'')],
            eval_self, (\<lambda>i. 5))
   \<and> resampling (lanczos example_lib)
   \<and> colour_shaped 2 2 3 frame_a
   \<and> 0 < res eval_self
   \<and> tensor_shaped 3 (nat (res eval_self)) (nat (res eval_self)) tensor_a"
proof -
  note inst = eval_resize_is_deterministic [where vs = eval_self and g = Suc and L = example_lib
      and d = edit_disk and gv = "\<lambda>i. 5" and jv = 0 and k = 2 and g' = "rng_tail Suc"]
  have r: "res eval_self = 2"
    by (simp add: eval_self_def)
  have range: "- (2 ^ 63) \<le> res eval_self \<and> res eval_self < 2 ^ 63 - 1"
    by (simp add: r)
  have shaped: "tensor_shaped 3 (nat (res eval_self)) (nat (res eval_self)) tensor_a"
    by (simp add: r tensor_shaped_def tensor_a_def)
  from inst [THEN conjunct2, THEN conjunct2, THEN mp, OF eval_getitem_example]
  have pos: "0 < res eval_self"
    by simp
  from inst [THEN conjunct2, THEN conjunct1, THEN mp, OF range]
  have draw: "torch_randint (res eval_self) (res eval_self + 1) Suc = Inr (2, rng_tail Suc)"
    by (simp add: r)
  from inst [THEN conjunct1, THEN mp, OF draw] have same: "2 = res eval_self"
    by simp
  from range draw same eval_getitem_example example_resampling frame_a_shaped pos shaped
  show ?thesis
    by (intro conjI) simp_all
qed

section \<open>The methods do not change the object\<close>

text \<open>
  Claim C5. \<^verbatim>\<open>__len__\<close> and a returning \<^verbatim>\<open>__getitem__\<close> of each of the three classes hand the
  object back as it was, the stored slice of the manifest and every configuration field
  included, so \<^verbatim>\<open>__len__\<close> gives the same number before and after either of them.
\<close>

theorem methods_leave_object_unchanged:
  "(EpicEditDataset_getitem L d es ge ie = Inr (re, es', ge') \<longrightarrow>
      es' = es \<and> metadata es' = metadata es
      \<and> fst (EpicEditDataset_len es') = fst (EpicEditDataset_len es))
   \<and> snd (EpicEditDataset_len es) = es
   \<and> fst (EpicEditDataset_len (snd (EpicEditDataset_len es))) = fst (EpicEditDataset_len es)
   \<and> (EditDataset_getitem L d ds gd jd = Inr (rd, ds', gd') \<longrightarrow>
      ds' = ds \<and> EditDataset.seeds ds' = EditDataset.seeds ds
      \<and> fst (EditDataset_len ds') = fst (EditDataset_len ds))
   \<and> snd (EditDataset_len ds) = ds
   \<and> fst (EditDataset_len (snd (EditDataset_len ds))) = fst (EditDataset_len ds)
   \<and> (EditDatasetEval_getitem L d vs gv jv = Inr (rv, vs', gv') \<longrightarrow>
      vs' = vs \<and> seeds vs' = seeds vs
      \<and> fst (EditDatasetEval_len vs') = fst (EditDatasetEval_len vs))
   \<and> snd (EditDatasetEval_len vs) = vs
   \<and> fst (EditDatasetEval_len (snd (EditDatasetEval_len vs))) = fst (EditDatasetEval_len vs)"
proof -
  have epic: "es' = es" if "EpicEditDataset_getitem L d es ge ie = Inr (re, es', ge')"
    using that by (rule EpicEditDataset_getitem_Inr)
  have edit: "ds' = ds" if "EditDataset_getitem L d ds gd jd = Inr (rd, ds', gd')"
    using that by (rule EditDataset_getitem_Inr)
  have eval: "vs' = vs" if "EditDatasetEval_getitem L d vs gv jv = Inr (rv, vs', gv')"
    using that by (rule EditDatasetEval_getitem_Inr)
  from epic edit eval show ?thesis
    by (auto simp: EpicEditDataset_len_def EditDataset_len_def EditDatasetEval_len_def)
qed

theorem methods_leave_object_unchanged_witness:
  "EpicEditDataset_getitem example_lib epic_disk epic_self (\<lambda>i. 5) 0 =
       Inr (Dict [(''edited'', Tensor (hflip tensor_b)),
                  (''edit'', Dict [(''c_concat'', Tensor (hflip tensor_a)), (''c_crossattn'', Str ''open door'')])],
            epic_self, (\<lambda>i. 5))
   \<and> EditDataset_getitem example_lib edit_disk edit_self (\<lambda>i. 5) 0 =
       Inr (Dict [(''edited'', Tensor (hflip tensor_b)),
                  (''edit'', Dict [(''c_concat'', Tensor (hflip tensor_a)), (''c_crossattn'', Str ''make it a dog'')])],
            edit_self, (\<lambda>i. 5))
   \<and> EditDatasetEval_getitem example_lib edit_disk eval_self (\<lambda>i. 5) 0 =
       Inr (Dict [(''image_0'', Tensor tensor_a), (''input_prompt'', Str ''a cat''),
                  (''edit'', Str ''make it a dog''), (''output_prompt'', Str ''a dog'')],
            eval_self, (\<lambda>i. 5))
   \<and> EpicEditDataset_len epic_self = (1, epic_self)
   \<and> EditDataset_len edit_self = (1, edit_self)
   \<and> EditDatasetEval_len eval_self = (1, eval_self)"
proof -
  note inst = methods_leave_object_unchanged [of example_lib epic_disk epic_self "\<lambda>i. 5" 0]
  have "fst (EpicEditDataset_len epic_self) = 1" "fst (EditDataset_len edit_self) = 1"
    "fst (EditDatasetEval_len eval_self) = 1"
    by (simp_all add: EpicEditDataset_len_def EditDataset_len_def EditDatasetEval_len_def
        epic_self_def edit_self_def eval_self_def)
  moreover from inst [of _ _ _ edit_self _ _ _ _ _ eval_self]
  have "snd (EpicEditDataset_len epic_self) = epic_self" "snd (EditDataset_len edit_self) = edit_self"
    "snd (EditDatasetEval_len eval_self) = eval_self"
    by simp_all
  ultimately show ?thesis
    using epic_getitem_example edit_getitem_example eval_getitem_example
    by (simp add: prod_eq_iff)
qed

section \<open>The assertion on the proportions\<close>

text \<open>
  Claim C6. Each of the three constructors raises \<^verbatim>\<open>AssertionError\<close> when \<^verbatim>\<open>sum(splits)\<close> is not
  1, and when \<^verbatim>\<open>sum(splits)\<close> is 1 and the split is one of the three names, no constructor
  raises \<^verbatim>\<open>AssertionError\<close>: both assertions pass, and what may still be raised comes from the
  files. The sum is the one Python computes, in floating point.
\<close>

theorem constructors_assert_sum:
  "(py_sum (fl64 L) splits \<noteq> 1 \<longrightarrow>
      EpicEditDataset_init L d ng p sp splits lo hi cr fp = Inl AssertionError
    \<and> EditDataset_init L d p sp splits lo hi cr fp = Inl AssertionError
    \<and> EditDatasetEval_init L d p sp splits r = Inl AssertionError)
   \<and> (py_sum (fl64 L) splits = 1 \<and> sp \<in> set [''train'', ''val'', ''test''] \<longrightarrow>
      EpicEditDataset_init L d ng p sp splits lo hi cr fp \<noteq> Inl AssertionError
    \<and> EditDataset_init L d p sp splits lo hi cr fp \<noteq> Inl AssertionError
    \<and> EditDatasetEval_init L d p sp splits r \<noteq> Inl AssertionError)"
proof (intro conjI impI)
  assume "py_sum (fl64 L) splits \<noteq> 1"
  then show "EpicEditDataset_init L d ng p sp splits lo hi cr fp = Inl AssertionError"
    "EditDataset_init L d p sp splits lo hi cr fp = Inl AssertionError"
    "EditDatasetEval_init L d p sp splits r = Inl AssertionError"
    by (simp_all add: EpicEditDataset_init_def EditDataset_init_def EditDatasetEval_init_def)
next
  assume ok: "py_sum (fl64 L) splits = 1 \<and> sp \<in> set [''train'', ''val'', ''test'']"
  then have epic: "EpicEditDataset_init L d ng p sp splits lo hi cr fp =
      and_then (load_info d (os_path_join p [''info.json''])) (\<lambda>info'.
      and_then (read_csv d (os_path_join p [''EPIC100_annotations.csv''])) (\<lambda>rows.
      and_then (dict_get (split_table (fl64 L) splits) sp) (\<lambda>bounds.
      and_then (split_slice (fl64 L) bounds (fst (np_random_shuffle (map row_to_meta rows) ng)))
        (\<lambda>kept.
      Inr (\<lparr>basedir = p, min_resize_res = lo, max_resize_res = hi, crop_res = cr, flip_prob = fp,
            info = info', pre_metadata = rows, metadata = kept\<rparr>,
           snd (np_random_shuffle (map row_to_meta rows) ng))))))"
    unfolding EpicEditDataset_init_def by simp
  show "EpicEditDataset_init L d ng p sp splits lo hi cr fp \<noteq> Inl AssertionError"
    unfolding epic by (intro and_then_no_assertion loads_no_assertion split_slice_no_assertion) simp
  from ok have edit: "EditDataset_init L d p sp splits lo hi cr fp =
      and_then (load_seeds d (os_path_join p [''seeds.json''])) (\<lambda>seeds'.
      and_then (dict_get (split_table (fl64 L) splits) sp) (\<lambda>bounds.
      and_then (split_slice (fl64 L) bounds seeds') (\<lambda>kept.
      Inr \<lparr>EditDataset.path = p, EditDataset.min_resize_res = lo, EditDataset.max_resize_res = hi,
           EditDataset.crop_res = cr, EditDataset.flip_prob = fp,
           EditDataset.seeds = kept\<rparr>)))"
    unfolding EditDataset_init_def by simp
  show "EditDataset_init L d p sp splits lo hi cr fp \<noteq> Inl AssertionError"
    unfolding edit by (intro and_then_no_assertion loads_no_assertion split_slice_no_assertion) simp
  from ok have eval: "EditDatasetEval_init L d p sp splits r =
      and_then (load_seeds d (os_path_join p [''seeds.json''])) (\<lambda>seeds'.
      and_then (dict_get (split_table (fl64 L) splits) sp) (\<lambda>bounds.
      and_then (split_slice (fl64 L) bounds seeds') (\<lambda>kept.
      Inr \<lparr>path = p, res = r, seeds = kept\<rparr>)))"
    unfolding EditDatasetEval_init_def by simp
  show "EditDatasetEval_init L d p sp splits r \<noteq> Inl AssertionError"
    unfolding eval by (intro and_then_no_assertion loads_no_assertion split_slice_no_assertion) simp
qed

theorem constructors_assert_sum_witness:
  "py_sum (fl64 example_lib) (1 / 2, 1 / 4, 1 / 2) \<noteq> 1
   \<and> EpicEditDataset_init example_lib epic_disk id ''/epic'' ''train'' (1 / 2, 1 / 4, 1 / 2) 2 2 2 1
        = Inl AssertionError
   \<and> EditDataset_init example_lib edit_disk ''/data'' ''train'' (1 / 2, 1 / 4, 1 / 2) 2 2 2 1
        = Inl AssertionError
   \<and> EditDatasetEval_init example_lib edit_disk ''/data'' ''train'' (1 / 2, 1 / 4, 1 / 2) 2
        = Inl AssertionError
   \<and> py_sum (fl64 example_lib) (1 / 2, 1 / 4, 1 / 4) = 1
   \<and> ''train'' \<in> set [''train'', ''val'', ''test'']
   \<and> EpicEditDataset_init example_lib epic_disk id ''/epic'' ''train'' (1 / 2, 1 / 4, 1 / 4) 2 2 2 1
        \<noteq> Inl AssertionError
   \<and> EditDataset_init example_lib edit_disk ''/data'' ''train'' (1 / 2, 1 / 4, 1 / 4) 2 2 2 1
        \<noteq> Inl AssertionError
   \<and> EditDatasetEval_init example_lib edit_disk ''/data'' ''train'' (1 / 2, 1 / 4, 1 / 4) 2
        \<noteq> Inl AssertionError"
proof -
  have mem: "''train'' \<in> set [''train'', ''val'', ''test'']"
    by simp
  note bad_epic = constructors_assert_sum [where L = example_lib and splits = "(1 / 2, 1 / 4, 1 / 2)"
      and sp = "''train''" and lo = 2 and hi = 2 and cr = 2 and fp = 1 and r = 2 and ng = id
      and d = epic_disk and p = "''/epic''", THEN conjunct1, THEN mp, OF example_sums(2)]
  note bad_edit = constructors_assert_sum [where L = example_lib and splits = "(1 / 2, 1 / 4, 1 / 2)"
      and sp = "''train''" and lo = 2 and hi = 2 and cr = 2 and fp = 1 and r = 2 and ng = id
      and d = edit_disk and p = "''/data''", THEN conjunct1, THEN mp, OF example_sums(2)]
  note good_epic = constructors_assert_sum [where L = example_lib and splits = "(1 / 2, 1 / 4, 1 / 4)"
      and sp = "''train''" and lo = 2 and hi = 2 and cr = 2 and fp = 1 and r = 2 and ng = id
      and d = epic_disk and p = "''/epic''", THEN conjunct2, THEN mp, OF conjI, OF example_sums(1) mem]
  note good_edit = constructors_assert_sum [where L = example_lib and splits = "(1 / 2, 1 / 4, 1 / 4)"
      and sp = "''train''" and lo = 2 and hi = 2 and cr = 2 and fp = 1 and r = 2 and ng = id
      and d = edit_disk and p = "''/data''", THEN conjunct2, THEN mp, OF conjI, OF example_sums(1) mem]
  from bad_epic bad_edit good_epic good_edit show ?thesis
    using example_sums mem by simp
qed

section \<open>The split of the manifest into train, val and test\<close>

text \<open>
Claim C1. The constructors keep manifest[floor(split_0 * n) : floor(split_1 * n)] with
(split_0, split_1) = (0, s0) for train, (s0, s0 + s1) for val and (s0 + s1, 1) for test.
For proportions that pass the assertion on their sum, with s0 and s1 not negative
(s0 a float, the manifest not longer than 2 ^ 53), whenever the three constructions return
they keep index ranges [0, i0), [i0, i1) and [i1, n) with i0 \<le> i1 \<le> n: the ranges are
disjoint and leave no gap. For EditDataset and EditDatasetEval the three slices, in the order
train, val, test, concatenate to the list of seeds.json. EpicEditDataset shuffles the rows
first: when the three constructions start from the same state of the random generator, the
three slices concatenate to the shuffled list, which is a permutation of the rows of the
annotation table. These are the last three parts of the statement. Its first two parts
say that the three constructions do return, with i0 = min (floor (s0 * n)) n and
i1 = min (floor ((s0 + s1) * n)) n, when the float sum s0 + s1 is at most 2 ^ 53, so that
no product with n overflows and math.floor raises no OverflowError.

The statement for all proportions summing to 1 does not hold, as the last theorem
of this section shows on two runs. With the proportions
(-1/2, 1/2, 1) the assertion passes and, of the four entries a, b, c, d, train keeps a, b,
val keeps nothing and test keeps all four, since a negative bound of a slice counts from
the end. With the proportions (1/2, 1/2, 0) and a generator that advances from one
construction of EpicEditDataset to the next, the two rows are shuffled afresh each time and
train and val both keep the row ''close door''.
\<close>

theorem splits_partition_manifest:
  assumes "rounding 53 (fl64 L)" and "fl64 L s0 = s0" and "0 \<le> s0" and "0 \<le> s1"
    and "py_sum (fl64 L) (s0, s1, s2) = 1"
  shows
    "(load_seeds d (os_path_join p [''seeds.json'']) = Inr xs \<and> length xs \<le> 2 ^ 53
        \<and> fl64 L (s0 + s1) \<le> 2 ^ 53 \<longrightarrow>
        (\<exists>tr va te i0 i1.
           EditDataset_init L d p ''train'' (s0, s1, s2) lo hi cr fp = Inr tr
         \<and> EditDataset_init L d p ''val'' (s0, s1, s2) lo hi cr fp = Inr va
         \<and> EditDataset_init L d p ''test'' (s0, s1, s2) lo hi cr fp = Inr te
         \<and> i0 = min (nat \<lfloor>fl64 L (s0 * real (length xs))\<rfloor>) (length xs)
         \<and> i1 = min (nat \<lfloor>fl64 L (fl64 L (s0 + s1) * real (length xs))\<rfloor>) (length xs)
         \<and> i0 \<le> i1 \<and> i1 \<le> length xs
         \<and> EditDataset.seeds tr = take i0 xs
         \<and> EditDataset.seeds va = take (i1 - i0) (drop i0 xs)
         \<and> EditDataset.seeds te = drop i1 xs
         \<and> EditDataset.seeds tr @ EditDataset.seeds va @ EditDataset.seeds te = xs)
      \<and> (\<exists>tr va te i0 i1.
           EditDatasetEval_init L d p ''train'' (s0, s1, s2) r = Inr tr
         \<and> EditDatasetEval_init L d p ''val'' (s0, s1, s2) r = Inr va
         \<and> EditDatasetEval_init L d p ''test'' (s0, s1, s2) r = Inr te
         \<and> i0 = min (nat \<lfloor>fl64 L (s0 * real (length xs))\<rfloor>) (length xs)
         \<and> i1 = min (nat \<lfloor>fl64 L (fl64 L (s0 + s1) * real (length xs))\<rfloor>) (length xs)
         \<and> i0 \<le> i1 \<and> i1 \<le> length xs
         \<and> seeds tr = take i0 xs
         \<and> seeds va = take (i1 - i0) (drop i0 xs)
         \<and> seeds te = drop i1 xs
         \<and> seeds tr @ seeds va @ seeds te = xs))
   \<and> (load_info d (os_path_join p [''info.json'']) = Inr ()
      \<and> read_csv d (os_path_join p [''EPIC100_annotations.csv'']) = Inr rows
      \<and> length rows \<le> 2 ^ 53 \<and> fl64 L (s0 + s1) \<le> 2 ^ 53 \<longrightarrow>
        (\<exists>tr va te ng' ys i0 i1.
           EpicEditDataset_init L d ng p ''train'' (s0, s1, s2) lo hi cr fp = Inr (tr, ng')
         \<and> EpicEditDataset_init L d ng p ''val'' (s0, s1, s2) lo hi cr fp = Inr (va, ng')
         \<and> EpicEditDataset_init L d ng p ''test'' (s0, s1, s2) lo hi cr fp = Inr (te, ng')
         \<and> ys = fst (np_random_shuffle (map row_to_meta rows) ng)
         \<and> mset ys = mset (map row_to_meta rows)
         \<and> i0 = min (nat \<lfloor>fl64 L (s0 * real (length ys))\<rfloor>) (length ys)
         \<and> i1 = min (nat \<lfloor>fl64 L (fl64 L (s0 + s1) * real (length ys))\<rfloor>) (length ys)
         \<and> i0 \<le> i1 \<and> i1 \<le> length ys
         \<and> metadata tr = take i0 ys
         \<and> metadata va = take (i1 - i0) (drop i0 ys)
         \<and> metadata te = drop i1 ys
         \<and> metadata tr @ metadata va @ metadata te = ys))
   \<and> (load_seeds d (os_path_join p [''seeds.json'']) = Inr xs \<and> length xs \<le> 2 ^ 53
        \<and> EditDataset_init L d p ''train'' (s0, s1, s2) lo hi cr fp = Inr dtr
        \<and> EditDataset_init L d p ''val'' (s0, s1, s2) lo hi cr fp = Inr dva
        \<and> EditDataset_init L d p ''test'' (s0, s1, s2) lo hi cr fp = Inr dte \<longrightarrow>
        (\<exists>i0 i1. i0 \<le> i1 \<and> i1 \<le> length xs
         \<and> EditDataset.seeds dtr = take i0 xs
         \<and> EditDataset.seeds dva = take (i1 - i0) (drop i0 xs)
         \<and> EditDataset.seeds dte = drop i1 xs
         \<and> EditDataset.seeds dtr @ EditDataset.seeds dva @ EditDataset.seeds dte = xs))
   \<and> (load_seeds d (os_path_join p [''seeds.json'']) = Inr xs \<and> length xs \<le> 2 ^ 53
        \<and> EditDatasetEval_init L d p ''train'' (s0, s1, s2) r = Inr vtr
        \<and> EditDatasetEval_init L d p ''val'' (s0, s1, s2) r = Inr vva
        \<and> EditDatasetEval_init L d p ''test'' (s0, s1, s2) r = Inr vte \<longrightarrow>
        (\<exists>i0 i1. i0 \<le> i1 \<and> i1 \<le> length xs
         \<and> seeds vtr = take i0 xs
         \<and> seeds vva = take (i1 - i0) (drop i0 xs)
         \<and> seeds vte = drop i1 xs
         \<and> seeds vtr @ seeds vva @ seeds vte = xs))
   \<and> (load_info d (os_path_join p [''info.json'']) = Inr ()
      \<and> read_csv d (os_path_join p [''EPIC100_annotations.csv'']) = Inr rows
      \<and> length rows \<le> 2 ^ 53
      \<and> EpicEditDataset_init L d ng p ''train'' (s0, s1, s2) lo hi cr fp = Inr (etr, g1)
      \<and> EpicEditDataset_init L d ng p ''val'' (s0, s1, s2) lo hi cr fp = Inr (eva, g2)
      \<and> EpicEditDataset_init L d ng p ''test'' (s0, s1, s2) lo hi cr fp = Inr (ete, g3) \<longrightarrow>
        (\<exists>ys i0 i1. ys = fst (np_random_shuffle (map row_to_meta rows) ng)
         \<and> mset ys = mset (map row_to_meta rows)
         \<and> i0 \<le> i1 \<and> i1 \<le> length ys
         \<and> metadata etr = take i0 ys
         \<and> metadata eva = take (i1 - i0) (drop i0 ys)
         \<and> metadata ete = drop i1 ys
         \<and> metadata etr @ metadata eva @ metadata ete = ys))"
proof (intro conjI impI)
  assume a: "load_seeds d (os_path_join p [''seeds.json'']) = Inr xs \<and> length xs \<le> 2 ^ 53
        \<and> fl64 L (s0 + s1) \<le> 2 ^ 53"
  then have load: "load_seeds d (os_path_join p [''seeds.json'']) = Inr xs" and n: "length xs \<le> 2 ^ 53"
    and bound: "fl64 L (s0 + s1) \<le> 2 ^ 53"
    by simp_all
  define i0 where "i0 = min (nat \<lfloor>fl64 L (s0 * real (length xs))\<rfloor>) (length xs)"
  define i1 where "i1 = min (nat \<lfloor>fl64 L (fl64 L (s0 + s1) * real (length xs))\<rfloor>) (length xs)"
  from split_slices [OF assms(1-4) n bound]
  have le: "i0 \<le> i1" "i1 \<le> length xs"
    and tr: "split_slice (fl64 L) (0, s0) xs = Inr (take i0 xs)"
    and va: "split_slice (fl64 L) (s0, fl64 L (s0 + s1)) xs = Inr (take (i1 - i0) (drop i0 xs))"
    and te: "split_slice (fl64 L) (fl64 L (s0 + s1), 1) xs = Inr (drop i1 xs)"
    unfolding i0_def i1_def by simp_all
  note cat = partition_concat [OF le, of]
  note edit = EditDataset_init_run [OF _ assms(5) load split_table_lookup(1) tr, OF valid_splits(1)]
    EditDataset_init_run [OF _ assms(5) load split_table_lookup(2) va, OF valid_splits(2)]
    EditDataset_init_run [OF _ assms(5) load split_table_lookup(3) te, OF valid_splits(3)]
  show "\<exists>tr va te i0 i1.
           EditDataset_init L d p ''train'' (s0, s1, s2) lo hi cr fp = Inr tr
         \<and> EditDataset_init L d p ''val'' (s0, s1, s2) lo hi cr fp = Inr va
         \<and> EditDataset_init L d p ''test'' (s0, s1, s2) lo hi cr fp = Inr te
         \<and> i0 = min (nat \<lfloor>fl64 L (s0 * real (length xs))\<rfloor>) (length xs)
         \<and> i1 = min (nat \<lfloor>fl64 L (fl64 L (s0 + s1) * real (length xs))\<rfloor>) (length xs)
         \<and> i0 \<le> i1 \<and> i1 \<le> length xs
         \<and> EditDataset.seeds tr = take i0 xs
         \<and> EditDataset.seeds va = take (i1 - i0) (drop i0 xs)
         \<and> EditDataset.seeds te = drop i1 xs
         \<and> EditDataset.seeds tr @ EditDataset.seeds va @ EditDataset.seeds te = xs"
    unfolding edit using le cat by (simp add: i0_def [symmetric] i1_def [symmetric])
  note eval = EditDatasetEval_init_run [OF _ assms(5) load split_table_lookup(1) tr, OF valid_splits(1)]
    EditDatasetEval_init_run [OF _ assms(5) load split_table_lookup(2) va, OF valid_splits(2)]
    EditDatasetEval_init_run [OF _ assms(5) load split_table_lookup(3) te, OF valid_splits(3)]
  show "\<exists>tr va te i0 i1.
           EditDatasetEval_init L d p ''train'' (s0, s1, s2) r = Inr tr
         \<and> EditDatasetEval_init L d p ''val'' (s0, s1, s2) r = Inr va
         \<and> EditDatasetEval_init L d p ''test'' (s0, s1, s2) r = Inr te
         \<and> i0 = min (nat \<lfloor>fl64 L (s0 * real (length xs))\<rfloor>) (length xs)
         \<and> i1 = min (nat \<lfloor>fl64 L (fl64 L (s0 + s1) * real (length xs))\<rfloor>) (length xs)
         \<and> i0 \<le> i1 \<and> i1 \<le> length xs
         \<and> seeds tr = take i0 xs
         \<and> seeds va = take (i1 - i0) (drop i0 xs)
         \<and> seeds te = drop i1 xs
         \<and> seeds tr @ seeds va @ seeds te = xs"
    unfolding eval using le cat by (simp add: i0_def [symmetric] i1_def [symmetric])
next
  assume a: "load_info d (os_path_join p [''info.json'']) = Inr ()
      \<and> read_csv d (os_path_join p [''EPIC100_annotations.csv'']) = Inr rows
      \<and> length rows \<le> 2 ^ 53 \<and> fl64 L (s0 + s1) \<le> 2 ^ 53"
  then have info: "load_info d (os_path_join p [''info.json'']) = Inr ()"
    and csv: "read_csv d (os_path_join p [''EPIC100_annotations.csv'']) = Inr rows"
    and n: "length rows \<le> 2 ^ 53" and bound: "fl64 L (s0 + s1) \<le> 2 ^ 53"
    by simp_all
  define ys where "ys = fst (np_random_shuffle (map row_to_meta rows) ng)"
  have perm: "mset ys = mset (map row_to_meta rows)"
    unfolding ys_def by (rule np_random_shuffle_mset)
  have "length ys = length rows"
    unfolding ys_def by (simp add: np_random_shuffle_length)
  with n have n': "length ys \<le> 2 ^ 53"
    by simp
  define i0 where "i0 = min (nat \<lfloor>fl64 L (s0 * real (length ys))\<rfloor>) (length ys)"
  define i1 where "i1 = min (nat \<lfloor>fl64 L (fl64 L (s0 + s1) * real (length ys))\<rfloor>) (length ys)"
  from split_slices [OF assms(1-4) n' bound]
  have le: "i0 \<le> i1" "i1 \<le> length ys"
    and tr: "split_slice (fl64 L) (0, s0) ys = Inr (take i0 ys)"
    and va: "split_slice (fl64 L) (s0, fl64 L (s0 + s1)) ys = Inr (take (i1 - i0) (drop i0 ys))"
    and te: "split_slice (fl64 L) (fl64 L (s0 + s1), 1) ys = Inr (drop i1 ys)"
    unfolding i0_def i1_def by simp_all
  note cat = partition_concat [OF le]
  note epic = EpicEditDataset_init_run [OF _ assms(5) info csv split_table_lookup(1) tr [unfolded ys_def], OF valid_splits(1)]
    EpicEditDataset_init_run [OF _ assms(5) info csv split_table_lookup(2) va [unfolded ys_def], OF valid_splits(2)]
    EpicEditDataset_init_run [OF _ assms(5) info csv split_table_lookup(3) te [unfolded ys_def], OF valid_splits(3)]
  let ?mk = "\<lambda>m. \<lparr>basedir = p, min_resize_res = lo, max_resize_res = hi, crop_res = cr,
      flip_prob = fp, info = (), pre_metadata = rows, metadata = m\<rparr>"
  let ?ng' = "snd (np_random_shuffle (map row_to_meta rows) ng)"
  have runs:
    "EpicEditDataset_init L d ng p ''train'' (s0, s1, s2) lo hi cr fp = Inr (?mk (take i0 ys), ?ng')"
    "EpicEditDataset_init L d ng p ''val'' (s0, s1, s2) lo hi cr fp = Inr (?mk (take (i1 - i0) (drop i0 ys)), ?ng')"
    "EpicEditDataset_init L d ng p ''test'' (s0, s1, s2) lo hi cr fp = Inr (?mk (drop i1 ys), ?ng')"
    unfolding epic by (simp_all flip: ys_def)
  have "EpicEditDataset_init L d ng p ''train'' (s0, s1, s2) lo hi cr fp = Inr (?mk (take i0 ys), ?ng')
         \<and> EpicEditDataset_init L d ng p ''val'' (s0, s1, s2) lo hi cr fp
             = Inr (?mk (take (i1 - i0) (drop i0 ys)), ?ng')
         \<and> EpicEditDataset_init L d ng p ''test'' (s0, s1, s2) lo hi cr fp = Inr (?mk (drop i1 ys), ?ng')
         \<and> ys = fst (np_random_shuffle (map row_to_meta rows) ng)
         \<and> mset ys = mset (map row_to_meta rows)
         \<and> i0 = min (nat \<lfloor>fl64 L (s0 * real (length ys))\<rfloor>) (length ys)
         \<and> i1 = min (nat \<lfloor>fl64 L (fl64 L (s0 + s1) * real (length ys))\<rfloor>) (length ys)
         \<and> i0 \<le> i1 \<and> i1 \<le> length ys
         \<and> metadata (?mk (take i0 ys)) = take i0 ys
         \<and> metadata (?mk (take (i1 - i0) (drop i0 ys))) = take (i1 - i0) (drop i0 ys)
         \<and> metadata (?mk (drop i1 ys)) = drop i1 ys
         \<and> metadata (?mk (take i0 ys)) @ metadata (?mk (take (i1 - i0) (drop i0 ys)))
             @ metadata (?mk (drop i1 ys)) = ys"
    using runs ys_def perm i0_def i1_def le cat by simp
  then show "\<exists>tr va te ng' ys i0 i1.
           EpicEditDataset_init L d ng p ''train'' (s0, s1, s2) lo hi cr fp = Inr (tr, ng')
         \<and> EpicEditDataset_init L d ng p ''val'' (s0, s1, s2) lo hi cr fp = Inr (va, ng')
         \<and> EpicEditDataset_init L d ng p ''test'' (s0, s1, s2) lo hi cr fp = Inr (te, ng')
         \<and> ys = fst (np_random_shuffle (map row_to_meta rows) ng)
         \<and> mset ys = mset (map row_to_meta rows)
         \<and> i0 = min (nat \<lfloor>fl64 L (s0 * real (length ys))\<rfloor>) (length ys)
         \<and> i1 = min (nat \<lfloor>fl64 L (fl64 L (s0 + s1) * real (length ys))\<rfloor>) (length ys)
         \<and> i0 \<le> i1 \<and> i1 \<le> length ys
         \<and> metadata tr = take i0 ys
         \<and> metadata va = take (i1 - i0) (drop i0 ys)
         \<and> metadata te = drop i1 ys
         \<and> metadata tr @ metadata va @ metadata te = ys"
    by blast
next
  assume a: "load_seeds d (os_path_join p [''seeds.json'']) = Inr xs \<and> length xs \<le> 2 ^ 53
        \<and> EditDataset_init L d p ''train'' (s0, s1, s2) lo hi cr fp = Inr dtr
        \<and> EditDataset_init L d p ''val'' (s0, s1, s2) lo hi cr fp = Inr dva
        \<and> EditDataset_init L d p ''test'' (s0, s1, s2) lo hi cr fp = Inr dte"
  then have load: "load_seeds d (os_path_join p [''seeds.json'']) = Inr xs" and n: "length xs \<le> 2 ^ 53"
    by simp_all
  note kept = split_slices_returned [OF assms(1-4) n]
  from a have it: "EditDataset_init L d p ''train'' (s0, s1, s2) lo hi cr fp = Inr dtr"
    and iv: "EditDataset_init L d p ''val'' (s0, s1, s2) lo hi cr fp = Inr dva"
    and ie: "EditDataset_init L d p ''test'' (s0, s1, s2) lo hi cr fp = Inr dte"
    by simp_all
  have "split_slice (fl64 L) (0, s0) xs = Inr (EditDataset.seeds dtr)"
    "split_slice (fl64 L) (s0, fl64 L (s0 + s1)) xs = Inr (EditDataset.seeds dva)"
    "split_slice (fl64 L) (fl64 L (s0 + s1), 1) xs = Inr (EditDataset.seeds dte)"
    using EditDataset_init_Inr [OF it load split_table_lookup(1)]
      EditDataset_init_Inr [OF iv load split_table_lookup(2)]
      EditDataset_init_Inr [OF ie load split_table_lookup(3)] by simp_all
  with kept partition_concat [OF kept(1,2)]
  show "\<exists>i0 i1. i0 \<le> i1 \<and> i1 \<le> length xs
         \<and> EditDataset.seeds dtr = take i0 xs
         \<and> EditDataset.seeds dva = take (i1 - i0) (drop i0 xs)
         \<and> EditDataset.seeds dte = drop i1 xs
         \<and> EditDataset.seeds dtr @ EditDataset.seeds dva @ EditDataset.seeds dte = xs"
    by (intro exI conjI) simp_all
next
  assume a: "load_seeds d (os_path_join p [''seeds.json'']) = Inr xs \<and> length xs \<le> 2 ^ 53
        \<and> EditDatasetEval_init L d p ''train'' (s0, s1, s2) r = Inr vtr
        \<and> EditDatasetEval_init L d p ''val'' (s0, s1, s2) r = Inr vva
        \<and> EditDatasetEval_init L d p ''test'' (s0, s1, s2) r = Inr vte"
  then have load: "load_seeds d (os_path_join p [''seeds.json'']) = Inr xs" and n: "length xs \<le> 2 ^ 53"
    by simp_all
  note kept = split_slices_returned [OF assms(1-4) n]
  from a have it: "EditDatasetEval_init L d p ''train'' (s0, s1, s2) r = Inr vtr"
    and iv: "EditDatasetEval_init L d p ''val'' (s0, s1, s2) r = Inr vva"
    and ie: "EditDatasetEval_init L d p ''test'' (s0, s1, s2) r = Inr vte"
    by simp_all
  have "split_slice (fl64 L) (0, s0) xs = Inr (seeds vtr)"
    "split_slice (fl64 L) (s0, fl64 L (s0 + s1)) xs = Inr (seeds vva)"
    "split_slice (fl64 L) (fl64 L (s0 + s1), 1) xs = Inr (seeds vte)"
    using EditDatasetEval_init_Inr [OF it load split_table_lookup(1)]
      EditDatasetEval_init_Inr [OF iv load split_table_lookup(2)]
      EditDatasetEval_init_Inr [OF ie load split_table_lookup(3)] by simp_all
  with kept partition_concat [OF kept(1,2)]
  show "\<exists>i0 i1. i0 \<le> i1 \<and> i1 \<le> length xs
         \<and> seeds vtr = take i0 xs
         \<and> seeds vva = take (i1 - i0) (drop i0 xs)
         \<and> seeds vte = drop i1 xs
         \<and> seeds vtr @ seeds vva @ seeds vte = xs"
    by (intro exI conjI) simp_all
next
  assume a: "load_info d (os_path_join p [''info.json'']) = Inr ()
      \<and> read_csv d (os_path_join p [''EPIC100_annotations.csv'']) = Inr rows
      \<and> length rows \<le> 2 ^ 53
      \<and> EpicEditDataset_init L d ng p ''train'' (s0, s1, s2) lo hi cr fp = Inr (etr, g1)
      \<and> EpicEditDataset_init L d ng p ''val'' (s0, s1, s2) lo hi cr fp = Inr (eva, g2)
      \<and> EpicEditDataset_init L d ng p ''test'' (s0, s1, s2) lo hi cr fp = Inr (ete, g3)"
  then have csv: "read_csv d (os_path_join p [''EPIC100_annotations.csv'']) = Inr rows"
    and n: "length rows \<le> 2 ^ 53"
    by simp_all
  define ys where "ys = fst (np_random_shuffle (map row_to_meta rows) ng)"
  have perm: "mset ys = mset (map row_to_meta rows)"
    unfolding ys_def by (rule np_random_shuffle_mset)
  have "length ys = length rows"
    unfolding ys_def by (simp add: np_random_shuffle_length)
  with n have n': "length ys \<le> 2 ^ 53"
    by simp
  note kept = split_slices_returned [OF assms(1-4) n']
  from a have it: "EpicEditDataset_init L d ng p ''train'' (s0, s1, s2) lo hi cr fp = Inr (etr, g1)"
    and iv: "EpicEditDataset_init L d ng p ''val'' (s0, s1, s2) lo hi cr fp = Inr (eva, g2)"
    and ie: "EpicEditDataset_init L d ng p ''test'' (s0, s1, s2) lo hi cr fp = Inr (ete, g3)"
    by simp_all
  have "split_slice (fl64 L) (0, s0) ys = Inr (metadata etr)"
    "split_slice (fl64 L) (s0, fl64 L (s0 + s1)) ys = Inr (metadata eva)"
    "split_slice (fl64 L) (fl64 L (s0 + s1), 1) ys = Inr (metadata ete)"
    unfolding ys_def
    using EpicEditDataset_init_Inr [OF it csv split_table_lookup(1)]
      EpicEditDataset_init_Inr [OF iv csv split_table_lookup(2)]
      EpicEditDataset_init_Inr [OF ie csv split_table_lookup(3)] by simp_all
  with kept partition_concat [OF kept(1,2)] perm
  have "ys = fst (np_random_shuffle (map row_to_meta rows) ng)
         \<and> mset ys = mset (map row_to_meta rows)
         \<and> min (nat \<lfloor>fl64 L (s0 * real (length ys))\<rfloor>) (length ys)
             \<le> min (nat \<lfloor>fl64 L (fl64 L (s0 + s1) * real (length ys))\<rfloor>) (length ys)
         \<and> min (nat \<lfloor>fl64 L (fl64 L (s0 + s1) * real (length ys))\<rfloor>) (length ys) \<le> length ys
         \<and> metadata etr = take (min (nat \<lfloor>fl64 L (s0 * real (length ys))\<rfloor>) (length ys)) ys
         \<and> metadata eva = take (min (nat \<lfloor>fl64 L (fl64 L (s0 + s1) * real (length ys))\<rfloor>) (length ys)
               - min (nat \<lfloor>fl64 L (s0 * real (length ys))\<rfloor>) (length ys))
             (drop (min (nat \<lfloor>fl64 L (s0 * real (length ys))\<rfloor>) (length ys)) ys)
         \<and> metadata ete = drop (min (nat \<lfloor>fl64 L (fl64 L (s0 + s1) * real (length ys))\<rfloor>) (length ys)) ys
         \<and> metadata etr @ metadata eva @ metadata ete = ys"
    by (simp add: ys_def)
  then show "\<exists>ys i0 i1. ys = fst (np_random_shuffle (map row_to_meta rows) ng)
         \<and> mset ys = mset (map row_to_meta rows)
         \<and> i0 \<le> i1 \<and> i1 \<le> length ys
         \<and> metadata etr = take i0 ys
         \<and> metadata eva = take (i1 - i0) (drop i0 ys)
         \<and> metadata ete = drop i1 ys
         \<and> metadata etr @ metadata eva @ metadata ete = ys"
    by blast
qed


theorem splits_partition_manifest_witness:
  "rounding 53 (fl64 example_lib)
   \<and> fl64 example_lib (1 / 2) = 1 / 2 \<and> (0::real) \<le> 1 / 2 \<and> (0::real) \<le> 1 / 4
   \<and> py_sum (fl64 example_lib) (1 / 2, 1 / 4, 1 / 4) = 1
   \<and> fl64 example_lib (1 / 2 + 1 / 4) \<le> 2 ^ 53
   \<and> load_seeds edit_disk (os_path_join ''/data'' [''seeds.json''])
        = Inr [(''a'', [7]), (''b'', [7]), (''c'', [7]), (''d'', [7])]
   \<and> length [(''a'', [7::int]), (''b'', [7]), (''c'', [7]), (''d'', [7])] \<le> 2 ^ 53
   \<and> (\<exists>tr va te.
         EditDataset_init example_lib edit_disk ''/data'' ''train'' (1 / 2, 1 / 4, 1 / 4) 2 2 2 1 = Inr tr
       \<and> EditDataset_init example_lib edit_disk ''/data'' ''val'' (1 / 2, 1 / 4, 1 / 4) 2 2 2 1 = Inr va
       \<and> EditDataset_init example_lib edit_disk ''/data'' ''test'' (1 / 2, 1 / 4, 1 / 4) 2 2 2 1 = Inr te
       \<and> EditDataset.seeds tr = [(''a'', [7]), (''b'', [7])]
       \<and> EditDataset.seeds va = [(''c'', [7])]
       \<and> EditDataset.seeds te = [(''d'', [7])])
   \<and> load_info epic_disk2 (os_path_join ''/epic2'' [''info.json'']) = Inr ()
   \<and> read_csv epic_disk2 (os_path_join ''/epic2'' [''EPIC100_annotations.csv'']) =
       Inr [\<lparr>participant_id = ''P01'', video_id = ''P01_01'', start_frame = 8,
              stop_frame = 202, row_narration = ''open door''\<rparr>,
            \<lparr>participant_id = ''P01'', video_id = ''P01_01'', start_frame = 300,
              stop_frame = 420, row_narration = ''close door''\<rparr>]
   \<and> length [\<lparr>participant_id = ''P01'', video_id = ''P01_01'', start_frame = 8,
              stop_frame = 202, row_narration = ''open door''\<rparr>,
            \<lparr>participant_id = ''P01'', video_id = ''P01_01'', start_frame = 300,
              stop_frame = 420, row_narration = ''close door''\<rparr>] \<le> 2 ^ 53
   \<and> (\<exists>tr va te ng'.
        EpicEditDataset_init example_lib epic_disk2 id ''/epic2'' ''train'' (1 / 2, 1 / 4, 1 / 4) 2 2 2 1
          = Inr (tr, ng')
      \<and> EpicEditDataset_init example_lib epic_disk2 id ''/epic2'' ''val'' (1 / 2, 1 / 4, 1 / 4) 2 2 2 1
          = Inr (va, ng')
      \<and> EpicEditDataset_init example_lib epic_disk2 id ''/epic2'' ''test'' (1 / 2, 1 / 4, 1 / 4) 2 2 2 1
          = Inr (te, ng')
      \<and> mset (metadata tr @ metadata va @ metadata te) = mset (map row_to_meta
           [\<lparr>participant_id = ''P01'', video_id = ''P01_01'', start_frame = 8,
              stop_frame = 202, row_narration = ''open door''\<rparr>,
            \<lparr>participant_id = ''P01'', video_id = ''P01_01'', start_frame = 300,
              stop_frame = 420, row_narration = ''close door''\<rparr>]))
   \<and> (\<exists>tr va te.
         EditDataset_init example_lib edit_disk ''/data'' ''train'' (1 / 2, 1 / 4, 1 / 4) 2 2 2 1 = Inr tr
       \<and> EditDataset_init example_lib edit_disk ''/data'' ''val'' (1 / 2, 1 / 4, 1 / 4) 2 2 2 1 = Inr va
       \<and> EditDataset_init example_lib edit_disk ''/data'' ''test'' (1 / 2, 1 / 4, 1 / 4) 2 2 2 1 = Inr te
       \<and> EditDataset.seeds tr @ EditDataset.seeds va @ EditDataset.seeds te = [(''a'', [7]), (''b'', [7]), (''c'', [7]), (''d'', [7])])
   \<and> (\<exists>tr va te.
         EditDatasetEval_init example_lib edit_disk ''/data'' ''train'' (1 / 2, 1 / 4, 1 / 4) 2 = Inr tr
       \<and> EditDatasetEval_init example_lib edit_disk ''/data'' ''val'' (1 / 2, 1 / 4, 1 / 4) 2 = Inr va
       \<and> EditDatasetEval_init example_lib edit_disk ''/data'' ''test'' (1 / 2, 1 / 4, 1 / 4) 2 = Inr te
       \<and> seeds tr @ seeds va @ seeds te = [(''a'', [7]), (''b'', [7]), (''c'', [7]), (''d'', [7])])
   \<and> (\<exists>tr va te ng'.
        EpicEditDataset_init example_lib epic_disk2 id ''/epic2'' ''train'' (1 / 2, 1 / 4, 1 / 4) 2 2 2 1
          = Inr (tr, ng')
      \<and> EpicEditDataset_init example_lib epic_disk2 id ''/epic2'' ''val'' (1 / 2, 1 / 4, 1 / 4) 2 2 2 1
          = Inr (va, ng')
      \<and> EpicEditDataset_init example_lib epic_disk2 id ''/epic2'' ''test'' (1 / 2, 1 / 4, 1 / 4) 2 2 2 1
          = Inr (te, ng')
      \<and> metadata tr @ metadata va @ metadata te
          = fst (np_random_shuffle (map row_to_meta
           [\<lparr>participant_id = ''P01'', video_id = ''P01_01'', start_frame = 8,
              stop_frame = 202, row_narration = ''open door''\<rparr>,
            \<lparr>participant_id = ''P01'', video_id = ''P01_01'', start_frame = 300,
              stop_frame = 420, row_narration = ''close door''\<rparr>]) id))"
proof -
  have r: "rounding 53 (fl64 example_lib)"
    by (simp add: example_lib_def rounding_exact)
  have s: "fl64 example_lib (1 / 2) = 1 / 2" "(0::real) \<le> 1 / 2" "(0::real) \<le> 1 / 4"
    by (simp_all add: example_lib_def)
  have load: "load_seeds edit_disk (os_path_join ''/data'' [''seeds.json''])
      = Inr [(''a'', [7]), (''b'', [7]), (''c'', [7]), (''d'', [7])]"
    by (simp add: edit_example_paths edit_example_files)
  have len: "length [(''a'', [7::int]), (''b'', [7]), (''c'', [7]), (''d'', [7])] \<le> 2 ^ 53"
    by simp
  have bound: "fl64 example_lib (1 / 2 + 1 / 4) \<le> 2 ^ 53"
    by (simp add: example_lib_def)
  note inst = splits_partition_manifest [OF r s example_sums(1)]
  from inst [where d = edit_disk and p = "''/data''" and lo = 2 and hi = 2 and cr = 2 and fp = 1,
      THEN conjunct1, THEN mp, OF conjI, OF load conjI, OF len bound, THEN conjunct1]
  have edit: "\<exists>tr va te.
         EditDataset_init example_lib edit_disk ''/data'' ''train'' (1 / 2, 1 / 4, 1 / 4) 2 2 2 1 = Inr tr
       \<and> EditDataset_init example_lib edit_disk ''/data'' ''val'' (1 / 2, 1 / 4, 1 / 4) 2 2 2 1 = Inr va
       \<and> EditDataset_init example_lib edit_disk ''/data'' ''test'' (1 / 2, 1 / 4, 1 / 4) 2 2 2 1 = Inr te
       \<and> EditDataset.seeds tr = [(''a'', [7]), (''b'', [7])]
       \<and> EditDataset.seeds va = [(''c'', [7])]
       \<and> EditDataset.seeds te = [(''d'', [7])]"
    by (auto simp: example_lib_def)
  then obtain dtr dva dte where dinit:
    "EditDataset_init example_lib edit_disk ''/data'' ''train'' (1 / 2, 1 / 4, 1 / 4) 2 2 2 1 = Inr dtr"
    "EditDataset_init example_lib edit_disk ''/data'' ''val'' (1 / 2, 1 / 4, 1 / 4) 2 2 2 1 = Inr dva"
    "EditDataset_init example_lib edit_disk ''/data'' ''test'' (1 / 2, 1 / 4, 1 / 4) 2 2 2 1 = Inr dte"
    by blast
  from inst [where d = edit_disk and p = "''/data''" and lo = 2 and hi = 2 and cr = 2 and fp = 1,
      THEN conjunct2, THEN conjunct2, THEN conjunct1, THEN mp, OF conjI, OF load conjI, OF len conjI,
      OF dinit(1) conjI, OF dinit(2) dinit(3)]
  have "EditDataset.seeds dtr @ EditDataset.seeds dva @ EditDataset.seeds dte = [(''a'', [7]), (''b'', [7]), (''c'', [7]), (''d'', [7])]"
    by blast
  with dinit have edit_returned: "\<exists>tr va te.
         EditDataset_init example_lib edit_disk ''/data'' ''train'' (1 / 2, 1 / 4, 1 / 4) 2 2 2 1 = Inr tr
       \<and> EditDataset_init example_lib edit_disk ''/data'' ''val'' (1 / 2, 1 / 4, 1 / 4) 2 2 2 1 = Inr va
       \<and> EditDataset_init example_lib edit_disk ''/data'' ''test'' (1 / 2, 1 / 4, 1 / 4) 2 2 2 1 = Inr te
       \<and> EditDataset.seeds tr @ EditDataset.seeds va @ EditDataset.seeds te = [(''a'', [7]), (''b'', [7]), (''c'', [7]), (''d'', [7])]"
    by blast
  from inst [where d = edit_disk and p = "''/data''" and r = 2,
      THEN conjunct1, THEN mp, OF conjI, OF load conjI, OF len bound, THEN conjunct2]
  obtain vtr vva vte where vinit:
    "EditDatasetEval_init example_lib edit_disk ''/data'' ''train'' (1 / 2, 1 / 4, 1 / 4) 2 = Inr vtr"
    "EditDatasetEval_init example_lib edit_disk ''/data'' ''val'' (1 / 2, 1 / 4, 1 / 4) 2 = Inr vva"
    "EditDatasetEval_init example_lib edit_disk ''/data'' ''test'' (1 / 2, 1 / 4, 1 / 4) 2 = Inr vte"
    by blast
  from inst [where d = edit_disk and p = "''/data''" and r = 2,
      THEN conjunct2, THEN conjunct2, THEN conjunct2, THEN conjunct1, THEN mp, OF conjI, OF load conjI,
      OF len conjI, OF vinit(1) conjI, OF vinit(2) vinit(3)]
  have "seeds vtr @ seeds vva @ seeds vte = [(''a'', [7]), (''b'', [7]), (''c'', [7]), (''d'', [7])]"
    by blast
  with vinit have eval_returned: "\<exists>tr va te.
         EditDatasetEval_init example_lib edit_disk ''/data'' ''train'' (1 / 2, 1 / 4, 1 / 4) 2 = Inr tr
       \<and> EditDatasetEval_init example_lib edit_disk ''/data'' ''val'' (1 / 2, 1 / 4, 1 / 4) 2 = Inr va
       \<and> EditDatasetEval_init example_lib edit_disk ''/data'' ''test'' (1 / 2, 1 / 4, 1 / 4) 2 = Inr te
       \<and> seeds tr @ seeds va @ seeds te = [(''a'', [7]), (''b'', [7]), (''c'', [7]), (''d'', [7])]"
    by blast
  have rows: "length [\<lparr>participant_id = ''P01'', video_id = ''P01_01'', start_frame = 8,
            stop_frame = 202, row_narration = ''open door''\<rparr>,
          \<lparr>participant_id = ''P01'', video_id = ''P01_01'', start_frame = 300,
            stop_frame = 420, row_narration = ''close door''\<rparr>] \<le> 2 ^ 53"
    by simp
  from inst [where d = epic_disk2 and p = "''/epic2''" and lo = 2 and hi = 2 and cr = 2 and fp = 1
      and ng = id, THEN conjunct2, THEN conjunct1, THEN mp, OF conjI, OF epic2_files(1) conjI,
      OF epic2_files(2) conjI, OF rows bound]
  obtain tr va te ng' ys where einit:
    "EpicEditDataset_init example_lib epic_disk2 id ''/epic2'' ''train'' (1 / 2, 1 / 4, 1 / 4) 2 2 2 1
       = Inr (tr, ng')"
    "EpicEditDataset_init example_lib epic_disk2 id ''/epic2'' ''val'' (1 / 2, 1 / 4, 1 / 4) 2 2 2 1
       = Inr (va, ng')"
    "EpicEditDataset_init example_lib epic_disk2 id ''/epic2'' ''test'' (1 / 2, 1 / 4, 1 / 4) 2 2 2 1
       = Inr (te, ng')"
    "mset ys = mset (map row_to_meta
       [\<lparr>participant_id = ''P01'', video_id = ''P01_01'', start_frame = 8,
          stop_frame = 202, row_narration = ''open door''\<rparr>,
        \<lparr>participant_id = ''P01'', video_id = ''P01_01'', start_frame = 300,
          stop_frame = 420, row_narration = ''close door''\<rparr>])"
    "metadata tr @ metadata va @ metadata te = ys"
    by blast
  then have epic: "\<exists>tr va te ng'.
        EpicEditDataset_init example_lib epic_disk2 id ''/epic2'' ''train'' (1 / 2, 1 / 4, 1 / 4) 2 2 2 1
          = Inr (tr, ng')
      \<and> EpicEditDataset_init example_lib epic_disk2 id ''/epic2'' ''val'' (1 / 2, 1 / 4, 1 / 4) 2 2 2 1
          = Inr (va, ng')
      \<and> EpicEditDataset_init example_lib epic_disk2 id ''/epic2'' ''test'' (1 / 2, 1 / 4, 1 / 4) 2 2 2 1
          = Inr (te, ng')
      \<and> mset (metadata tr @ metadata va @ metadata te) = mset (map row_to_meta
           [\<lparr>participant_id = ''P01'', video_id = ''P01_01'', start_frame = 8,
              stop_frame = 202, row_narration = ''open door''\<rparr>,
            \<lparr>participant_id = ''P01'', video_id = ''P01_01'', start_frame = 300,
              stop_frame = 420, row_narration = ''close door''\<rparr>])"
    by metis
  from inst [where d = epic_disk2 and p = "''/epic2''" and lo = 2 and hi = 2 and cr = 2 and fp = 1
      and ng = id, THEN conjunct2, THEN conjunct2, THEN conjunct2, THEN conjunct2, THEN mp,
      OF conjI, OF epic2_files(1) conjI, OF epic2_files(2) conjI, OF rows conjI,
      OF einit(1) conjI, OF einit(2) einit(3)]
  have "metadata tr @ metadata va @ metadata te
          = fst (np_random_shuffle (map row_to_meta
           [\<lparr>participant_id = ''P01'', video_id = ''P01_01'', start_frame = 8,
              stop_frame = 202, row_narration = ''open door''\<rparr>,
            \<lparr>participant_id = ''P01'', video_id = ''P01_01'', start_frame = 300,
              stop_frame = 420, row_narration = ''close door''\<rparr>]) id)"
    by blast
  with einit(1-3) have epic_returned: "\<exists>tr va te ng'.
        EpicEditDataset_init example_lib epic_disk2 id ''/epic2'' ''train'' (1 / 2, 1 / 4, 1 / 4) 2 2 2 1
          = Inr (tr, ng')
      \<and> EpicEditDataset_init example_lib epic_disk2 id ''/epic2'' ''val'' (1 / 2, 1 / 4, 1 / 4) 2 2 2 1
          = Inr (va, ng')
      \<and> EpicEditDataset_init example_lib epic_disk2 id ''/epic2'' ''test'' (1 / 2, 1 / 4, 1 / 4) 2 2 2 1
          = Inr (te, ng')
      \<and> metadata tr @ metadata va @ metadata te
          = fst (np_random_shuffle (map row_to_meta
           [\<lparr>participant_id = ''P01'', video_id = ''P01_01'', start_frame = 8,
              stop_frame = 202, row_narration = ''open door''\<rparr>,
            \<lparr>participant_id = ''P01'', video_id = ''P01_01'', start_frame = 300,
              stop_frame = 420, row_narration = ''close door''\<rparr>]) id)"
    by blast
  from r s example_sums(1) bound load len edit epic2_files rows epic edit_returned eval_returned
    epic_returned show ?thesis
    by (intro conjI)
qed


theorem splits_overlap_counterexample:
  "py_sum (fl64 example_lib) (- (1 / 2), 1 / 2, 1) = 1
   \<and> load_seeds edit_disk (os_path_join ''/data'' [''seeds.json''])
        = Inr [(''a'', [7]), (''b'', [7]), (''c'', [7]), (''d'', [7])]
   \<and> EditDataset_init example_lib edit_disk ''/data'' ''train'' (- (1 / 2), 1 / 2, 1) 2 2 2 1
        = Inr \<lparr>EditDataset.path = ''/data'', EditDataset.min_resize_res = 2,
               EditDataset.max_resize_res = 2, EditDataset.crop_res = 2, EditDataset.flip_prob = 1,
               EditDataset.seeds = [(''a'', [7]), (''b'', [7])]\<rparr>
   \<and> EditDataset_init example_lib edit_disk ''/data'' ''val'' (- (1 / 2), 1 / 2, 1) 2 2 2 1
        = Inr \<lparr>EditDataset.path = ''/data'', EditDataset.min_resize_res = 2,
               EditDataset.max_resize_res = 2, EditDataset.crop_res = 2, EditDataset.flip_prob = 1,
               EditDataset.seeds = []\<rparr>
   \<and> EditDataset_init example_lib edit_disk ''/data'' ''test'' (- (1 / 2), 1 / 2, 1) 2 2 2 1
        = Inr \<lparr>EditDataset.path = ''/data'', EditDataset.min_resize_res = 2,
               EditDataset.max_resize_res = 2, EditDataset.crop_res = 2, EditDataset.flip_prob = 1,
               EditDataset.seeds = [(''a'', [7]), (''b'', [7]), (''c'', [7]), (''d'', [7])]\<rparr>
   \<and> [(''a'', [7::int]), (''b'', [7])] @ [] @ [(''a'', [7]), (''b'', [7]), (''c'', [7]), (''d'', [7])]
        \<noteq> [(''a'', [7]), (''b'', [7]), (''c'', [7]), (''d'', [7])]
   \<and> py_sum (fl64 example_lib) (1 / 2, 1 / 2, 0) = 1
   \<and> EpicEditDataset_init example_lib epic_disk2 id ''/epic2'' ''train'' (1 / 2, 1 / 2, 0) 2 2 2 1
        = Inr (\<lparr>basedir = ''/epic2'', min_resize_res = 2, max_resize_res = 2, crop_res = 2,
                flip_prob = 1, info = (),
                pre_metadata =
                  [\<lparr>participant_id = ''P01'', video_id = ''P01_01'', start_frame = 8,
                     stop_frame = 202, row_narration = ''open door''\<rparr>,
                   \<lparr>participant_id = ''P01'', video_id = ''P01_01'', start_frame = 300,
                     stop_frame = 420, row_narration = ''close door''\<rparr>],
                metadata = [\<lparr>part = ''P01'', clip = ''P01_01'', start = 300, stop = 420,
                              narration = ''close door''\<rparr>]\<rparr>,
               rng_tail id)
   \<and> EpicEditDataset_init example_lib epic_disk2 (rng_tail id) ''/epic2'' ''val'' (1 / 2, 1 / 2, 0) 2 2 2 1
        = Inr (\<lparr>basedir = ''/epic2'', min_resize_res = 2, max_resize_res = 2, crop_res = 2,
                flip_prob = 1, info = (),
                pre_metadata =
                  [\<lparr>participant_id = ''P01'', video_id = ''P01_01'', start_frame = 8,
                     stop_frame = 202, row_narration = ''open door''\<rparr>,
                   \<lparr>participant_id = ''P01'', video_id = ''P01_01'', start_frame = 300,
                     stop_frame = 420, row_narration = ''close door''\<rparr>],
                metadata = [\<lparr>part = ''P01'', clip = ''P01_01'', start = 300, stop = 420,
                              narration = ''close door''\<rparr>]\<rparr>,
               rng_tail (rng_tail id))
   \<and> EpicEditDataset_init example_lib epic_disk2 (rng_tail (rng_tail id)) ''/epic2'' ''test''
          (1 / 2, 1 / 2, 0) 2 2 2 1
        = Inr (\<lparr>basedir = ''/epic2'', min_resize_res = 2, max_resize_res = 2, crop_res = 2,
                flip_prob = 1, info = (),
                pre_metadata =
                  [\<lparr>participant_id = ''P01'', video_id = ''P01_01'', start_frame = 8,
                     stop_frame = 202, row_narration = ''open door''\<rparr>,
                   \<lparr>participant_id = ''P01'', video_id = ''P01_01'', start_frame = 300,
                     stop_frame = 420, row_narration = ''close door''\<rparr>],
                metadata = []\<rparr>,
               rng_tail (rng_tail (rng_tail id)))"
proof -
  have load: "load_seeds edit_disk (os_path_join ''/data'' [''seeds.json''])
      = Inr [(''a'', [7]), (''b'', [7]), (''c'', [7]), (''d'', [7])]"
    by (simp add: edit_example_paths edit_example_files)
  note edit =
    EditDataset_init_run [OF _ example_sum_negative load split_table_lookup(1)
      example_slices_negative(1), OF valid_splits(1)]
    EditDataset_init_run [OF _ example_sum_negative load split_table_lookup(2)
      example_slices_negative(2), OF valid_splits(2)]
    EditDataset_init_run [OF _ example_sum_negative load split_table_lookup(3)
      example_slices_negative(3), OF valid_splits(3)]
  have sl: "split_slice (fl64 example_lib) (0, 1 / 2)
       (fst (np_random_shuffle (map row_to_meta [a, b]) id)) = Inr [row_to_meta b]"
    "split_slice (fl64 example_lib) (1 / 2, fl64 example_lib (1 / 2 + 1 / 2))
       (fst (np_random_shuffle (map row_to_meta [a, b]) (rng_tail id))) = Inr [row_to_meta b]"
    "split_slice (fl64 example_lib) (fl64 example_lib (1 / 2 + 1 / 2), 1)
       (fst (np_random_shuffle (map row_to_meta [a, b]) (rng_tail (rng_tail id)))) = Inr []" for a b
    unfolding list.map example_shuffles fst_conv by (rule example_slices_halves)+
  note epic =
    EpicEditDataset_init_run [OF _ example_sum_halves epic2_files split_table_lookup(1)
      sl(1), OF valid_splits(1)]
    EpicEditDataset_init_run [OF _ example_sum_halves epic2_files split_table_lookup(2)
      sl(2), OF valid_splits(2)]
    EpicEditDataset_init_run [OF _ example_sum_halves epic2_files split_table_lookup(3)
      sl(3), OF valid_splits(3)]
  show ?thesis
    unfolding edit epic
    by (simp add: example_sum_negative example_sum_halves edit_example_paths edit_example_files
        example_shuffles row_to_meta_def)
qed

section \<open>Errors on inputs whose files exist\<close>




end
